theory Spec2Isabelle
  imports Complex_Main "HOL-Library.Sublist" "HOL-Library.Log_Nat"
begin

section \<open>Strings\<close>

text \<open>
  A JavaScript string is a sequence of UTF-16 code units; \<open>length\<close> counts code units and
  \<open>charCodeAt\<close> returns one. A code unit is represented by its number (0 to 65535).
\<close>

type_synonym jsstring = "nat list"

text \<open>The character class \<open>\s\<close> of a JavaScript regular expression.\<close>

definition is_space :: "nat \<Rightarrow> bool" where
  "is_space c =
     (c = 9 \<or> c = 10 \<or> c = 11 \<or> c = 12 \<or> c = 13 \<or> c = 32 \<or> c = 160 \<or> c = 5760
      \<or> (8192 \<le> c \<and> c \<le> 8202) \<or> c = 8232 \<or> c = 8233 \<or> c = 8239 \<or> c = 8287
      \<or> c = 12288 \<or> c = 65279)"

text \<open>The complemented class \<open>[^a-z0-9]\<close>.\<close>

definition non_alnum :: "nat \<Rightarrow> bool" where
  "non_alnum c = (\<not> ((97 \<le> c \<and> c \<le> 122) \<or> (48 \<le> c \<and> c \<le> 57)))"

text \<open>
  \<open>s.split(/[C]+/)\<close> for a character class \<open>C\<close>: the pieces of \<open>s\<close> between the maximal
  runs of characters of \<open>C\<close>. A run at the start or at the end of \<open>s\<close> leaves an empty piece
  there, and the empty string splits into one empty piece.
\<close>

function js_split :: "(nat \<Rightarrow> bool) \<Rightarrow> jsstring \<Rightarrow> jsstring list" where
  "js_split sep s =
     (let piece = takeWhile (\<lambda>c. \<not> sep c) s;
          rest = dropWhile (\<lambda>c. \<not> sep c) s
      in if rest = [] then [piece] else piece # js_split sep (dropWhile sep rest))"
  by pat_completeness auto
termination
proof (relation "measure (\<lambda>(sep, s). length s)")
  show "wf (measure (\<lambda>(sep, s). length s))" by simp
next
  fix sep :: "nat \<Rightarrow> bool" and s piece rest :: jsstring
  assume rest: "rest = dropWhile (\<lambda>c. \<not> sep c) s" and ne: "rest \<noteq> []"
  from ne obtain x xs where x: "rest = x # xs" by (cases rest) auto
  have "\<not> \<not> sep (hd rest)"
    unfolding rest by (rule hd_dropWhile) (use ne rest in simp)
  then have "sep x" using x by simp
  then have "dropWhile sep rest = dropWhile sep xs" using x by simp
  then have "length (dropWhile sep rest) \<le> length xs" by (simp add: length_dropWhile_le)
  moreover have "length rest \<le> length s" using rest by (simp add: length_dropWhile_le)
  ultimately have "length (dropWhile sep rest) < length s" using x by simp
  then show "((sep, dropWhile sep rest), (sep, s)) \<in> measure (\<lambda>(sep, s). length s)" by simp
qed

text \<open>\<open>hay.indexOf(q)\<close>: the first position at which \<open>q\<close> occurs in \<open>hay\<close>, or -1.\<close>

fun indexOf :: "jsstring \<Rightarrow> jsstring \<Rightarrow> int" where
  "indexOf [] q = (if q = [] then 0 else - 1)"
| "indexOf (c # cs) q =
     (if prefix q (c # cs) then 0
      else (let r = indexOf cs q in if r = - 1 then - 1 else r + 1))"

definition js_includes :: "jsstring \<Rightarrow> jsstring \<Rightarrow> bool" where
  "js_includes hay t = (indexOf hay t \<noteq> - 1)"

definition abs_diff :: "nat \<Rightarrow> nat \<Rightarrow> nat" where
  "abs_diff m n = (if m \<le> n then n - m else m - n)"

section \<open>The normalizer\<close>

text \<open>
  \<open>norm\<close> is \<open>s.normalize("NFD").replace(/[\u0300-\u036f]/g, "").toLowerCase().trim()\<close>.
  The regular expression and \<open>trim\<close> work on the code units of the string.
  \<open>normalize\<close> and \<open>toLowerCase\<close> are built into the engine: they read the string as a
  sequence of code points and follow the Unicode Character Database, which is not part of
  the repository. The tables below are those of version 14.0 of the Unicode Standard.
  The function is named \<open>norm_js\<close>, since \<open>norm\<close> is a constant of the library.
\<close>

subsection \<open>Code points\<close>

text \<open>
  A code unit from D800 to DBFF followed by one from DC00 to DFFF is a surrogate pair and
  stands for one code point from 10000 to 10FFFF. Any other code unit is a code point by
  itself, also a surrogate without its partner.
\<close>

definition high_surrogate :: "nat \<Rightarrow> bool" where
  "high_surrogate c = (55296 \<le> c \<and> c \<le> 56319)"

definition low_surrogate :: "nat \<Rightarrow> bool" where
  "low_surrogate c = (56320 \<le> c \<and> c \<le> 57343)"

fun code_points :: "jsstring \<Rightarrow> nat list" where
  "code_points [] = []"
| "code_points [a] = [a]"
| "code_points (a # b # s) =
     (if high_surrogate a \<and> low_surrogate b
      then (65536 + (a - 55296) * 1024 + (b - 56320)) # code_points s
      else a # code_points (b # s))"

definition utf16_point :: "nat \<Rightarrow> jsstring" where
  "utf16_point c =
     (if c < 65536 then [c] else [55296 + (c - 65536) div 1024, 56320 + (c - 65536) mod 1024])"

definition utf16 :: "nat list \<Rightarrow> jsstring" where
  "utf16 x = concat (map utf16_point x)"

text \<open>
  A scalar value is a code point that is not a surrogate. A string is well formed when it
  has no unpaired surrogate, so that all its code points are scalar values.
\<close>

definition scalar :: "nat \<Rightarrow> bool" where
  "scalar c = (c < 55296 \<or> (57344 \<le> c \<and> c < 1114112))"

definition well_formed :: "jsstring \<Rightarrow> bool" where
  "well_formed s = list_all scalar (code_points s)"

subsection \<open>The Unicode Character Database\<close>

text \<open>
  A table of mappings lists the code points that have one, in increasing order; a code
  point that is not listed is mapped to itself. A table of classes or of a property lists
  ranges of code points. The tables are cut into parts, and the function of each table
  selects the part by the range of its keys.
\<close>

fun mapped :: "(nat \<times> nat list) list \<Rightarrow> nat \<Rightarrow> nat list" where
  "mapped [] c = [c]"
| "mapped ((k, v) # kvs) c = (if c = k then v else mapped kvs c)"

fun class_in :: "(nat \<times> nat \<times> nat) list \<Rightarrow> nat \<Rightarrow> nat" where
  "class_in [] c = 0"
| "class_in ((lo, hi, k) # rs) c = (if lo \<le> c \<and> c \<le> hi then k else class_in rs c)"

fun in_ranges :: "(nat \<times> nat) list \<Rightarrow> nat \<Rightarrow> bool" where
  "in_ranges [] c = False"
| "in_ranges ((lo, hi) # rs) c = (if lo \<le> c \<and> c \<le> hi then True else in_ranges rs c)"

text \<open>
  The canonical decompositions, in full: the decomposition of a code point is the
  sequence that its mapping in the database yields when the mappings are applied again
  to their results. The syllables of Hangul, U+AC00 to U+D7A3, are decomposed by
  arithmetic into two or three jamo.
\<close>

definition decomposition_table_00 :: "(nat \<times> nat list) list" where
  "decomposition_table_00 =
    [(192, [65, 768]), (193, [65, 769]), (194, [65, 770]), (195, [65, 771]), (196, [65, 776]),
     (197, [65, 778]), (199, [67, 807]), (200, [69, 768]), (201, [69, 769]), (202, [69, 770]),
     (203, [69, 776]), (204, [73, 768]), (205, [73, 769]), (206, [73, 770]), (207, [73, 776]),
     (209, [78, 771]), (210, [79, 768]), (211, [79, 769]), (212, [79, 770]), (213, [79, 771]),
     (214, [79, 776]), (217, [85, 768]), (218, [85, 769]), (219, [85, 770]), (220, [85, 776]),
     (221, [89, 769]), (224, [97, 768]), (225, [97, 769]), (226, [97, 770]), (227, [97, 771]),
     (228, [97, 776]), (229, [97, 778]), (231, [99, 807]), (232, [101, 768]), (233, [101, 769]),
     (234, [101, 770]), (235, [101, 776]), (236, [105, 768]), (237, [105, 769]),
     (238, [105, 770]), (239, [105, 776]), (241, [110, 771]), (242, [111, 768]),
     (243, [111, 769]), (244, [111, 770]), (245, [111, 771]), (246, [111, 776]), (249, [117, 768])]"

definition decomposition_table_01 :: "(nat \<times> nat list) list" where
  "decomposition_table_01 =
    [(250, [117, 769]), (251, [117, 770]), (252, [117, 776]), (253, [121, 769]),
     (255, [121, 776]), (256, [65, 772]), (257, [97, 772]), (258, [65, 774]), (259, [97, 774]),
     (260, [65, 808]), (261, [97, 808]), (262, [67, 769]), (263, [99, 769]), (264, [67, 770]),
     (265, [99, 770]), (266, [67, 775]), (267, [99, 775]), (268, [67, 780]), (269, [99, 780]),
     (270, [68, 780]), (271, [100, 780]), (274, [69, 772]), (275, [101, 772]), (276, [69, 774]),
     (277, [101, 774]), (278, [69, 775]), (279, [101, 775]), (280, [69, 808]), (281, [101, 808]),
     (282, [69, 780]), (283, [101, 780]), (284, [71, 770]), (285, [103, 770]), (286, [71, 774]),
     (287, [103, 774]), (288, [71, 775]), (289, [103, 775]), (290, [71, 807]), (291, [103, 807]),
     (292, [72, 770]), (293, [104, 770]), (296, [73, 771]), (297, [105, 771]), (298, [73, 772]),
     (299, [105, 772]), (300, [73, 774]), (301, [105, 774]), (302, [73, 808])]"

definition decomposition_table_02 :: "(nat \<times> nat list) list" where
  "decomposition_table_02 =
    [(303, [105, 808]), (304, [73, 775]), (308, [74, 770]), (309, [106, 770]), (310, [75, 807]),
     (311, [107, 807]), (313, [76, 769]), (314, [108, 769]), (315, [76, 807]), (316, [108, 807]),
     (317, [76, 780]), (318, [108, 780]), (323, [78, 769]), (324, [110, 769]), (325, [78, 807]),
     (326, [110, 807]), (327, [78, 780]), (328, [110, 780]), (332, [79, 772]), (333, [111, 772]),
     (334, [79, 774]), (335, [111, 774]), (336, [79, 779]), (337, [111, 779]), (340, [82, 769]),
     (341, [114, 769]), (342, [82, 807]), (343, [114, 807]), (344, [82, 780]), (345, [114, 780]),
     (346, [83, 769]), (347, [115, 769]), (348, [83, 770]), (349, [115, 770]), (350, [83, 807]),
     (351, [115, 807]), (352, [83, 780]), (353, [115, 780]), (354, [84, 807]), (355, [116, 807]),
     (356, [84, 780]), (357, [116, 780]), (360, [85, 771]), (361, [117, 771]), (362, [85, 772]),
     (363, [117, 772]), (364, [85, 774]), (365, [117, 774])]"

definition decomposition_table_03 :: "(nat \<times> nat list) list" where
  "decomposition_table_03 =
    [(366, [85, 778]), (367, [117, 778]), (368, [85, 779]), (369, [117, 779]), (370, [85, 808]),
     (371, [117, 808]), (372, [87, 770]), (373, [119, 770]), (374, [89, 770]), (375, [121, 770]),
     (376, [89, 776]), (377, [90, 769]), (378, [122, 769]), (379, [90, 775]), (380, [122, 775]),
     (381, [90, 780]), (382, [122, 780]), (416, [79, 795]), (417, [111, 795]), (431, [85, 795]),
     (432, [117, 795]), (461, [65, 780]), (462, [97, 780]), (463, [73, 780]), (464, [105, 780]),
     (465, [79, 780]), (466, [111, 780]), (467, [85, 780]), (468, [117, 780]),
     (469, [85, 776, 772]), (470, [117, 776, 772]), (471, [85, 776, 769]), (472, [117, 776, 769]),
     (473, [85, 776, 780]), (474, [117, 776, 780]), (475, [85, 776, 768]), (476, [117, 776, 768]),
     (478, [65, 776, 772]), (479, [97, 776, 772]), (480, [65, 775, 772]), (481, [97, 775, 772]),
     (482, [198, 772]), (483, [230, 772]), (486, [71, 780]), (487, [103, 780]), (488, [75, 780]),
     (489, [107, 780]), (490, [79, 808])]"

definition decomposition_table_04 :: "(nat \<times> nat list) list" where
  "decomposition_table_04 =
    [(491, [111, 808]), (492, [79, 808, 772]), (493, [111, 808, 772]), (494, [439, 780]),
     (495, [658, 780]), (496, [106, 780]), (500, [71, 769]), (501, [103, 769]), (504, [78, 768]),
     (505, [110, 768]), (506, [65, 778, 769]), (507, [97, 778, 769]), (508, [198, 769]),
     (509, [230, 769]), (510, [216, 769]), (511, [248, 769]), (512, [65, 783]), (513, [97, 783]),
     (514, [65, 785]), (515, [97, 785]), (516, [69, 783]), (517, [101, 783]), (518, [69, 785]),
     (519, [101, 785]), (520, [73, 783]), (521, [105, 783]), (522, [73, 785]), (523, [105, 785]),
     (524, [79, 783]), (525, [111, 783]), (526, [79, 785]), (527, [111, 785]), (528, [82, 783]),
     (529, [114, 783]), (530, [82, 785]), (531, [114, 785]), (532, [85, 783]), (533, [117, 783]),
     (534, [85, 785]), (535, [117, 785]), (536, [83, 806]), (537, [115, 806]), (538, [84, 806]),
     (539, [116, 806]), (542, [72, 780]), (543, [104, 780]), (550, [65, 775]), (551, [97, 775])]"

definition decomposition_table_05 :: "(nat \<times> nat list) list" where
  "decomposition_table_05 =
    [(552, [69, 807]), (553, [101, 807]), (554, [79, 776, 772]), (555, [111, 776, 772]),
     (556, [79, 771, 772]), (557, [111, 771, 772]), (558, [79, 775]), (559, [111, 775]),
     (560, [79, 775, 772]), (561, [111, 775, 772]), (562, [89, 772]), (563, [121, 772]),
     (832, [768]), (833, [769]), (835, [787]), (836, [776, 769]), (884, [697]), (894, [59]),
     (901, [168, 769]), (902, [913, 769]), (903, [183]), (904, [917, 769]), (905, [919, 769]),
     (906, [921, 769]), (908, [927, 769]), (910, [933, 769]), (911, [937, 769]),
     (912, [953, 776, 769]), (938, [921, 776]), (939, [933, 776]), (940, [945, 769]),
     (941, [949, 769]), (942, [951, 769]), (943, [953, 769]), (944, [965, 776, 769]),
     (970, [953, 776]), (971, [965, 776]), (972, [959, 769]), (973, [965, 769]),
     (974, [969, 769]), (979, [978, 769]), (980, [978, 776]), (1024, [1045, 768]),
     (1025, [1045, 776]), (1027, [1043, 769]), (1031, [1030, 776]), (1036, [1050, 769]),
     (1037, [1048, 768])]"

definition decomposition_table_06 :: "(nat \<times> nat list) list" where
  "decomposition_table_06 =
    [(1038, [1059, 774]), (1049, [1048, 774]), (1081, [1080, 774]), (1104, [1077, 768]),
     (1105, [1077, 776]), (1107, [1075, 769]), (1111, [1110, 776]), (1116, [1082, 769]),
     (1117, [1080, 768]), (1118, [1091, 774]), (1142, [1140, 783]), (1143, [1141, 783]),
     (1217, [1046, 774]), (1218, [1078, 774]), (1232, [1040, 774]), (1233, [1072, 774]),
     (1234, [1040, 776]), (1235, [1072, 776]), (1238, [1045, 774]), (1239, [1077, 774]),
     (1242, [1240, 776]), (1243, [1241, 776]), (1244, [1046, 776]), (1245, [1078, 776]),
     (1246, [1047, 776]), (1247, [1079, 776]), (1250, [1048, 772]), (1251, [1080, 772]),
     (1252, [1048, 776]), (1253, [1080, 776]), (1254, [1054, 776]), (1255, [1086, 776]),
     (1258, [1256, 776]), (1259, [1257, 776]), (1260, [1069, 776]), (1261, [1101, 776]),
     (1262, [1059, 772]), (1263, [1091, 772]), (1264, [1059, 776]), (1265, [1091, 776]),
     (1266, [1059, 779]), (1267, [1091, 779]), (1268, [1063, 776]), (1269, [1095, 776]),
     (1272, [1067, 776]), (1273, [1099, 776]), (1570, [1575, 1619]), (1571, [1575, 1620])]"

definition decomposition_table_07 :: "(nat \<times> nat list) list" where
  "decomposition_table_07 =
    [(1572, [1608, 1620]), (1573, [1575, 1621]), (1574, [1610, 1620]), (1728, [1749, 1620]),
     (1730, [1729, 1620]), (1747, [1746, 1620]), (2345, [2344, 2364]), (2353, [2352, 2364]),
     (2356, [2355, 2364]), (2392, [2325, 2364]), (2393, [2326, 2364]), (2394, [2327, 2364]),
     (2395, [2332, 2364]), (2396, [2337, 2364]), (2397, [2338, 2364]), (2398, [2347, 2364]),
     (2399, [2351, 2364]), (2507, [2503, 2494]), (2508, [2503, 2519]), (2524, [2465, 2492]),
     (2525, [2466, 2492]), (2527, [2479, 2492]), (2611, [2610, 2620]), (2614, [2616, 2620]),
     (2649, [2582, 2620]), (2650, [2583, 2620]), (2651, [2588, 2620]), (2654, [2603, 2620]),
     (2888, [2887, 2902]), (2891, [2887, 2878]), (2892, [2887, 2903]), (2908, [2849, 2876]),
     (2909, [2850, 2876]), (2964, [2962, 3031]), (3018, [3014, 3006]), (3019, [3015, 3006]),
     (3020, [3014, 3031]), (3144, [3142, 3158]), (3264, [3263, 3285]), (3271, [3270, 3285]),
     (3272, [3270, 3286]), (3274, [3270, 3266]), (3275, [3270, 3266, 3285]), (3402, [3398, 3390]),
     (3403, [3399, 3390]), (3404, [3398, 3415]), (3546, [3545, 3530]), (3548, [3545, 3535])]"

definition decomposition_table_08 :: "(nat \<times> nat list) list" where
  "decomposition_table_08 =
    [(3549, [3545, 3535, 3530]), (3550, [3545, 3551]), (3907, [3906, 4023]), (3917, [3916, 4023]),
     (3922, [3921, 4023]), (3927, [3926, 4023]), (3932, [3931, 4023]), (3945, [3904, 4021]),
     (3955, [3953, 3954]), (3957, [3953, 3956]), (3958, [4018, 3968]), (3960, [4019, 3968]),
     (3969, [3953, 3968]), (3987, [3986, 4023]), (3997, [3996, 4023]), (4002, [4001, 4023]),
     (4007, [4006, 4023]), (4012, [4011, 4023]), (4025, [3984, 4021]), (4134, [4133, 4142]),
     (6918, [6917, 6965]), (6920, [6919, 6965]), (6922, [6921, 6965]), (6924, [6923, 6965]),
     (6926, [6925, 6965]), (6930, [6929, 6965]), (6971, [6970, 6965]), (6973, [6972, 6965]),
     (6976, [6974, 6965]), (6977, [6975, 6965]), (6979, [6978, 6965]), (7680, [65, 805]),
     (7681, [97, 805]), (7682, [66, 775]), (7683, [98, 775]), (7684, [66, 803]),
     (7685, [98, 803]), (7686, [66, 817]), (7687, [98, 817]), (7688, [67, 807, 769]),
     (7689, [99, 807, 769]), (7690, [68, 775]), (7691, [100, 775]), (7692, [68, 803]),
     (7693, [100, 803]), (7694, [68, 817]), (7695, [100, 817]), (7696, [68, 807])]"

definition decomposition_table_09 :: "(nat \<times> nat list) list" where
  "decomposition_table_09 =
    [(7697, [100, 807]), (7698, [68, 813]), (7699, [100, 813]), (7700, [69, 772, 768]),
     (7701, [101, 772, 768]), (7702, [69, 772, 769]), (7703, [101, 772, 769]), (7704, [69, 813]),
     (7705, [101, 813]), (7706, [69, 816]), (7707, [101, 816]), (7708, [69, 807, 774]),
     (7709, [101, 807, 774]), (7710, [70, 775]), (7711, [102, 775]), (7712, [71, 772]),
     (7713, [103, 772]), (7714, [72, 775]), (7715, [104, 775]), (7716, [72, 803]),
     (7717, [104, 803]), (7718, [72, 776]), (7719, [104, 776]), (7720, [72, 807]),
     (7721, [104, 807]), (7722, [72, 814]), (7723, [104, 814]), (7724, [73, 816]),
     (7725, [105, 816]), (7726, [73, 776, 769]), (7727, [105, 776, 769]), (7728, [75, 769]),
     (7729, [107, 769]), (7730, [75, 803]), (7731, [107, 803]), (7732, [75, 817]),
     (7733, [107, 817]), (7734, [76, 803]), (7735, [108, 803]), (7736, [76, 803, 772]),
     (7737, [108, 803, 772]), (7738, [76, 817]), (7739, [108, 817]), (7740, [76, 813]),
     (7741, [108, 813]), (7742, [77, 769]), (7743, [109, 769]), (7744, [77, 775])]"

definition decomposition_table_10 :: "(nat \<times> nat list) list" where
  "decomposition_table_10 =
    [(7745, [109, 775]), (7746, [77, 803]), (7747, [109, 803]), (7748, [78, 775]),
     (7749, [110, 775]), (7750, [78, 803]), (7751, [110, 803]), (7752, [78, 817]),
     (7753, [110, 817]), (7754, [78, 813]), (7755, [110, 813]), (7756, [79, 771, 769]),
     (7757, [111, 771, 769]), (7758, [79, 771, 776]), (7759, [111, 771, 776]),
     (7760, [79, 772, 768]), (7761, [111, 772, 768]), (7762, [79, 772, 769]),
     (7763, [111, 772, 769]), (7764, [80, 769]), (7765, [112, 769]), (7766, [80, 775]),
     (7767, [112, 775]), (7768, [82, 775]), (7769, [114, 775]), (7770, [82, 803]),
     (7771, [114, 803]), (7772, [82, 803, 772]), (7773, [114, 803, 772]), (7774, [82, 817]),
     (7775, [114, 817]), (7776, [83, 775]), (7777, [115, 775]), (7778, [83, 803]),
     (7779, [115, 803]), (7780, [83, 769, 775]), (7781, [115, 769, 775]), (7782, [83, 780, 775]),
     (7783, [115, 780, 775]), (7784, [83, 803, 775]), (7785, [115, 803, 775]), (7786, [84, 775]),
     (7787, [116, 775]), (7788, [84, 803]), (7789, [116, 803]), (7790, [84, 817]),
     (7791, [116, 817]), (7792, [84, 813])]"

definition decomposition_table_11 :: "(nat \<times> nat list) list" where
  "decomposition_table_11 =
    [(7793, [116, 813]), (7794, [85, 804]), (7795, [117, 804]), (7796, [85, 816]),
     (7797, [117, 816]), (7798, [85, 813]), (7799, [117, 813]), (7800, [85, 771, 769]),
     (7801, [117, 771, 769]), (7802, [85, 772, 776]), (7803, [117, 772, 776]), (7804, [86, 771]),
     (7805, [118, 771]), (7806, [86, 803]), (7807, [118, 803]), (7808, [87, 768]),
     (7809, [119, 768]), (7810, [87, 769]), (7811, [119, 769]), (7812, [87, 776]),
     (7813, [119, 776]), (7814, [87, 775]), (7815, [119, 775]), (7816, [87, 803]),
     (7817, [119, 803]), (7818, [88, 775]), (7819, [120, 775]), (7820, [88, 776]),
     (7821, [120, 776]), (7822, [89, 775]), (7823, [121, 775]), (7824, [90, 770]),
     (7825, [122, 770]), (7826, [90, 803]), (7827, [122, 803]), (7828, [90, 817]),
     (7829, [122, 817]), (7830, [104, 817]), (7831, [116, 776]), (7832, [119, 778]),
     (7833, [121, 778]), (7835, [383, 775]), (7840, [65, 803]), (7841, [97, 803]),
     (7842, [65, 777]), (7843, [97, 777]), (7844, [65, 770, 769]), (7845, [97, 770, 769])]"

definition decomposition_table_12 :: "(nat \<times> nat list) list" where
  "decomposition_table_12 =
    [(7846, [65, 770, 768]), (7847, [97, 770, 768]), (7848, [65, 770, 777]),
     (7849, [97, 770, 777]), (7850, [65, 770, 771]), (7851, [97, 770, 771]),
     (7852, [65, 803, 770]), (7853, [97, 803, 770]), (7854, [65, 774, 769]),
     (7855, [97, 774, 769]), (7856, [65, 774, 768]), (7857, [97, 774, 768]),
     (7858, [65, 774, 777]), (7859, [97, 774, 777]), (7860, [65, 774, 771]),
     (7861, [97, 774, 771]), (7862, [65, 803, 774]), (7863, [97, 803, 774]), (7864, [69, 803]),
     (7865, [101, 803]), (7866, [69, 777]), (7867, [101, 777]), (7868, [69, 771]),
     (7869, [101, 771]), (7870, [69, 770, 769]), (7871, [101, 770, 769]), (7872, [69, 770, 768]),
     (7873, [101, 770, 768]), (7874, [69, 770, 777]), (7875, [101, 770, 777]),
     (7876, [69, 770, 771]), (7877, [101, 770, 771]), (7878, [69, 803, 770]),
     (7879, [101, 803, 770]), (7880, [73, 777]), (7881, [105, 777]), (7882, [73, 803]),
     (7883, [105, 803]), (7884, [79, 803]), (7885, [111, 803]), (7886, [79, 777]),
     (7887, [111, 777]), (7888, [79, 770, 769]), (7889, [111, 770, 769]), (7890, [79, 770, 768]),
     (7891, [111, 770, 768]), (7892, [79, 770, 777]), (7893, [111, 770, 777])]"

definition decomposition_table_13 :: "(nat \<times> nat list) list" where
  "decomposition_table_13 =
    [(7894, [79, 770, 771]), (7895, [111, 770, 771]), (7896, [79, 803, 770]),
     (7897, [111, 803, 770]), (7898, [79, 795, 769]), (7899, [111, 795, 769]),
     (7900, [79, 795, 768]), (7901, [111, 795, 768]), (7902, [79, 795, 777]),
     (7903, [111, 795, 777]), (7904, [79, 795, 771]), (7905, [111, 795, 771]),
     (7906, [79, 795, 803]), (7907, [111, 795, 803]), (7908, [85, 803]), (7909, [117, 803]),
     (7910, [85, 777]), (7911, [117, 777]), (7912, [85, 795, 769]), (7913, [117, 795, 769]),
     (7914, [85, 795, 768]), (7915, [117, 795, 768]), (7916, [85, 795, 777]),
     (7917, [117, 795, 777]), (7918, [85, 795, 771]), (7919, [117, 795, 771]),
     (7920, [85, 795, 803]), (7921, [117, 795, 803]), (7922, [89, 768]), (7923, [121, 768]),
     (7924, [89, 803]), (7925, [121, 803]), (7926, [89, 777]), (7927, [121, 777]),
     (7928, [89, 771]), (7929, [121, 771]), (7936, [945, 787]), (7937, [945, 788]),
     (7938, [945, 787, 768]), (7939, [945, 788, 768]), (7940, [945, 787, 769]),
     (7941, [945, 788, 769]), (7942, [945, 787, 834]), (7943, [945, 788, 834]),
     (7944, [913, 787]), (7945, [913, 788]), (7946, [913, 787, 768]), (7947, [913, 788, 768])]"

definition decomposition_table_14 :: "(nat \<times> nat list) list" where
  "decomposition_table_14 =
    [(7948, [913, 787, 769]), (7949, [913, 788, 769]), (7950, [913, 787, 834]),
     (7951, [913, 788, 834]), (7952, [949, 787]), (7953, [949, 788]), (7954, [949, 787, 768]),
     (7955, [949, 788, 768]), (7956, [949, 787, 769]), (7957, [949, 788, 769]),
     (7960, [917, 787]), (7961, [917, 788]), (7962, [917, 787, 768]), (7963, [917, 788, 768]),
     (7964, [917, 787, 769]), (7965, [917, 788, 769]), (7968, [951, 787]), (7969, [951, 788]),
     (7970, [951, 787, 768]), (7971, [951, 788, 768]), (7972, [951, 787, 769]),
     (7973, [951, 788, 769]), (7974, [951, 787, 834]), (7975, [951, 788, 834]),
     (7976, [919, 787]), (7977, [919, 788]), (7978, [919, 787, 768]), (7979, [919, 788, 768]),
     (7980, [919, 787, 769]), (7981, [919, 788, 769]), (7982, [919, 787, 834]),
     (7983, [919, 788, 834]), (7984, [953, 787]), (7985, [953, 788]), (7986, [953, 787, 768]),
     (7987, [953, 788, 768]), (7988, [953, 787, 769]), (7989, [953, 788, 769]),
     (7990, [953, 787, 834]), (7991, [953, 788, 834]), (7992, [921, 787]), (7993, [921, 788]),
     (7994, [921, 787, 768]), (7995, [921, 788, 768]), (7996, [921, 787, 769]),
     (7997, [921, 788, 769]), (7998, [921, 787, 834]), (7999, [921, 788, 834])]"

definition decomposition_table_15 :: "(nat \<times> nat list) list" where
  "decomposition_table_15 =
    [(8000, [959, 787]), (8001, [959, 788]), (8002, [959, 787, 768]), (8003, [959, 788, 768]),
     (8004, [959, 787, 769]), (8005, [959, 788, 769]), (8008, [927, 787]), (8009, [927, 788]),
     (8010, [927, 787, 768]), (8011, [927, 788, 768]), (8012, [927, 787, 769]),
     (8013, [927, 788, 769]), (8016, [965, 787]), (8017, [965, 788]), (8018, [965, 787, 768]),
     (8019, [965, 788, 768]), (8020, [965, 787, 769]), (8021, [965, 788, 769]),
     (8022, [965, 787, 834]), (8023, [965, 788, 834]), (8025, [933, 788]),
     (8027, [933, 788, 768]), (8029, [933, 788, 769]), (8031, [933, 788, 834]),
     (8032, [969, 787]), (8033, [969, 788]), (8034, [969, 787, 768]), (8035, [969, 788, 768]),
     (8036, [969, 787, 769]), (8037, [969, 788, 769]), (8038, [969, 787, 834]),
     (8039, [969, 788, 834]), (8040, [937, 787]), (8041, [937, 788]), (8042, [937, 787, 768]),
     (8043, [937, 788, 768]), (8044, [937, 787, 769]), (8045, [937, 788, 769]),
     (8046, [937, 787, 834]), (8047, [937, 788, 834]), (8048, [945, 768]), (8049, [945, 769]),
     (8050, [949, 768]), (8051, [949, 769]), (8052, [951, 768]), (8053, [951, 769]),
     (8054, [953, 768]), (8055, [953, 769])]"

definition decomposition_table_16 :: "(nat \<times> nat list) list" where
  "decomposition_table_16 =
    [(8056, [959, 768]), (8057, [959, 769]), (8058, [965, 768]), (8059, [965, 769]),
     (8060, [969, 768]), (8061, [969, 769]), (8064, [945, 787, 837]), (8065, [945, 788, 837]),
     (8066, [945, 787, 768, 837]), (8067, [945, 788, 768, 837]), (8068, [945, 787, 769, 837]),
     (8069, [945, 788, 769, 837]), (8070, [945, 787, 834, 837]), (8071, [945, 788, 834, 837]),
     (8072, [913, 787, 837]), (8073, [913, 788, 837]), (8074, [913, 787, 768, 837]),
     (8075, [913, 788, 768, 837]), (8076, [913, 787, 769, 837]), (8077, [913, 788, 769, 837]),
     (8078, [913, 787, 834, 837]), (8079, [913, 788, 834, 837]), (8080, [951, 787, 837]),
     (8081, [951, 788, 837]), (8082, [951, 787, 768, 837]), (8083, [951, 788, 768, 837]),
     (8084, [951, 787, 769, 837]), (8085, [951, 788, 769, 837]), (8086, [951, 787, 834, 837]),
     (8087, [951, 788, 834, 837]), (8088, [919, 787, 837]), (8089, [919, 788, 837]),
     (8090, [919, 787, 768, 837]), (8091, [919, 788, 768, 837]), (8092, [919, 787, 769, 837]),
     (8093, [919, 788, 769, 837]), (8094, [919, 787, 834, 837]), (8095, [919, 788, 834, 837]),
     (8096, [969, 787, 837]), (8097, [969, 788, 837]), (8098, [969, 787, 768, 837]),
     (8099, [969, 788, 768, 837]), (8100, [969, 787, 769, 837]), (8101, [969, 788, 769, 837]),
     (8102, [969, 787, 834, 837]), (8103, [969, 788, 834, 837]), (8104, [937, 787, 837]),
     (8105, [937, 788, 837])]"

definition decomposition_table_17 :: "(nat \<times> nat list) list" where
  "decomposition_table_17 =
    [(8106, [937, 787, 768, 837]), (8107, [937, 788, 768, 837]), (8108, [937, 787, 769, 837]),
     (8109, [937, 788, 769, 837]), (8110, [937, 787, 834, 837]), (8111, [937, 788, 834, 837]),
     (8112, [945, 774]), (8113, [945, 772]), (8114, [945, 768, 837]), (8115, [945, 837]),
     (8116, [945, 769, 837]), (8118, [945, 834]), (8119, [945, 834, 837]), (8120, [913, 774]),
     (8121, [913, 772]), (8122, [913, 768]), (8123, [913, 769]), (8124, [913, 837]),
     (8126, [953]), (8129, [168, 834]), (8130, [951, 768, 837]), (8131, [951, 837]),
     (8132, [951, 769, 837]), (8134, [951, 834]), (8135, [951, 834, 837]), (8136, [917, 768]),
     (8137, [917, 769]), (8138, [919, 768]), (8139, [919, 769]), (8140, [919, 837]),
     (8141, [8127, 768]), (8142, [8127, 769]), (8143, [8127, 834]), (8144, [953, 774]),
     (8145, [953, 772]), (8146, [953, 776, 768]), (8147, [953, 776, 769]), (8150, [953, 834]),
     (8151, [953, 776, 834]), (8152, [921, 774]), (8153, [921, 772]), (8154, [921, 768]),
     (8155, [921, 769]), (8157, [8190, 768]), (8158, [8190, 769]), (8159, [8190, 834]),
     (8160, [965, 774]), (8161, [965, 772])]"

definition decomposition_table_18 :: "(nat \<times> nat list) list" where
  "decomposition_table_18 =
    [(8162, [965, 776, 768]), (8163, [965, 776, 769]), (8164, [961, 787]), (8165, [961, 788]),
     (8166, [965, 834]), (8167, [965, 776, 834]), (8168, [933, 774]), (8169, [933, 772]),
     (8170, [933, 768]), (8171, [933, 769]), (8172, [929, 788]), (8173, [168, 768]),
     (8174, [168, 769]), (8175, [96]), (8178, [969, 768, 837]), (8179, [969, 837]),
     (8180, [969, 769, 837]), (8182, [969, 834]), (8183, [969, 834, 837]), (8184, [927, 768]),
     (8185, [927, 769]), (8186, [937, 768]), (8187, [937, 769]), (8188, [937, 837]),
     (8189, [180]), (8192, [8194]), (8193, [8195]), (8486, [937]), (8490, [75]),
     (8491, [65, 778]), (8602, [8592, 824]), (8603, [8594, 824]), (8622, [8596, 824]),
     (8653, [8656, 824]), (8654, [8660, 824]), (8655, [8658, 824]), (8708, [8707, 824]),
     (8713, [8712, 824]), (8716, [8715, 824]), (8740, [8739, 824]), (8742, [8741, 824]),
     (8769, [8764, 824]), (8772, [8771, 824]), (8775, [8773, 824]), (8777, [8776, 824]),
     (8800, [61, 824]), (8802, [8801, 824]), (8813, [8781, 824])]"

definition decomposition_table_19 :: "(nat \<times> nat list) list" where
  "decomposition_table_19 =
    [(8814, [60, 824]), (8815, [62, 824]), (8816, [8804, 824]), (8817, [8805, 824]),
     (8820, [8818, 824]), (8821, [8819, 824]), (8824, [8822, 824]), (8825, [8823, 824]),
     (8832, [8826, 824]), (8833, [8827, 824]), (8836, [8834, 824]), (8837, [8835, 824]),
     (8840, [8838, 824]), (8841, [8839, 824]), (8876, [8866, 824]), (8877, [8872, 824]),
     (8878, [8873, 824]), (8879, [8875, 824]), (8928, [8828, 824]), (8929, [8829, 824]),
     (8930, [8849, 824]), (8931, [8850, 824]), (8938, [8882, 824]), (8939, [8883, 824]),
     (8940, [8884, 824]), (8941, [8885, 824]), (9001, [12296]), (9002, [12297]),
     (10972, [10973, 824]), (12364, [12363, 12441]), (12366, [12365, 12441]),
     (12368, [12367, 12441]), (12370, [12369, 12441]), (12372, [12371, 12441]),
     (12374, [12373, 12441]), (12376, [12375, 12441]), (12378, [12377, 12441]),
     (12380, [12379, 12441]), (12382, [12381, 12441]), (12384, [12383, 12441]),
     (12386, [12385, 12441]), (12389, [12388, 12441]), (12391, [12390, 12441]),
     (12393, [12392, 12441]), (12400, [12399, 12441]), (12401, [12399, 12442]),
     (12403, [12402, 12441]), (12404, [12402, 12442])]"

definition decomposition_table_20 :: "(nat \<times> nat list) list" where
  "decomposition_table_20 =
    [(12406, [12405, 12441]), (12407, [12405, 12442]), (12409, [12408, 12441]),
     (12410, [12408, 12442]), (12412, [12411, 12441]), (12413, [12411, 12442]),
     (12436, [12358, 12441]), (12446, [12445, 12441]), (12460, [12459, 12441]),
     (12462, [12461, 12441]), (12464, [12463, 12441]), (12466, [12465, 12441]),
     (12468, [12467, 12441]), (12470, [12469, 12441]), (12472, [12471, 12441]),
     (12474, [12473, 12441]), (12476, [12475, 12441]), (12478, [12477, 12441]),
     (12480, [12479, 12441]), (12482, [12481, 12441]), (12485, [12484, 12441]),
     (12487, [12486, 12441]), (12489, [12488, 12441]), (12496, [12495, 12441]),
     (12497, [12495, 12442]), (12499, [12498, 12441]), (12500, [12498, 12442]),
     (12502, [12501, 12441]), (12503, [12501, 12442]), (12505, [12504, 12441]),
     (12506, [12504, 12442]), (12508, [12507, 12441]), (12509, [12507, 12442]),
     (12532, [12454, 12441]), (12535, [12527, 12441]), (12536, [12528, 12441]),
     (12537, [12529, 12441]), (12538, [12530, 12441]), (12542, [12541, 12441])]"

definition decomposition_table_21 :: "(nat \<times> nat list) list" where
  "decomposition_table_21 =
    [(63744, [35912]), (63745, [26356]), (63746, [36554]), (63747, [36040]), (63748, [28369]),
     (63749, [20018]), (63750, [21477]), (63751, [40860]), (63752, [40860]), (63753, [22865]),
     (63754, [37329]), (63755, [21895]), (63756, [22856]), (63757, [25078]), (63758, [30313]),
     (63759, [32645]), (63760, [34367]), (63761, [34746]), (63762, [35064]), (63763, [37007]),
     (63764, [27138]), (63765, [27931]), (63766, [28889]), (63767, [29662]), (63768, [33853]),
     (63769, [37226]), (63770, [39409]), (63771, [20098]), (63772, [21365]), (63773, [27396]),
     (63774, [29211]), (63775, [34349]), (63776, [40478]), (63777, [23888]), (63778, [28651]),
     (63779, [34253]), (63780, [35172]), (63781, [25289]), (63782, [33240]), (63783, [34847]),
     (63784, [24266]), (63785, [26391]), (63786, [28010]), (63787, [29436]), (63788, [37070]),
     (63789, [20358]), (63790, [20919]), (63791, [21214])]"

definition decomposition_table_22 :: "(nat \<times> nat list) list" where
  "decomposition_table_22 =
    [(63792, [25796]), (63793, [27347]), (63794, [29200]), (63795, [30439]), (63796, [32769]),
     (63797, [34310]), (63798, [34396]), (63799, [36335]), (63800, [38706]), (63801, [39791]),
     (63802, [40442]), (63803, [30860]), (63804, [31103]), (63805, [32160]), (63806, [33737]),
     (63807, [37636]), (63808, [40575]), (63809, [35542]), (63810, [22751]), (63811, [24324]),
     (63812, [31840]), (63813, [32894]), (63814, [29282]), (63815, [30922]), (63816, [36034]),
     (63817, [38647]), (63818, [22744]), (63819, [23650]), (63820, [27155]), (63821, [28122]),
     (63822, [28431]), (63823, [32047]), (63824, [32311]), (63825, [38475]), (63826, [21202]),
     (63827, [32907]), (63828, [20956]), (63829, [20940]), (63830, [31260]), (63831, [32190]),
     (63832, [33777]), (63833, [38517]), (63834, [35712]), (63835, [25295]), (63836, [27138]),
     (63837, [35582]), (63838, [20025]), (63839, [23527])]"

definition decomposition_table_23 :: "(nat \<times> nat list) list" where
  "decomposition_table_23 =
    [(63840, [24594]), (63841, [29575]), (63842, [30064]), (63843, [21271]), (63844, [30971]),
     (63845, [20415]), (63846, [24489]), (63847, [19981]), (63848, [27852]), (63849, [25976]),
     (63850, [32034]), (63851, [21443]), (63852, [22622]), (63853, [30465]), (63854, [33865]),
     (63855, [35498]), (63856, [27578]), (63857, [36784]), (63858, [27784]), (63859, [25342]),
     (63860, [33509]), (63861, [25504]), (63862, [30053]), (63863, [20142]), (63864, [20841]),
     (63865, [20937]), (63866, [26753]), (63867, [31975]), (63868, [33391]), (63869, [35538]),
     (63870, [37327]), (63871, [21237]), (63872, [21570]), (63873, [22899]), (63874, [24300]),
     (63875, [26053]), (63876, [28670]), (63877, [31018]), (63878, [38317]), (63879, [39530]),
     (63880, [40599]), (63881, [40654]), (63882, [21147]), (63883, [26310]), (63884, [27511]),
     (63885, [36706]), (63886, [24180]), (63887, [24976])]"

definition decomposition_table_24 :: "(nat \<times> nat list) list" where
  "decomposition_table_24 =
    [(63888, [25088]), (63889, [25754]), (63890, [28451]), (63891, [29001]), (63892, [29833]),
     (63893, [31178]), (63894, [32244]), (63895, [32879]), (63896, [36646]), (63897, [34030]),
     (63898, [36899]), (63899, [37706]), (63900, [21015]), (63901, [21155]), (63902, [21693]),
     (63903, [28872]), (63904, [35010]), (63905, [35498]), (63906, [24265]), (63907, [24565]),
     (63908, [25467]), (63909, [27566]), (63910, [31806]), (63911, [29557]), (63912, [20196]),
     (63913, [22265]), (63914, [23527]), (63915, [23994]), (63916, [24604]), (63917, [29618]),
     (63918, [29801]), (63919, [32666]), (63920, [32838]), (63921, [37428]), (63922, [38646]),
     (63923, [38728]), (63924, [38936]), (63925, [20363]), (63926, [31150]), (63927, [37300]),
     (63928, [38584]), (63929, [24801]), (63930, [20102]), (63931, [20698]), (63932, [23534]),
     (63933, [23615]), (63934, [26009]), (63935, [27138])]"

definition decomposition_table_25 :: "(nat \<times> nat list) list" where
  "decomposition_table_25 =
    [(63936, [29134]), (63937, [30274]), (63938, [34044]), (63939, [36988]), (63940, [40845]),
     (63941, [26248]), (63942, [38446]), (63943, [21129]), (63944, [26491]), (63945, [26611]),
     (63946, [27969]), (63947, [28316]), (63948, [29705]), (63949, [30041]), (63950, [30827]),
     (63951, [32016]), (63952, [39006]), (63953, [20845]), (63954, [25134]), (63955, [38520]),
     (63956, [20523]), (63957, [23833]), (63958, [28138]), (63959, [36650]), (63960, [24459]),
     (63961, [24900]), (63962, [26647]), (63963, [29575]), (63964, [38534]), (63965, [21033]),
     (63966, [21519]), (63967, [23653]), (63968, [26131]), (63969, [26446]), (63970, [26792]),
     (63971, [27877]), (63972, [29702]), (63973, [30178]), (63974, [32633]), (63975, [35023]),
     (63976, [35041]), (63977, [37324]), (63978, [38626]), (63979, [21311]), (63980, [28346]),
     (63981, [21533]), (63982, [29136]), (63983, [29848])]"

definition decomposition_table_26 :: "(nat \<times> nat list) list" where
  "decomposition_table_26 =
    [(63984, [34298]), (63985, [38563]), (63986, [40023]), (63987, [40607]), (63988, [26519]),
     (63989, [28107]), (63990, [33256]), (63991, [31435]), (63992, [31520]), (63993, [31890]),
     (63994, [29376]), (63995, [28825]), (63996, [35672]), (63997, [20160]), (63998, [33590]),
     (63999, [21050]), (64000, [20999]), (64001, [24230]), (64002, [25299]), (64003, [31958]),
     (64004, [23429]), (64005, [27934]), (64006, [26292]), (64007, [36667]), (64008, [34892]),
     (64009, [38477]), (64010, [35211]), (64011, [24275]), (64012, [20800]), (64013, [21952]),
     (64016, [22618]), (64018, [26228]), (64021, [20958]), (64022, [29482]), (64023, [30410]),
     (64024, [31036]), (64025, [31070]), (64026, [31077]), (64027, [31119]), (64028, [38742]),
     (64029, [31934]), (64030, [32701]), (64032, [34322]), (64034, [35576]), (64037, [36920]),
     (64038, [37117]), (64042, [39151]), (64043, [39164])]"

definition decomposition_table_27 :: "(nat \<times> nat list) list" where
  "decomposition_table_27 =
    [(64044, [39208]), (64045, [40372]), (64046, [37086]), (64047, [38583]), (64048, [20398]),
     (64049, [20711]), (64050, [20813]), (64051, [21193]), (64052, [21220]), (64053, [21329]),
     (64054, [21917]), (64055, [22022]), (64056, [22120]), (64057, [22592]), (64058, [22696]),
     (64059, [23652]), (64060, [23662]), (64061, [24724]), (64062, [24936]), (64063, [24974]),
     (64064, [25074]), (64065, [25935]), (64066, [26082]), (64067, [26257]), (64068, [26757]),
     (64069, [28023]), (64070, [28186]), (64071, [28450]), (64072, [29038]), (64073, [29227]),
     (64074, [29730]), (64075, [30865]), (64076, [31038]), (64077, [31049]), (64078, [31048]),
     (64079, [31056]), (64080, [31062]), (64081, [31069]), (64082, [31117]), (64083, [31118]),
     (64084, [31296]), (64085, [31361]), (64086, [31680]), (64087, [32244]), (64088, [32265]),
     (64089, [32321]), (64090, [32626]), (64091, [32773])]"

definition decomposition_table_28 :: "(nat \<times> nat list) list" where
  "decomposition_table_28 =
    [(64092, [33261]), (64093, [33401]), (64094, [33401]), (64095, [33879]), (64096, [35088]),
     (64097, [35222]), (64098, [35585]), (64099, [35641]), (64100, [36051]), (64101, [36104]),
     (64102, [36790]), (64103, [36920]), (64104, [38627]), (64105, [38911]), (64106, [38971]),
     (64107, [24693]), (64108, [148206]), (64109, [33304]), (64112, [20006]), (64113, [20917]),
     (64114, [20840]), (64115, [20352]), (64116, [20805]), (64117, [20864]), (64118, [21191]),
     (64119, [21242]), (64120, [21917]), (64121, [21845]), (64122, [21913]), (64123, [21986]),
     (64124, [22618]), (64125, [22707]), (64126, [22852]), (64127, [22868]), (64128, [23138]),
     (64129, [23336]), (64130, [24274]), (64131, [24281]), (64132, [24425]), (64133, [24493]),
     (64134, [24792]), (64135, [24910]), (64136, [24840]), (64137, [24974]), (64138, [24928]),
     (64139, [25074]), (64140, [25140]), (64141, [25540])]"

definition decomposition_table_29 :: "(nat \<times> nat list) list" where
  "decomposition_table_29 =
    [(64142, [25628]), (64143, [25682]), (64144, [25942]), (64145, [26228]), (64146, [26391]),
     (64147, [26395]), (64148, [26454]), (64149, [27513]), (64150, [27578]), (64151, [27969]),
     (64152, [28379]), (64153, [28363]), (64154, [28450]), (64155, [28702]), (64156, [29038]),
     (64157, [30631]), (64158, [29237]), (64159, [29359]), (64160, [29482]), (64161, [29809]),
     (64162, [29958]), (64163, [30011]), (64164, [30237]), (64165, [30239]), (64166, [30410]),
     (64167, [30427]), (64168, [30452]), (64169, [30538]), (64170, [30528]), (64171, [30924]),
     (64172, [31409]), (64173, [31680]), (64174, [31867]), (64175, [32091]), (64176, [32244]),
     (64177, [32574]), (64178, [32773]), (64179, [33618]), (64180, [33775]), (64181, [34681]),
     (64182, [35137]), (64183, [35206]), (64184, [35222]), (64185, [35519]), (64186, [35576]),
     (64187, [35531]), (64188, [35585]), (64189, [35582])]"

definition decomposition_table_30 :: "(nat \<times> nat list) list" where
  "decomposition_table_30 =
    [(64190, [35565]), (64191, [35641]), (64192, [35722]), (64193, [36104]), (64194, [36664]),
     (64195, [36978]), (64196, [37273]), (64197, [37494]), (64198, [38524]), (64199, [38627]),
     (64200, [38742]), (64201, [38875]), (64202, [38911]), (64203, [38923]), (64204, [38971]),
     (64205, [39698]), (64206, [40860]), (64207, [141386]), (64208, [141380]), (64209, [144341]),
     (64210, [15261]), (64211, [16408]), (64212, [16441]), (64213, [152137]), (64214, [154832]),
     (64215, [163539]), (64216, [40771]), (64217, [40846]), (64285, [1497, 1460]),
     (64287, [1522, 1463]), (64298, [1513, 1473]), (64299, [1513, 1474]),
     (64300, [1513, 1468, 1473]), (64301, [1513, 1468, 1474]), (64302, [1488, 1463]),
     (64303, [1488, 1464]), (64304, [1488, 1468]), (64305, [1489, 1468]), (64306, [1490, 1468]),
     (64307, [1491, 1468]), (64308, [1492, 1468]), (64309, [1493, 1468]), (64310, [1494, 1468]),
     (64312, [1496, 1468]), (64313, [1497, 1468]), (64314, [1498, 1468]), (64315, [1499, 1468]),
     (64316, [1500, 1468])]"

definition decomposition_table_31 :: "(nat \<times> nat list) list" where
  "decomposition_table_31 =
    [(64318, [1502, 1468]), (64320, [1504, 1468]), (64321, [1505, 1468]), (64323, [1507, 1468]),
     (64324, [1508, 1468]), (64326, [1510, 1468]), (64327, [1511, 1468]), (64328, [1512, 1468]),
     (64329, [1513, 1468]), (64330, [1514, 1468]), (64331, [1493, 1465]), (64332, [1489, 1471]),
     (64333, [1499, 1471]), (64334, [1508, 1471])]"

definition decomposition_table_32 :: "(nat \<times> nat list) list" where
  "decomposition_table_32 =
    [(69786, [69785, 69818]), (69788, [69787, 69818]), (69803, [69797, 69818]),
     (69934, [69937, 69927]), (69935, [69938, 69927]), (70475, [70471, 70462]),
     (70476, [70471, 70487]), (70843, [70841, 70842]), (70844, [70841, 70832]),
     (70846, [70841, 70845]), (71098, [71096, 71087]), (71099, [71097, 71087]),
     (71992, [71989, 71984])]"

definition decomposition_table_33 :: "(nat \<times> nat list) list" where
  "decomposition_table_33 =
    [(119134, [119127, 119141]), (119135, [119128, 119141]), (119136, [119128, 119141, 119150]),
     (119137, [119128, 119141, 119151]), (119138, [119128, 119141, 119152]),
     (119139, [119128, 119141, 119153]), (119140, [119128, 119141, 119154]),
     (119227, [119225, 119141]), (119228, [119226, 119141]), (119229, [119225, 119141, 119150]),
     (119230, [119226, 119141, 119150]), (119231, [119225, 119141, 119151]),
     (119232, [119226, 119141, 119151])]"

definition decomposition_table_34 :: "(nat \<times> nat list) list" where
  "decomposition_table_34 =
    [(194560, [20029]), (194561, [20024]), (194562, [20033]), (194563, [131362]),
     (194564, [20320]), (194565, [20398]), (194566, [20411]), (194567, [20482]),
     (194568, [20602]), (194569, [20633]), (194570, [20711]), (194571, [20687]),
     (194572, [13470]), (194573, [132666]), (194574, [20813]), (194575, [20820]),
     (194576, [20836]), (194577, [20855]), (194578, [132380]), (194579, [13497]),
     (194580, [20839]), (194581, [20877]), (194582, [132427]), (194583, [20887]),
     (194584, [20900]), (194585, [20172]), (194586, [20908]), (194587, [20917]),
     (194588, [168415]), (194589, [20981]), (194590, [20995]), (194591, [13535]),
     (194592, [21051]), (194593, [21062]), (194594, [21106]), (194595, [21111]),
     (194596, [13589]), (194597, [21191]), (194598, [21193]), (194599, [21220]),
     (194600, [21242]), (194601, [21253]), (194602, [21254]), (194603, [21271]),
     (194604, [21321]), (194605, [21329]), (194606, [21338]), (194607, [21363])]"

definition decomposition_table_35 :: "(nat \<times> nat list) list" where
  "decomposition_table_35 =
    [(194608, [21373]), (194609, [21375]), (194610, [21375]), (194611, [21375]),
     (194612, [133676]), (194613, [28784]), (194614, [21450]), (194615, [21471]),
     (194616, [133987]), (194617, [21483]), (194618, [21489]), (194619, [21510]),
     (194620, [21662]), (194621, [21560]), (194622, [21576]), (194623, [21608]),
     (194624, [21666]), (194625, [21750]), (194626, [21776]), (194627, [21843]),
     (194628, [21859]), (194629, [21892]), (194630, [21892]), (194631, [21913]),
     (194632, [21931]), (194633, [21939]), (194634, [21954]), (194635, [22294]),
     (194636, [22022]), (194637, [22295]), (194638, [22097]), (194639, [22132]),
     (194640, [20999]), (194641, [22766]), (194642, [22478]), (194643, [22516]),
     (194644, [22541]), (194645, [22411]), (194646, [22578]), (194647, [22577]),
     (194648, [22700]), (194649, [136420]), (194650, [22770]), (194651, [22775]),
     (194652, [22790]), (194653, [22810]), (194654, [22818]), (194655, [22882])]"

definition decomposition_table_36 :: "(nat \<times> nat list) list" where
  "decomposition_table_36 =
    [(194656, [136872]), (194657, [136938]), (194658, [23020]), (194659, [23067]),
     (194660, [23079]), (194661, [23000]), (194662, [23142]), (194663, [14062]),
     (194664, [14076]), (194665, [23304]), (194666, [23358]), (194667, [23358]),
     (194668, [137672]), (194669, [23491]), (194670, [23512]), (194671, [23527]),
     (194672, [23539]), (194673, [138008]), (194674, [23551]), (194675, [23558]),
     (194676, [24403]), (194677, [23586]), (194678, [14209]), (194679, [23648]),
     (194680, [23662]), (194681, [23744]), (194682, [23693]), (194683, [138724]),
     (194684, [23875]), (194685, [138726]), (194686, [23918]), (194687, [23915]),
     (194688, [23932]), (194689, [24033]), (194690, [24034]), (194691, [14383]),
     (194692, [24061]), (194693, [24104]), (194694, [24125]), (194695, [24169]),
     (194696, [14434]), (194697, [139651]), (194698, [14460]), (194699, [24240]),
     (194700, [24243]), (194701, [24246]), (194702, [24266]), (194703, [172946])]"

definition decomposition_table_37 :: "(nat \<times> nat list) list" where
  "decomposition_table_37 =
    [(194704, [24318]), (194705, [140081]), (194706, [140081]), (194707, [33281]),
     (194708, [24354]), (194709, [24354]), (194710, [14535]), (194711, [144056]),
     (194712, [156122]), (194713, [24418]), (194714, [24427]), (194715, [14563]),
     (194716, [24474]), (194717, [24525]), (194718, [24535]), (194719, [24569]),
     (194720, [24705]), (194721, [14650]), (194722, [14620]), (194723, [24724]),
     (194724, [141012]), (194725, [24775]), (194726, [24904]), (194727, [24908]),
     (194728, [24910]), (194729, [24908]), (194730, [24954]), (194731, [24974]),
     (194732, [25010]), (194733, [24996]), (194734, [25007]), (194735, [25054]),
     (194736, [25074]), (194737, [25078]), (194738, [25104]), (194739, [25115]),
     (194740, [25181]), (194741, [25265]), (194742, [25300]), (194743, [25424]),
     (194744, [142092]), (194745, [25405]), (194746, [25340]), (194747, [25448]),
     (194748, [25475]), (194749, [25572]), (194750, [142321]), (194751, [25634])]"

definition decomposition_table_38 :: "(nat \<times> nat list) list" where
  "decomposition_table_38 =
    [(194752, [25541]), (194753, [25513]), (194754, [14894]), (194755, [25705]),
     (194756, [25726]), (194757, [25757]), (194758, [25719]), (194759, [14956]),
     (194760, [25935]), (194761, [25964]), (194762, [143370]), (194763, [26083]),
     (194764, [26360]), (194765, [26185]), (194766, [15129]), (194767, [26257]),
     (194768, [15112]), (194769, [15076]), (194770, [20882]), (194771, [20885]),
     (194772, [26368]), (194773, [26268]), (194774, [32941]), (194775, [17369]),
     (194776, [26391]), (194777, [26395]), (194778, [26401]), (194779, [26462]),
     (194780, [26451]), (194781, [144323]), (194782, [15177]), (194783, [26618]),
     (194784, [26501]), (194785, [26706]), (194786, [26757]), (194787, [144493]),
     (194788, [26766]), (194789, [26655]), (194790, [26900]), (194791, [15261]),
     (194792, [26946]), (194793, [27043]), (194794, [27114]), (194795, [27304]),
     (194796, [145059]), (194797, [27355]), (194798, [15384]), (194799, [27425])]"

definition decomposition_table_39 :: "(nat \<times> nat list) list" where
  "decomposition_table_39 =
    [(194800, [145575]), (194801, [27476]), (194802, [15438]), (194803, [27506]),
     (194804, [27551]), (194805, [27578]), (194806, [27579]), (194807, [146061]),
     (194808, [138507]), (194809, [146170]), (194810, [27726]), (194811, [146620]),
     (194812, [27839]), (194813, [27853]), (194814, [27751]), (194815, [27926]),
     (194816, [27966]), (194817, [28023]), (194818, [27969]), (194819, [28009]),
     (194820, [28024]), (194821, [28037]), (194822, [146718]), (194823, [27956]),
     (194824, [28207]), (194825, [28270]), (194826, [15667]), (194827, [28363]),
     (194828, [28359]), (194829, [147153]), (194830, [28153]), (194831, [28526]),
     (194832, [147294]), (194833, [147342]), (194834, [28614]), (194835, [28729]),
     (194836, [28702]), (194837, [28699]), (194838, [15766]), (194839, [28746]),
     (194840, [28797]), (194841, [28791]), (194842, [28845]), (194843, [132389]),
     (194844, [28997]), (194845, [148067]), (194846, [29084]), (194847, [148395])]"

definition decomposition_table_40 :: "(nat \<times> nat list) list" where
  "decomposition_table_40 =
    [(194848, [29224]), (194849, [29237]), (194850, [29264]), (194851, [149000]),
     (194852, [29312]), (194853, [29333]), (194854, [149301]), (194855, [149524]),
     (194856, [29562]), (194857, [29579]), (194858, [16044]), (194859, [29605]),
     (194860, [16056]), (194861, [16056]), (194862, [29767]), (194863, [29788]),
     (194864, [29809]), (194865, [29829]), (194866, [29898]), (194867, [16155]),
     (194868, [29988]), (194869, [150582]), (194870, [30014]), (194871, [150674]),
     (194872, [30064]), (194873, [139679]), (194874, [30224]), (194875, [151457]),
     (194876, [151480]), (194877, [151620]), (194878, [16380]), (194879, [16392]),
     (194880, [30452]), (194881, [151795]), (194882, [151794]), (194883, [151833]),
     (194884, [151859]), (194885, [30494]), (194886, [30495]), (194887, [30495]),
     (194888, [30538]), (194889, [16441]), (194890, [30603]), (194891, [16454]),
     (194892, [16534]), (194893, [152605]), (194894, [30798]), (194895, [30860])]"

definition decomposition_table_41 :: "(nat \<times> nat list) list" where
  "decomposition_table_41 =
    [(194896, [30924]), (194897, [16611]), (194898, [153126]), (194899, [31062]),
     (194900, [153242]), (194901, [153285]), (194902, [31119]), (194903, [31211]),
     (194904, [16687]), (194905, [31296]), (194906, [31306]), (194907, [31311]),
     (194908, [153980]), (194909, [154279]), (194910, [154279]), (194911, [31470]),
     (194912, [16898]), (194913, [154539]), (194914, [31686]), (194915, [31689]),
     (194916, [16935]), (194917, [154752]), (194918, [31954]), (194919, [17056]),
     (194920, [31976]), (194921, [31971]), (194922, [32000]), (194923, [155526]),
     (194924, [32099]), (194925, [17153]), (194926, [32199]), (194927, [32258]),
     (194928, [32325]), (194929, [17204]), (194930, [156200]), (194931, [156231]),
     (194932, [17241]), (194933, [156377]), (194934, [32634]), (194935, [156478]),
     (194936, [32661]), (194937, [32762]), (194938, [32773]), (194939, [156890]),
     (194940, [156963]), (194941, [32864]), (194942, [157096]), (194943, [32880])]"

definition decomposition_table_42 :: "(nat \<times> nat list) list" where
  "decomposition_table_42 =
    [(194944, [144223]), (194945, [17365]), (194946, [32946]), (194947, [33027]),
     (194948, [17419]), (194949, [33086]), (194950, [23221]), (194951, [157607]),
     (194952, [157621]), (194953, [144275]), (194954, [144284]), (194955, [33281]),
     (194956, [33284]), (194957, [36766]), (194958, [17515]), (194959, [33425]),
     (194960, [33419]), (194961, [33437]), (194962, [21171]), (194963, [33457]),
     (194964, [33459]), (194965, [33469]), (194966, [33510]), (194967, [158524]),
     (194968, [33509]), (194969, [33565]), (194970, [33635]), (194971, [33709]),
     (194972, [33571]), (194973, [33725]), (194974, [33767]), (194975, [33879]),
     (194976, [33619]), (194977, [33738]), (194978, [33740]), (194979, [33756]),
     (194980, [158774]), (194981, [159083]), (194982, [158933]), (194983, [17707]),
     (194984, [34033]), (194985, [34035]), (194986, [34070]), (194987, [160714]),
     (194988, [34148]), (194989, [159532]), (194990, [17757]), (194991, [17761])]"

definition decomposition_table_43 :: "(nat \<times> nat list) list" where
  "decomposition_table_43 =
    [(194992, [159665]), (194993, [159954]), (194994, [17771]), (194995, [34384]),
     (194996, [34396]), (194997, [34407]), (194998, [34409]), (194999, [34473]),
     (195000, [34440]), (195001, [34574]), (195002, [34530]), (195003, [34681]),
     (195004, [34600]), (195005, [34667]), (195006, [34694]), (195007, [17879]),
     (195008, [34785]), (195009, [34817]), (195010, [17913]), (195011, [34912]),
     (195012, [34915]), (195013, [161383]), (195014, [35031]), (195015, [35038]),
     (195016, [17973]), (195017, [35066]), (195018, [13499]), (195019, [161966]),
     (195020, [162150]), (195021, [18110]), (195022, [18119]), (195023, [35488]),
     (195024, [35565]), (195025, [35722]), (195026, [35925]), (195027, [162984]),
     (195028, [36011]), (195029, [36033]), (195030, [36123]), (195031, [36215]),
     (195032, [163631]), (195033, [133124]), (195034, [36299]), (195035, [36284]),
     (195036, [36336]), (195037, [133342]), (195038, [36564]), (195039, [36664])]"

definition decomposition_table_44 :: "(nat \<times> nat list) list" where
  "decomposition_table_44 =
    [(195040, [165330]), (195041, [165357]), (195042, [37012]), (195043, [37105]),
     (195044, [37137]), (195045, [165678]), (195046, [37147]), (195047, [37432]),
     (195048, [37591]), (195049, [37592]), (195050, [37500]), (195051, [37881]),
     (195052, [37909]), (195053, [166906]), (195054, [38283]), (195055, [18837]),
     (195056, [38327]), (195057, [167287]), (195058, [18918]), (195059, [38595]),
     (195060, [23986]), (195061, [38691]), (195062, [168261]), (195063, [168474]),
     (195064, [19054]), (195065, [19062]), (195066, [38880]), (195067, [168970]),
     (195068, [19122]), (195069, [169110]), (195070, [38923]), (195071, [38923]),
     (195072, [38953]), (195073, [169398]), (195074, [39138]), (195075, [19251]),
     (195076, [39209]), (195077, [39335]), (195078, [39362]), (195079, [39422]),
     (195080, [19406]), (195081, [170800]), (195082, [39698]), (195083, [40000]),
     (195084, [40189]), (195085, [19662]), (195086, [19693]), (195087, [40295])]"

definition decomposition_table_45 :: "(nat \<times> nat list) list" where
  "decomposition_table_45 =
    [(195088, [172238]), (195089, [19704]), (195090, [172293]), (195091, [172558]),
     (195092, [172689]), (195093, [40635]), (195094, [19798]), (195095, [40697]),
     (195096, [40702]), (195097, [40709]), (195098, [40719]), (195099, [40726]),
     (195100, [40763]), (195101, [173568])]"

definition hangul_decomposition :: "nat \<Rightarrow> nat list" where
  "hangul_decomposition c =
     (let i = c - 44032; l = 4352 + i div 588; v = 4449 + (i mod 588) div 28; t = i mod 28
      in if t = 0 then [l, v] else [l, v, 4519 + t])"

definition decomposition :: "nat \<Rightarrow> nat list" where
  "decomposition c =
     (if c < 192 then [c]
      else if c \<le> 249 then mapped decomposition_table_00 c
      else if c \<le> 302 then mapped decomposition_table_01 c
      else if c \<le> 365 then mapped decomposition_table_02 c
      else if c \<le> 490 then mapped decomposition_table_03 c
      else if c \<le> 551 then mapped decomposition_table_04 c
      else if c \<le> 1037 then mapped decomposition_table_05 c
      else if c \<le> 1571 then mapped decomposition_table_06 c
      else if c \<le> 3548 then mapped decomposition_table_07 c
      else if c \<le> 7696 then mapped decomposition_table_08 c
      else if c \<le> 7744 then mapped decomposition_table_09 c
      else if c \<le> 7792 then mapped decomposition_table_10 c
      else if c \<le> 7845 then mapped decomposition_table_11 c
      else if c \<le> 7893 then mapped decomposition_table_12 c
      else if c \<le> 7947 then mapped decomposition_table_13 c
      else if c \<le> 7999 then mapped decomposition_table_14 c
      else if c \<le> 8055 then mapped decomposition_table_15 c
      else if c \<le> 8105 then mapped decomposition_table_16 c
      else if c \<le> 8161 then mapped decomposition_table_17 c
      else if c \<le> 8813 then mapped decomposition_table_18 c
      else if c \<le> 12404 then mapped decomposition_table_19 c
      else if c \<le> 12542 then mapped decomposition_table_20 c
      else if c < 44032 then [c]
      else if c \<le> 55203 then hangul_decomposition c
      else if c < 63744 then [c]
      else if c \<le> 63791 then mapped decomposition_table_21 c
      else if c \<le> 63839 then mapped decomposition_table_22 c
      else if c \<le> 63887 then mapped decomposition_table_23 c
      else if c \<le> 63935 then mapped decomposition_table_24 c
      else if c \<le> 63983 then mapped decomposition_table_25 c
      else if c \<le> 64043 then mapped decomposition_table_26 c
      else if c \<le> 64091 then mapped decomposition_table_27 c
      else if c \<le> 64141 then mapped decomposition_table_28 c
      else if c \<le> 64189 then mapped decomposition_table_29 c
      else if c \<le> 64316 then mapped decomposition_table_30 c
      else if c \<le> 64334 then mapped decomposition_table_31 c
      else if c < 69786 then [c]
      else if c \<le> 71992 then mapped decomposition_table_32 c
      else if c < 119134 then [c]
      else if c \<le> 119232 then mapped decomposition_table_33 c
      else if c < 194560 then [c]
      else if c \<le> 194607 then mapped decomposition_table_34 c
      else if c \<le> 194655 then mapped decomposition_table_35 c
      else if c \<le> 194703 then mapped decomposition_table_36 c
      else if c \<le> 194751 then mapped decomposition_table_37 c
      else if c \<le> 194799 then mapped decomposition_table_38 c
      else if c \<le> 194847 then mapped decomposition_table_39 c
      else if c \<le> 194895 then mapped decomposition_table_40 c
      else if c \<le> 194943 then mapped decomposition_table_41 c
      else if c \<le> 194991 then mapped decomposition_table_42 c
      else if c \<le> 195039 then mapped decomposition_table_43 c
      else if c \<le> 195087 then mapped decomposition_table_44 c
      else if c \<le> 195101 then mapped decomposition_table_45 c
      else [c])"

text \<open>
  The canonical combining classes that are not 0, as ranges with their class. A character
  of class 0 is a starter.
\<close>

definition class_table_00 :: "(nat \<times> nat \<times> nat) list" where
  "class_table_00 =
    [(768, 788, 230), (789, 789, 232), (790, 793, 220), (794, 794, 232), (795, 795, 216),
     (796, 800, 220), (801, 802, 202), (803, 806, 220), (807, 808, 202), (809, 819, 220),
     (820, 824, 1), (825, 828, 220), (829, 836, 230), (837, 837, 240), (838, 838, 230),
     (839, 841, 220), (842, 844, 230), (845, 846, 220), (848, 850, 230), (851, 854, 220),
     (855, 855, 230), (856, 856, 232), (857, 858, 220), (859, 859, 230), (860, 860, 233),
     (861, 862, 234), (863, 863, 233), (864, 865, 234), (866, 866, 233), (867, 879, 230),
     (1155, 1159, 230), (1425, 1425, 220), (1426, 1429, 230), (1430, 1430, 220),
     (1431, 1433, 230), (1434, 1434, 222), (1435, 1435, 220), (1436, 1441, 230),
     (1442, 1447, 220), (1448, 1449, 230), (1450, 1450, 220), (1451, 1452, 230),
     (1453, 1453, 222), (1454, 1454, 228), (1455, 1455, 230), (1456, 1456, 10), (1457, 1457, 11),
     (1458, 1458, 12), (1459, 1459, 13), (1460, 1460, 14), (1461, 1461, 15), (1462, 1462, 16),
     (1463, 1463, 17), (1464, 1464, 18), (1465, 1466, 19), (1467, 1467, 20), (1468, 1468, 21),
     (1469, 1469, 22), (1471, 1471, 23), (1473, 1473, 24), (1474, 1474, 25), (1476, 1476, 230),
     (1477, 1477, 220), (1479, 1479, 18)]"

definition class_table_01 :: "(nat \<times> nat \<times> nat) list" where
  "class_table_01 =
    [(1552, 1559, 230), (1560, 1560, 30), (1561, 1561, 31), (1562, 1562, 32), (1611, 1611, 27),
     (1612, 1612, 28), (1613, 1613, 29), (1614, 1614, 30), (1615, 1615, 31), (1616, 1616, 32),
     (1617, 1617, 33), (1618, 1618, 34), (1619, 1620, 230), (1621, 1622, 220), (1623, 1627, 230),
     (1628, 1628, 220), (1629, 1630, 230), (1631, 1631, 220), (1648, 1648, 35), (1750, 1756, 230),
     (1759, 1762, 230), (1763, 1763, 220), (1764, 1764, 230), (1767, 1768, 230),
     (1770, 1770, 220), (1771, 1772, 230), (1773, 1773, 220), (1809, 1809, 36), (1840, 1840, 230),
     (1841, 1841, 220), (1842, 1843, 230), (1844, 1844, 220), (1845, 1846, 230),
     (1847, 1849, 220), (1850, 1850, 230), (1851, 1852, 220), (1853, 1853, 230),
     (1854, 1854, 220), (1855, 1857, 230), (1858, 1858, 220), (1859, 1859, 230),
     (1860, 1860, 220), (1861, 1861, 230), (1862, 1862, 220), (1863, 1863, 230),
     (1864, 1864, 220), (1865, 1866, 230), (2027, 2033, 230), (2034, 2034, 220),
     (2035, 2035, 230), (2045, 2045, 220), (2070, 2073, 230), (2075, 2083, 230),
     (2085, 2087, 230), (2089, 2093, 230), (2137, 2139, 220), (2200, 2200, 230),
     (2201, 2203, 220), (2204, 2207, 230), (2250, 2254, 230), (2255, 2259, 220),
     (2260, 2273, 230), (2275, 2275, 220), (2276, 2277, 230)]"

definition class_table_02 :: "(nat \<times> nat \<times> nat) list" where
  "class_table_02 =
    [(2278, 2278, 220), (2279, 2280, 230), (2281, 2281, 220), (2282, 2284, 230),
     (2285, 2287, 220), (2288, 2288, 27), (2289, 2289, 28), (2290, 2290, 29), (2291, 2293, 230),
     (2294, 2294, 220), (2295, 2296, 230), (2297, 2298, 220), (2299, 2303, 230), (2364, 2364, 7),
     (2381, 2381, 9), (2385, 2385, 230), (2386, 2386, 220), (2387, 2388, 230), (2492, 2492, 7),
     (2509, 2509, 9), (2558, 2558, 230), (2620, 2620, 7), (2637, 2637, 9), (2748, 2748, 7),
     (2765, 2765, 9), (2876, 2876, 7), (2893, 2893, 9), (3021, 3021, 9), (3132, 3132, 7),
     (3149, 3149, 9), (3157, 3157, 84), (3158, 3158, 91), (3260, 3260, 7), (3277, 3277, 9),
     (3387, 3388, 9), (3405, 3405, 9), (3530, 3530, 9), (3640, 3641, 103), (3642, 3642, 9),
     (3656, 3659, 107), (3768, 3769, 118), (3770, 3770, 9), (3784, 3787, 122), (3864, 3865, 220),
     (3893, 3893, 220), (3895, 3895, 220), (3897, 3897, 216), (3953, 3953, 129),
     (3954, 3954, 130), (3956, 3956, 132), (3962, 3965, 130), (3968, 3968, 130),
     (3970, 3971, 230), (3972, 3972, 9), (3974, 3975, 230), (4038, 4038, 220), (4151, 4151, 7),
     (4153, 4154, 9), (4237, 4237, 220), (4957, 4959, 230), (5908, 5909, 9), (5940, 5940, 9),
     (6098, 6098, 9), (6109, 6109, 230)]"

definition class_table_03 :: "(nat \<times> nat \<times> nat) list" where
  "class_table_03 =
    [(6313, 6313, 228), (6457, 6457, 222), (6458, 6458, 230), (6459, 6459, 220),
     (6679, 6679, 230), (6680, 6680, 220), (6752, 6752, 9), (6773, 6780, 230), (6783, 6783, 220),
     (6832, 6836, 230), (6837, 6842, 220), (6843, 6844, 230), (6845, 6845, 220),
     (6847, 6848, 220), (6849, 6850, 230), (6851, 6852, 220), (6853, 6857, 230),
     (6858, 6858, 220), (6859, 6862, 230), (6964, 6964, 7), (6980, 6980, 9), (7019, 7019, 230),
     (7020, 7020, 220), (7021, 7027, 230), (7082, 7083, 9), (7142, 7142, 7), (7154, 7155, 9),
     (7223, 7223, 7), (7376, 7378, 230), (7380, 7380, 1), (7381, 7385, 220), (7386, 7387, 230),
     (7388, 7391, 220), (7392, 7392, 230), (7394, 7400, 1), (7405, 7405, 220), (7412, 7412, 230),
     (7416, 7417, 230), (7616, 7617, 230), (7618, 7618, 220), (7619, 7625, 230),
     (7626, 7626, 220), (7627, 7628, 230), (7629, 7629, 234), (7630, 7630, 214),
     (7631, 7631, 220), (7632, 7632, 202), (7633, 7669, 230), (7670, 7670, 232),
     (7671, 7672, 228), (7673, 7673, 220), (7674, 7674, 218), (7675, 7675, 230),
     (7676, 7676, 233), (7677, 7677, 220), (7678, 7678, 230), (7679, 7679, 220),
     (8400, 8401, 230), (8402, 8403, 1), (8404, 8407, 230), (8408, 8410, 1), (8411, 8412, 230),
     (8417, 8417, 230), (8421, 8422, 1)]"

definition class_table_04 :: "(nat \<times> nat \<times> nat) list" where
  "class_table_04 =
    [(8423, 8423, 230), (8424, 8424, 220), (8425, 8425, 230), (8426, 8427, 1), (8428, 8431, 220),
     (8432, 8432, 230), (11503, 11505, 230), (11647, 11647, 9), (11744, 11775, 230),
     (12330, 12330, 218), (12331, 12331, 228), (12332, 12332, 232), (12333, 12333, 222),
     (12334, 12335, 224), (12441, 12442, 8)]"

definition class_table_05 :: "(nat \<times> nat \<times> nat) list" where
  "class_table_05 =
    [(42607, 42607, 230), (42612, 42621, 230), (42654, 42655, 230), (42736, 42737, 230),
     (43014, 43014, 9), (43052, 43052, 9), (43204, 43204, 9), (43232, 43249, 230),
     (43307, 43309, 220), (43347, 43347, 9), (43443, 43443, 7), (43456, 43456, 9),
     (43696, 43696, 230), (43698, 43699, 230), (43700, 43700, 220), (43703, 43704, 230),
     (43710, 43711, 230), (43713, 43713, 230), (43766, 43766, 9), (44013, 44013, 9)]"

definition class_table_06 :: "(nat \<times> nat \<times> nat) list" where
  "class_table_06 =
    [(64286, 64286, 26), (65056, 65062, 230), (65063, 65069, 220), (65070, 65071, 230),
     (66045, 66045, 220), (66272, 66272, 220), (66422, 66426, 230), (68109, 68109, 220),
     (68111, 68111, 230), (68152, 68152, 230), (68153, 68153, 1), (68154, 68154, 220),
     (68159, 68159, 9), (68325, 68325, 230), (68326, 68326, 220), (68900, 68903, 230),
     (69291, 69292, 230), (69446, 69447, 220), (69448, 69450, 230), (69451, 69451, 220),
     (69452, 69452, 230), (69453, 69456, 220), (69506, 69506, 230), (69507, 69507, 220),
     (69508, 69508, 230), (69509, 69509, 220), (69702, 69702, 9), (69744, 69744, 9),
     (69759, 69759, 9), (69817, 69817, 9), (69818, 69818, 7), (69888, 69890, 230),
     (69939, 69940, 9), (70003, 70003, 7), (70080, 70080, 9), (70090, 70090, 7),
     (70197, 70197, 9), (70198, 70198, 7), (70377, 70377, 7), (70378, 70378, 9),
     (70459, 70460, 7), (70477, 70477, 9), (70502, 70508, 230), (70512, 70516, 230),
     (70722, 70722, 9), (70726, 70726, 7), (70750, 70750, 230), (70850, 70850, 9),
     (70851, 70851, 7), (71103, 71103, 9), (71104, 71104, 7), (71231, 71231, 9),
     (71350, 71350, 9), (71351, 71351, 7), (71467, 71467, 9), (71737, 71737, 9),
     (71738, 71738, 7), (71997, 71998, 9), (72003, 72003, 7), (72160, 72160, 9),
     (72244, 72244, 9), (72263, 72263, 9), (72345, 72345, 9), (72767, 72767, 9)]"

definition class_table_07 :: "(nat \<times> nat \<times> nat) list" where
  "class_table_07 =
    [(73026, 73026, 7), (73028, 73029, 9), (73111, 73111, 9)]"

definition class_table_08 :: "(nat \<times> nat \<times> nat) list" where
  "class_table_08 =
    [(92912, 92916, 1), (92976, 92982, 230), (94192, 94193, 6)]"

definition class_table_09 :: "(nat \<times> nat \<times> nat) list" where
  "class_table_09 =
    [(113822, 113822, 1)]"

definition class_table_10 :: "(nat \<times> nat \<times> nat) list" where
  "class_table_10 =
    [(119141, 119142, 216), (119143, 119145, 1), (119149, 119149, 226), (119150, 119154, 216),
     (119163, 119170, 220), (119173, 119177, 230), (119178, 119179, 220), (119210, 119213, 230),
     (119362, 119364, 230), (122880, 122886, 230), (122888, 122904, 230), (122907, 122913, 230),
     (122915, 122916, 230), (122918, 122922, 230), (123184, 123190, 230), (123566, 123566, 230),
     (123628, 123631, 230), (125136, 125142, 220), (125252, 125257, 230), (125258, 125258, 7)]"

definition ccc :: "nat \<Rightarrow> nat" where
  "ccc c =
     (if c < 768 then 0
      else if c \<le> 1479 then class_in class_table_00 c
      else if c < 1552 then 0
      else if c \<le> 2277 then class_in class_table_01 c
      else if c \<le> 6109 then class_in class_table_02 c
      else if c < 6313 then 0
      else if c \<le> 8422 then class_in class_table_03 c
      else if c \<le> 12442 then class_in class_table_04 c
      else if c < 42607 then 0
      else if c \<le> 44013 then class_in class_table_05 c
      else if c < 64286 then 0
      else if c \<le> 72767 then class_in class_table_06 c
      else if c < 73026 then 0
      else if c \<le> 73111 then class_in class_table_07 c
      else if c < 92912 then 0
      else if c \<le> 94193 then class_in class_table_08 c
      else if c < 113822 then 0
      else if c \<le> 113822 then class_in class_table_09 c
      else if c < 119141 then 0
      else if c \<le> 125258 then class_in class_table_10 c
      else 0)"

text \<open>
  The lowercase mappings: the mapping of the database, or the unconditional one of its
  special casing where there is one (U+0130).
\<close>

definition lowercase_table_00 :: "(nat \<times> nat list) list" where
  "lowercase_table_00 =
    [(65, [97]), (66, [98]), (67, [99]), (68, [100]), (69, [101]), (70, [102]), (71, [103]),
     (72, [104]), (73, [105]), (74, [106]), (75, [107]), (76, [108]), (77, [109]), (78, [110]),
     (79, [111]), (80, [112]), (81, [113]), (82, [114]), (83, [115]), (84, [116]), (85, [117]),
     (86, [118]), (87, [119]), (88, [120]), (89, [121]), (90, [122]), (192, [224]), (193, [225]),
     (194, [226]), (195, [227]), (196, [228]), (197, [229]), (198, [230]), (199, [231]),
     (200, [232]), (201, [233]), (202, [234]), (203, [235]), (204, [236]), (205, [237]),
     (206, [238]), (207, [239]), (208, [240]), (209, [241]), (210, [242]), (211, [243]),
     (212, [244]), (213, [245])]"

definition lowercase_table_01 :: "(nat \<times> nat list) list" where
  "lowercase_table_01 =
    [(214, [246]), (216, [248]), (217, [249]), (218, [250]), (219, [251]), (220, [252]),
     (221, [253]), (222, [254]), (256, [257]), (258, [259]), (260, [261]), (262, [263]),
     (264, [265]), (266, [267]), (268, [269]), (270, [271]), (272, [273]), (274, [275]),
     (276, [277]), (278, [279]), (280, [281]), (282, [283]), (284, [285]), (286, [287]),
     (288, [289]), (290, [291]), (292, [293]), (294, [295]), (296, [297]), (298, [299]),
     (300, [301]), (302, [303]), (304, [105, 775]), (306, [307]), (308, [309]), (310, [311]),
     (313, [314]), (315, [316]), (317, [318]), (319, [320]), (321, [322]), (323, [324]),
     (325, [326]), (327, [328]), (330, [331]), (332, [333]), (334, [335]), (336, [337])]"

definition lowercase_table_02 :: "(nat \<times> nat list) list" where
  "lowercase_table_02 =
    [(338, [339]), (340, [341]), (342, [343]), (344, [345]), (346, [347]), (348, [349]),
     (350, [351]), (352, [353]), (354, [355]), (356, [357]), (358, [359]), (360, [361]),
     (362, [363]), (364, [365]), (366, [367]), (368, [369]), (370, [371]), (372, [373]),
     (374, [375]), (376, [255]), (377, [378]), (379, [380]), (381, [382]), (385, [595]),
     (386, [387]), (388, [389]), (390, [596]), (391, [392]), (393, [598]), (394, [599]),
     (395, [396]), (398, [477]), (399, [601]), (400, [603]), (401, [402]), (403, [608]),
     (404, [611]), (406, [617]), (407, [616]), (408, [409]), (412, [623]), (413, [626]),
     (415, [629]), (416, [417]), (418, [419]), (420, [421]), (422, [640]), (423, [424])]"

definition lowercase_table_03 :: "(nat \<times> nat list) list" where
  "lowercase_table_03 =
    [(425, [643]), (428, [429]), (430, [648]), (431, [432]), (433, [650]), (434, [651]),
     (435, [436]), (437, [438]), (439, [658]), (440, [441]), (444, [445]), (452, [454]),
     (453, [454]), (455, [457]), (456, [457]), (458, [460]), (459, [460]), (461, [462]),
     (463, [464]), (465, [466]), (467, [468]), (469, [470]), (471, [472]), (473, [474]),
     (475, [476]), (478, [479]), (480, [481]), (482, [483]), (484, [485]), (486, [487]),
     (488, [489]), (490, [491]), (492, [493]), (494, [495]), (497, [499]), (498, [499]),
     (500, [501]), (502, [405]), (503, [447]), (504, [505]), (506, [507]), (508, [509]),
     (510, [511]), (512, [513]), (514, [515]), (516, [517]), (518, [519]), (520, [521])]"

definition lowercase_table_04 :: "(nat \<times> nat list) list" where
  "lowercase_table_04 =
    [(522, [523]), (524, [525]), (526, [527]), (528, [529]), (530, [531]), (532, [533]),
     (534, [535]), (536, [537]), (538, [539]), (540, [541]), (542, [543]), (544, [414]),
     (546, [547]), (548, [549]), (550, [551]), (552, [553]), (554, [555]), (556, [557]),
     (558, [559]), (560, [561]), (562, [563]), (570, [11365]), (571, [572]), (573, [410]),
     (574, [11366]), (577, [578]), (579, [384]), (580, [649]), (581, [652]), (582, [583]),
     (584, [585]), (586, [587]), (588, [589]), (590, [591]), (880, [881]), (882, [883]),
     (886, [887]), (895, [1011]), (902, [940]), (904, [941]), (905, [942]), (906, [943]),
     (908, [972]), (910, [973]), (911, [974]), (913, [945]), (914, [946]), (915, [947])]"

definition lowercase_table_05 :: "(nat \<times> nat list) list" where
  "lowercase_table_05 =
    [(916, [948]), (917, [949]), (918, [950]), (919, [951]), (920, [952]), (921, [953]),
     (922, [954]), (923, [955]), (924, [956]), (925, [957]), (926, [958]), (927, [959]),
     (928, [960]), (929, [961]), (931, [963]), (932, [964]), (933, [965]), (934, [966]),
     (935, [967]), (936, [968]), (937, [969]), (938, [970]), (939, [971]), (975, [983]),
     (984, [985]), (986, [987]), (988, [989]), (990, [991]), (992, [993]), (994, [995]),
     (996, [997]), (998, [999]), (1000, [1001]), (1002, [1003]), (1004, [1005]), (1006, [1007]),
     (1012, [952]), (1015, [1016]), (1017, [1010]), (1018, [1019]), (1021, [891]), (1022, [892]),
     (1023, [893]), (1024, [1104]), (1025, [1105]), (1026, [1106]), (1027, [1107]), (1028, [1108])]"

definition lowercase_table_06 :: "(nat \<times> nat list) list" where
  "lowercase_table_06 =
    [(1029, [1109]), (1030, [1110]), (1031, [1111]), (1032, [1112]), (1033, [1113]),
     (1034, [1114]), (1035, [1115]), (1036, [1116]), (1037, [1117]), (1038, [1118]),
     (1039, [1119]), (1040, [1072]), (1041, [1073]), (1042, [1074]), (1043, [1075]),
     (1044, [1076]), (1045, [1077]), (1046, [1078]), (1047, [1079]), (1048, [1080]),
     (1049, [1081]), (1050, [1082]), (1051, [1083]), (1052, [1084]), (1053, [1085]),
     (1054, [1086]), (1055, [1087]), (1056, [1088]), (1057, [1089]), (1058, [1090]),
     (1059, [1091]), (1060, [1092]), (1061, [1093]), (1062, [1094]), (1063, [1095]),
     (1064, [1096]), (1065, [1097]), (1066, [1098]), (1067, [1099]), (1068, [1100]),
     (1069, [1101]), (1070, [1102]), (1071, [1103]), (1120, [1121]), (1122, [1123]),
     (1124, [1125]), (1126, [1127]), (1128, [1129])]"

definition lowercase_table_07 :: "(nat \<times> nat list) list" where
  "lowercase_table_07 =
    [(1130, [1131]), (1132, [1133]), (1134, [1135]), (1136, [1137]), (1138, [1139]),
     (1140, [1141]), (1142, [1143]), (1144, [1145]), (1146, [1147]), (1148, [1149]),
     (1150, [1151]), (1152, [1153]), (1162, [1163]), (1164, [1165]), (1166, [1167]),
     (1168, [1169]), (1170, [1171]), (1172, [1173]), (1174, [1175]), (1176, [1177]),
     (1178, [1179]), (1180, [1181]), (1182, [1183]), (1184, [1185]), (1186, [1187]),
     (1188, [1189]), (1190, [1191]), (1192, [1193]), (1194, [1195]), (1196, [1197]),
     (1198, [1199]), (1200, [1201]), (1202, [1203]), (1204, [1205]), (1206, [1207]),
     (1208, [1209]), (1210, [1211]), (1212, [1213]), (1214, [1215]), (1216, [1231]),
     (1217, [1218]), (1219, [1220]), (1221, [1222]), (1223, [1224]), (1225, [1226]),
     (1227, [1228]), (1229, [1230]), (1232, [1233])]"

definition lowercase_table_08 :: "(nat \<times> nat list) list" where
  "lowercase_table_08 =
    [(1234, [1235]), (1236, [1237]), (1238, [1239]), (1240, [1241]), (1242, [1243]),
     (1244, [1245]), (1246, [1247]), (1248, [1249]), (1250, [1251]), (1252, [1253]),
     (1254, [1255]), (1256, [1257]), (1258, [1259]), (1260, [1261]), (1262, [1263]),
     (1264, [1265]), (1266, [1267]), (1268, [1269]), (1270, [1271]), (1272, [1273]),
     (1274, [1275]), (1276, [1277]), (1278, [1279]), (1280, [1281]), (1282, [1283]),
     (1284, [1285]), (1286, [1287]), (1288, [1289]), (1290, [1291]), (1292, [1293]),
     (1294, [1295]), (1296, [1297]), (1298, [1299]), (1300, [1301]), (1302, [1303]),
     (1304, [1305]), (1306, [1307]), (1308, [1309]), (1310, [1311]), (1312, [1313]),
     (1314, [1315]), (1316, [1317]), (1318, [1319]), (1320, [1321]), (1322, [1323]),
     (1324, [1325]), (1326, [1327]), (1329, [1377])]"

definition lowercase_table_09 :: "(nat \<times> nat list) list" where
  "lowercase_table_09 =
    [(1330, [1378]), (1331, [1379]), (1332, [1380]), (1333, [1381]), (1334, [1382]),
     (1335, [1383]), (1336, [1384]), (1337, [1385]), (1338, [1386]), (1339, [1387]),
     (1340, [1388]), (1341, [1389]), (1342, [1390]), (1343, [1391]), (1344, [1392]),
     (1345, [1393]), (1346, [1394]), (1347, [1395]), (1348, [1396]), (1349, [1397]),
     (1350, [1398]), (1351, [1399]), (1352, [1400]), (1353, [1401]), (1354, [1402]),
     (1355, [1403]), (1356, [1404]), (1357, [1405]), (1358, [1406]), (1359, [1407]),
     (1360, [1408]), (1361, [1409]), (1362, [1410]), (1363, [1411]), (1364, [1412]),
     (1365, [1413]), (1366, [1414]), (4256, [11520]), (4257, [11521]), (4258, [11522]),
     (4259, [11523]), (4260, [11524]), (4261, [11525]), (4262, [11526]), (4263, [11527]),
     (4264, [11528]), (4265, [11529]), (4266, [11530])]"

definition lowercase_table_10 :: "(nat \<times> nat list) list" where
  "lowercase_table_10 =
    [(4267, [11531]), (4268, [11532]), (4269, [11533]), (4270, [11534]), (4271, [11535]),
     (4272, [11536]), (4273, [11537]), (4274, [11538]), (4275, [11539]), (4276, [11540]),
     (4277, [11541]), (4278, [11542]), (4279, [11543]), (4280, [11544]), (4281, [11545]),
     (4282, [11546]), (4283, [11547]), (4284, [11548]), (4285, [11549]), (4286, [11550]),
     (4287, [11551]), (4288, [11552]), (4289, [11553]), (4290, [11554]), (4291, [11555]),
     (4292, [11556]), (4293, [11557]), (4295, [11559]), (4301, [11565]), (5024, [43888]),
     (5025, [43889]), (5026, [43890]), (5027, [43891]), (5028, [43892]), (5029, [43893]),
     (5030, [43894]), (5031, [43895]), (5032, [43896]), (5033, [43897]), (5034, [43898]),
     (5035, [43899]), (5036, [43900]), (5037, [43901]), (5038, [43902]), (5039, [43903]),
     (5040, [43904]), (5041, [43905]), (5042, [43906])]"

definition lowercase_table_11 :: "(nat \<times> nat list) list" where
  "lowercase_table_11 =
    [(5043, [43907]), (5044, [43908]), (5045, [43909]), (5046, [43910]), (5047, [43911]),
     (5048, [43912]), (5049, [43913]), (5050, [43914]), (5051, [43915]), (5052, [43916]),
     (5053, [43917]), (5054, [43918]), (5055, [43919]), (5056, [43920]), (5057, [43921]),
     (5058, [43922]), (5059, [43923]), (5060, [43924]), (5061, [43925]), (5062, [43926]),
     (5063, [43927]), (5064, [43928]), (5065, [43929]), (5066, [43930]), (5067, [43931]),
     (5068, [43932]), (5069, [43933]), (5070, [43934]), (5071, [43935]), (5072, [43936]),
     (5073, [43937]), (5074, [43938]), (5075, [43939]), (5076, [43940]), (5077, [43941]),
     (5078, [43942]), (5079, [43943]), (5080, [43944]), (5081, [43945]), (5082, [43946]),
     (5083, [43947]), (5084, [43948]), (5085, [43949]), (5086, [43950]), (5087, [43951]),
     (5088, [43952]), (5089, [43953]), (5090, [43954])]"

definition lowercase_table_12 :: "(nat \<times> nat list) list" where
  "lowercase_table_12 =
    [(5091, [43955]), (5092, [43956]), (5093, [43957]), (5094, [43958]), (5095, [43959]),
     (5096, [43960]), (5097, [43961]), (5098, [43962]), (5099, [43963]), (5100, [43964]),
     (5101, [43965]), (5102, [43966]), (5103, [43967]), (5104, [5112]), (5105, [5113]),
     (5106, [5114]), (5107, [5115]), (5108, [5116]), (5109, [5117]), (7312, [4304]),
     (7313, [4305]), (7314, [4306]), (7315, [4307]), (7316, [4308]), (7317, [4309]),
     (7318, [4310]), (7319, [4311]), (7320, [4312]), (7321, [4313]), (7322, [4314]),
     (7323, [4315]), (7324, [4316]), (7325, [4317]), (7326, [4318]), (7327, [4319]),
     (7328, [4320]), (7329, [4321]), (7330, [4322]), (7331, [4323]), (7332, [4324]),
     (7333, [4325]), (7334, [4326]), (7335, [4327]), (7336, [4328]), (7337, [4329]),
     (7338, [4330]), (7339, [4331]), (7340, [4332])]"

definition lowercase_table_13 :: "(nat \<times> nat list) list" where
  "lowercase_table_13 =
    [(7341, [4333]), (7342, [4334]), (7343, [4335]), (7344, [4336]), (7345, [4337]),
     (7346, [4338]), (7347, [4339]), (7348, [4340]), (7349, [4341]), (7350, [4342]),
     (7351, [4343]), (7352, [4344]), (7353, [4345]), (7354, [4346]), (7357, [4349]),
     (7358, [4350]), (7359, [4351]), (7680, [7681]), (7682, [7683]), (7684, [7685]),
     (7686, [7687]), (7688, [7689]), (7690, [7691]), (7692, [7693]), (7694, [7695]),
     (7696, [7697]), (7698, [7699]), (7700, [7701]), (7702, [7703]), (7704, [7705]),
     (7706, [7707]), (7708, [7709]), (7710, [7711]), (7712, [7713]), (7714, [7715]),
     (7716, [7717]), (7718, [7719]), (7720, [7721]), (7722, [7723]), (7724, [7725]),
     (7726, [7727]), (7728, [7729]), (7730, [7731]), (7732, [7733]), (7734, [7735]),
     (7736, [7737]), (7738, [7739]), (7740, [7741])]"

definition lowercase_table_14 :: "(nat \<times> nat list) list" where
  "lowercase_table_14 =
    [(7742, [7743]), (7744, [7745]), (7746, [7747]), (7748, [7749]), (7750, [7751]),
     (7752, [7753]), (7754, [7755]), (7756, [7757]), (7758, [7759]), (7760, [7761]),
     (7762, [7763]), (7764, [7765]), (7766, [7767]), (7768, [7769]), (7770, [7771]),
     (7772, [7773]), (7774, [7775]), (7776, [7777]), (7778, [7779]), (7780, [7781]),
     (7782, [7783]), (7784, [7785]), (7786, [7787]), (7788, [7789]), (7790, [7791]),
     (7792, [7793]), (7794, [7795]), (7796, [7797]), (7798, [7799]), (7800, [7801]),
     (7802, [7803]), (7804, [7805]), (7806, [7807]), (7808, [7809]), (7810, [7811]),
     (7812, [7813]), (7814, [7815]), (7816, [7817]), (7818, [7819]), (7820, [7821]),
     (7822, [7823]), (7824, [7825]), (7826, [7827]), (7828, [7829]), (7838, [223]),
     (7840, [7841]), (7842, [7843]), (7844, [7845])]"

definition lowercase_table_15 :: "(nat \<times> nat list) list" where
  "lowercase_table_15 =
    [(7846, [7847]), (7848, [7849]), (7850, [7851]), (7852, [7853]), (7854, [7855]),
     (7856, [7857]), (7858, [7859]), (7860, [7861]), (7862, [7863]), (7864, [7865]),
     (7866, [7867]), (7868, [7869]), (7870, [7871]), (7872, [7873]), (7874, [7875]),
     (7876, [7877]), (7878, [7879]), (7880, [7881]), (7882, [7883]), (7884, [7885]),
     (7886, [7887]), (7888, [7889]), (7890, [7891]), (7892, [7893]), (7894, [7895]),
     (7896, [7897]), (7898, [7899]), (7900, [7901]), (7902, [7903]), (7904, [7905]),
     (7906, [7907]), (7908, [7909]), (7910, [7911]), (7912, [7913]), (7914, [7915]),
     (7916, [7917]), (7918, [7919]), (7920, [7921]), (7922, [7923]), (7924, [7925]),
     (7926, [7927]), (7928, [7929]), (7930, [7931]), (7932, [7933]), (7934, [7935]),
     (7944, [7936]), (7945, [7937]), (7946, [7938])]"

definition lowercase_table_16 :: "(nat \<times> nat list) list" where
  "lowercase_table_16 =
    [(7947, [7939]), (7948, [7940]), (7949, [7941]), (7950, [7942]), (7951, [7943]),
     (7960, [7952]), (7961, [7953]), (7962, [7954]), (7963, [7955]), (7964, [7956]),
     (7965, [7957]), (7976, [7968]), (7977, [7969]), (7978, [7970]), (7979, [7971]),
     (7980, [7972]), (7981, [7973]), (7982, [7974]), (7983, [7975]), (7992, [7984]),
     (7993, [7985]), (7994, [7986]), (7995, [7987]), (7996, [7988]), (7997, [7989]),
     (7998, [7990]), (7999, [7991]), (8008, [8000]), (8009, [8001]), (8010, [8002]),
     (8011, [8003]), (8012, [8004]), (8013, [8005]), (8025, [8017]), (8027, [8019]),
     (8029, [8021]), (8031, [8023]), (8040, [8032]), (8041, [8033]), (8042, [8034]),
     (8043, [8035]), (8044, [8036]), (8045, [8037]), (8046, [8038]), (8047, [8039]),
     (8072, [8064]), (8073, [8065]), (8074, [8066])]"

definition lowercase_table_17 :: "(nat \<times> nat list) list" where
  "lowercase_table_17 =
    [(8075, [8067]), (8076, [8068]), (8077, [8069]), (8078, [8070]), (8079, [8071]),
     (8088, [8080]), (8089, [8081]), (8090, [8082]), (8091, [8083]), (8092, [8084]),
     (8093, [8085]), (8094, [8086]), (8095, [8087]), (8104, [8096]), (8105, [8097]),
     (8106, [8098]), (8107, [8099]), (8108, [8100]), (8109, [8101]), (8110, [8102]),
     (8111, [8103]), (8120, [8112]), (8121, [8113]), (8122, [8048]), (8123, [8049]),
     (8124, [8115]), (8136, [8050]), (8137, [8051]), (8138, [8052]), (8139, [8053]),
     (8140, [8131]), (8152, [8144]), (8153, [8145]), (8154, [8054]), (8155, [8055]),
     (8168, [8160]), (8169, [8161]), (8170, [8058]), (8171, [8059]), (8172, [8165]),
     (8184, [8056]), (8185, [8057]), (8186, [8060]), (8187, [8061]), (8188, [8179]),
     (8486, [969]), (8490, [107]), (8491, [229])]"

definition lowercase_table_18 :: "(nat \<times> nat list) list" where
  "lowercase_table_18 =
    [(8498, [8526]), (8544, [8560]), (8545, [8561]), (8546, [8562]), (8547, [8563]),
     (8548, [8564]), (8549, [8565]), (8550, [8566]), (8551, [8567]), (8552, [8568]),
     (8553, [8569]), (8554, [8570]), (8555, [8571]), (8556, [8572]), (8557, [8573]),
     (8558, [8574]), (8559, [8575]), (8579, [8580]), (9398, [9424]), (9399, [9425]),
     (9400, [9426]), (9401, [9427]), (9402, [9428]), (9403, [9429]), (9404, [9430]),
     (9405, [9431]), (9406, [9432]), (9407, [9433]), (9408, [9434]), (9409, [9435]),
     (9410, [9436]), (9411, [9437]), (9412, [9438]), (9413, [9439]), (9414, [9440]),
     (9415, [9441]), (9416, [9442]), (9417, [9443]), (9418, [9444]), (9419, [9445]),
     (9420, [9446]), (9421, [9447]), (9422, [9448]), (9423, [9449]), (11264, [11312]),
     (11265, [11313]), (11266, [11314]), (11267, [11315])]"

definition lowercase_table_19 :: "(nat \<times> nat list) list" where
  "lowercase_table_19 =
    [(11268, [11316]), (11269, [11317]), (11270, [11318]), (11271, [11319]), (11272, [11320]),
     (11273, [11321]), (11274, [11322]), (11275, [11323]), (11276, [11324]), (11277, [11325]),
     (11278, [11326]), (11279, [11327]), (11280, [11328]), (11281, [11329]), (11282, [11330]),
     (11283, [11331]), (11284, [11332]), (11285, [11333]), (11286, [11334]), (11287, [11335]),
     (11288, [11336]), (11289, [11337]), (11290, [11338]), (11291, [11339]), (11292, [11340]),
     (11293, [11341]), (11294, [11342]), (11295, [11343]), (11296, [11344]), (11297, [11345]),
     (11298, [11346]), (11299, [11347]), (11300, [11348]), (11301, [11349]), (11302, [11350]),
     (11303, [11351]), (11304, [11352]), (11305, [11353]), (11306, [11354]), (11307, [11355]),
     (11308, [11356]), (11309, [11357]), (11310, [11358]), (11311, [11359]), (11360, [11361]),
     (11362, [619]), (11363, [7549]), (11364, [637])]"

definition lowercase_table_20 :: "(nat \<times> nat list) list" where
  "lowercase_table_20 =
    [(11367, [11368]), (11369, [11370]), (11371, [11372]), (11373, [593]), (11374, [625]),
     (11375, [592]), (11376, [594]), (11378, [11379]), (11381, [11382]), (11390, [575]),
     (11391, [576]), (11392, [11393]), (11394, [11395]), (11396, [11397]), (11398, [11399]),
     (11400, [11401]), (11402, [11403]), (11404, [11405]), (11406, [11407]), (11408, [11409]),
     (11410, [11411]), (11412, [11413]), (11414, [11415]), (11416, [11417]), (11418, [11419]),
     (11420, [11421]), (11422, [11423]), (11424, [11425]), (11426, [11427]), (11428, [11429]),
     (11430, [11431]), (11432, [11433]), (11434, [11435]), (11436, [11437]), (11438, [11439]),
     (11440, [11441]), (11442, [11443]), (11444, [11445]), (11446, [11447]), (11448, [11449]),
     (11450, [11451]), (11452, [11453]), (11454, [11455]), (11456, [11457]), (11458, [11459]),
     (11460, [11461]), (11462, [11463]), (11464, [11465])]"

definition lowercase_table_21 :: "(nat \<times> nat list) list" where
  "lowercase_table_21 =
    [(11466, [11467]), (11468, [11469]), (11470, [11471]), (11472, [11473]), (11474, [11475]),
     (11476, [11477]), (11478, [11479]), (11480, [11481]), (11482, [11483]), (11484, [11485]),
     (11486, [11487]), (11488, [11489]), (11490, [11491]), (11499, [11500]), (11501, [11502]),
     (11506, [11507])]"

definition lowercase_table_22 :: "(nat \<times> nat list) list" where
  "lowercase_table_22 =
    [(42560, [42561]), (42562, [42563]), (42564, [42565]), (42566, [42567]), (42568, [42569]),
     (42570, [42571]), (42572, [42573]), (42574, [42575]), (42576, [42577]), (42578, [42579]),
     (42580, [42581]), (42582, [42583]), (42584, [42585]), (42586, [42587]), (42588, [42589]),
     (42590, [42591]), (42592, [42593]), (42594, [42595]), (42596, [42597]), (42598, [42599]),
     (42600, [42601]), (42602, [42603]), (42604, [42605]), (42624, [42625]), (42626, [42627]),
     (42628, [42629]), (42630, [42631]), (42632, [42633]), (42634, [42635]), (42636, [42637]),
     (42638, [42639]), (42640, [42641]), (42642, [42643]), (42644, [42645]), (42646, [42647]),
     (42648, [42649]), (42650, [42651]), (42786, [42787]), (42788, [42789]), (42790, [42791]),
     (42792, [42793]), (42794, [42795]), (42796, [42797]), (42798, [42799]), (42802, [42803]),
     (42804, [42805]), (42806, [42807]), (42808, [42809])]"

definition lowercase_table_23 :: "(nat \<times> nat list) list" where
  "lowercase_table_23 =
    [(42810, [42811]), (42812, [42813]), (42814, [42815]), (42816, [42817]), (42818, [42819]),
     (42820, [42821]), (42822, [42823]), (42824, [42825]), (42826, [42827]), (42828, [42829]),
     (42830, [42831]), (42832, [42833]), (42834, [42835]), (42836, [42837]), (42838, [42839]),
     (42840, [42841]), (42842, [42843]), (42844, [42845]), (42846, [42847]), (42848, [42849]),
     (42850, [42851]), (42852, [42853]), (42854, [42855]), (42856, [42857]), (42858, [42859]),
     (42860, [42861]), (42862, [42863]), (42873, [42874]), (42875, [42876]), (42877, [7545]),
     (42878, [42879]), (42880, [42881]), (42882, [42883]), (42884, [42885]), (42886, [42887]),
     (42891, [42892]), (42893, [613]), (42896, [42897]), (42898, [42899]), (42902, [42903]),
     (42904, [42905]), (42906, [42907]), (42908, [42909]), (42910, [42911]), (42912, [42913]),
     (42914, [42915]), (42916, [42917]), (42918, [42919])]"

definition lowercase_table_24 :: "(nat \<times> nat list) list" where
  "lowercase_table_24 =
    [(42920, [42921]), (42922, [614]), (42923, [604]), (42924, [609]), (42925, [620]),
     (42926, [618]), (42928, [670]), (42929, [647]), (42930, [669]), (42931, [43859]),
     (42932, [42933]), (42934, [42935]), (42936, [42937]), (42938, [42939]), (42940, [42941]),
     (42942, [42943]), (42944, [42945]), (42946, [42947]), (42948, [42900]), (42949, [642]),
     (42950, [7566]), (42951, [42952]), (42953, [42954]), (42960, [42961]), (42966, [42967]),
     (42968, [42969]), (42997, [42998])]"

definition lowercase_table_25 :: "(nat \<times> nat list) list" where
  "lowercase_table_25 =
    [(65313, [65345]), (65314, [65346]), (65315, [65347]), (65316, [65348]), (65317, [65349]),
     (65318, [65350]), (65319, [65351]), (65320, [65352]), (65321, [65353]), (65322, [65354]),
     (65323, [65355]), (65324, [65356]), (65325, [65357]), (65326, [65358]), (65327, [65359]),
     (65328, [65360]), (65329, [65361]), (65330, [65362]), (65331, [65363]), (65332, [65364]),
     (65333, [65365]), (65334, [65366]), (65335, [65367]), (65336, [65368]), (65337, [65369]),
     (65338, [65370]), (66560, [66600]), (66561, [66601]), (66562, [66602]), (66563, [66603]),
     (66564, [66604]), (66565, [66605]), (66566, [66606]), (66567, [66607]), (66568, [66608]),
     (66569, [66609]), (66570, [66610]), (66571, [66611]), (66572, [66612]), (66573, [66613]),
     (66574, [66614]), (66575, [66615]), (66576, [66616]), (66577, [66617]), (66578, [66618]),
     (66579, [66619]), (66580, [66620]), (66581, [66621])]"

definition lowercase_table_26 :: "(nat \<times> nat list) list" where
  "lowercase_table_26 =
    [(66582, [66622]), (66583, [66623]), (66584, [66624]), (66585, [66625]), (66586, [66626]),
     (66587, [66627]), (66588, [66628]), (66589, [66629]), (66590, [66630]), (66591, [66631]),
     (66592, [66632]), (66593, [66633]), (66594, [66634]), (66595, [66635]), (66596, [66636]),
     (66597, [66637]), (66598, [66638]), (66599, [66639]), (66736, [66776]), (66737, [66777]),
     (66738, [66778]), (66739, [66779]), (66740, [66780]), (66741, [66781]), (66742, [66782]),
     (66743, [66783]), (66744, [66784]), (66745, [66785]), (66746, [66786]), (66747, [66787]),
     (66748, [66788]), (66749, [66789]), (66750, [66790]), (66751, [66791]), (66752, [66792]),
     (66753, [66793]), (66754, [66794]), (66755, [66795]), (66756, [66796]), (66757, [66797]),
     (66758, [66798]), (66759, [66799]), (66760, [66800]), (66761, [66801]), (66762, [66802]),
     (66763, [66803]), (66764, [66804]), (66765, [66805])]"

definition lowercase_table_27 :: "(nat \<times> nat list) list" where
  "lowercase_table_27 =
    [(66766, [66806]), (66767, [66807]), (66768, [66808]), (66769, [66809]), (66770, [66810]),
     (66771, [66811]), (66928, [66967]), (66929, [66968]), (66930, [66969]), (66931, [66970]),
     (66932, [66971]), (66933, [66972]), (66934, [66973]), (66935, [66974]), (66936, [66975]),
     (66937, [66976]), (66938, [66977]), (66940, [66979]), (66941, [66980]), (66942, [66981]),
     (66943, [66982]), (66944, [66983]), (66945, [66984]), (66946, [66985]), (66947, [66986]),
     (66948, [66987]), (66949, [66988]), (66950, [66989]), (66951, [66990]), (66952, [66991]),
     (66953, [66992]), (66954, [66993]), (66956, [66995]), (66957, [66996]), (66958, [66997]),
     (66959, [66998]), (66960, [66999]), (66961, [67000]), (66962, [67001]), (66964, [67003]),
     (66965, [67004]), (68736, [68800]), (68737, [68801]), (68738, [68802]), (68739, [68803]),
     (68740, [68804]), (68741, [68805]), (68742, [68806])]"

definition lowercase_table_28 :: "(nat \<times> nat list) list" where
  "lowercase_table_28 =
    [(68743, [68807]), (68744, [68808]), (68745, [68809]), (68746, [68810]), (68747, [68811]),
     (68748, [68812]), (68749, [68813]), (68750, [68814]), (68751, [68815]), (68752, [68816]),
     (68753, [68817]), (68754, [68818]), (68755, [68819]), (68756, [68820]), (68757, [68821]),
     (68758, [68822]), (68759, [68823]), (68760, [68824]), (68761, [68825]), (68762, [68826]),
     (68763, [68827]), (68764, [68828]), (68765, [68829]), (68766, [68830]), (68767, [68831]),
     (68768, [68832]), (68769, [68833]), (68770, [68834]), (68771, [68835]), (68772, [68836]),
     (68773, [68837]), (68774, [68838]), (68775, [68839]), (68776, [68840]), (68777, [68841]),
     (68778, [68842]), (68779, [68843]), (68780, [68844]), (68781, [68845]), (68782, [68846]),
     (68783, [68847]), (68784, [68848]), (68785, [68849]), (68786, [68850]), (71840, [71872]),
     (71841, [71873]), (71842, [71874]), (71843, [71875])]"

definition lowercase_table_29 :: "(nat \<times> nat list) list" where
  "lowercase_table_29 =
    [(71844, [71876]), (71845, [71877]), (71846, [71878]), (71847, [71879]), (71848, [71880]),
     (71849, [71881]), (71850, [71882]), (71851, [71883]), (71852, [71884]), (71853, [71885]),
     (71854, [71886]), (71855, [71887]), (71856, [71888]), (71857, [71889]), (71858, [71890]),
     (71859, [71891]), (71860, [71892]), (71861, [71893]), (71862, [71894]), (71863, [71895]),
     (71864, [71896]), (71865, [71897]), (71866, [71898]), (71867, [71899]), (71868, [71900]),
     (71869, [71901]), (71870, [71902]), (71871, [71903])]"

definition lowercase_table_30 :: "(nat \<times> nat list) list" where
  "lowercase_table_30 =
    [(93760, [93792]), (93761, [93793]), (93762, [93794]), (93763, [93795]), (93764, [93796]),
     (93765, [93797]), (93766, [93798]), (93767, [93799]), (93768, [93800]), (93769, [93801]),
     (93770, [93802]), (93771, [93803]), (93772, [93804]), (93773, [93805]), (93774, [93806]),
     (93775, [93807]), (93776, [93808]), (93777, [93809]), (93778, [93810]), (93779, [93811]),
     (93780, [93812]), (93781, [93813]), (93782, [93814]), (93783, [93815]), (93784, [93816]),
     (93785, [93817]), (93786, [93818]), (93787, [93819]), (93788, [93820]), (93789, [93821]),
     (93790, [93822]), (93791, [93823])]"

definition lowercase_table_31 :: "(nat \<times> nat list) list" where
  "lowercase_table_31 =
    [(125184, [125218]), (125185, [125219]), (125186, [125220]), (125187, [125221]),
     (125188, [125222]), (125189, [125223]), (125190, [125224]), (125191, [125225]),
     (125192, [125226]), (125193, [125227]), (125194, [125228]), (125195, [125229]),
     (125196, [125230]), (125197, [125231]), (125198, [125232]), (125199, [125233]),
     (125200, [125234]), (125201, [125235]), (125202, [125236]), (125203, [125237]),
     (125204, [125238]), (125205, [125239]), (125206, [125240]), (125207, [125241]),
     (125208, [125242]), (125209, [125243]), (125210, [125244]), (125211, [125245]),
     (125212, [125246]), (125213, [125247]), (125214, [125248]), (125215, [125249]),
     (125216, [125250]), (125217, [125251])]"

definition lowercase :: "nat \<Rightarrow> nat list" where
  "lowercase c =
     (if c < 65 then [c]
      else if c \<le> 213 then mapped lowercase_table_00 c
      else if c \<le> 336 then mapped lowercase_table_01 c
      else if c \<le> 423 then mapped lowercase_table_02 c
      else if c \<le> 520 then mapped lowercase_table_03 c
      else if c \<le> 915 then mapped lowercase_table_04 c
      else if c \<le> 1028 then mapped lowercase_table_05 c
      else if c \<le> 1128 then mapped lowercase_table_06 c
      else if c \<le> 1232 then mapped lowercase_table_07 c
      else if c \<le> 1329 then mapped lowercase_table_08 c
      else if c \<le> 4266 then mapped lowercase_table_09 c
      else if c \<le> 5042 then mapped lowercase_table_10 c
      else if c \<le> 5090 then mapped lowercase_table_11 c
      else if c \<le> 7340 then mapped lowercase_table_12 c
      else if c \<le> 7740 then mapped lowercase_table_13 c
      else if c \<le> 7844 then mapped lowercase_table_14 c
      else if c \<le> 7946 then mapped lowercase_table_15 c
      else if c \<le> 8074 then mapped lowercase_table_16 c
      else if c \<le> 8491 then mapped lowercase_table_17 c
      else if c \<le> 11267 then mapped lowercase_table_18 c
      else if c \<le> 11364 then mapped lowercase_table_19 c
      else if c \<le> 11464 then mapped lowercase_table_20 c
      else if c \<le> 11506 then mapped lowercase_table_21 c
      else if c < 42560 then [c]
      else if c \<le> 42808 then mapped lowercase_table_22 c
      else if c \<le> 42918 then mapped lowercase_table_23 c
      else if c \<le> 42997 then mapped lowercase_table_24 c
      else if c < 65313 then [c]
      else if c \<le> 66581 then mapped lowercase_table_25 c
      else if c \<le> 66765 then mapped lowercase_table_26 c
      else if c \<le> 68742 then mapped lowercase_table_27 c
      else if c \<le> 71843 then mapped lowercase_table_28 c
      else if c \<le> 71871 then mapped lowercase_table_29 c
      else if c < 93760 then [c]
      else if c \<le> 93791 then mapped lowercase_table_30 c
      else if c < 125184 then [c]
      else if c \<le> 125217 then mapped lowercase_table_31 c
      else [c])"

text \<open>The characters with the property \<open>Cased\<close>.\<close>

definition cased_table_00 :: "(nat \<times> nat) list" where
  "cased_table_00 =
    [(65, 90), (97, 122), (170, 170), (181, 181), (186, 186), (192, 214), (216, 246), (248, 442),
     (444, 447), (452, 659), (661, 696), (704, 705), (736, 740), (837, 837), (880, 883),
     (886, 887), (890, 893), (895, 895), (902, 902), (904, 906), (908, 908), (910, 929),
     (931, 1013), (1015, 1153), (1162, 1327), (1329, 1366), (1376, 1416), (4256, 4293),
     (4295, 4295), (4301, 4301), (4304, 4346), (4349, 4351), (5024, 5109), (5112, 5117),
     (7296, 7304), (7312, 7354), (7357, 7359), (7424, 7615), (7680, 7957), (7960, 7965),
     (7968, 8005), (8008, 8013), (8016, 8023), (8025, 8025), (8027, 8027), (8029, 8029),
     (8031, 8061), (8064, 8116), (8118, 8124), (8126, 8126), (8130, 8132), (8134, 8140),
     (8144, 8147), (8150, 8155), (8160, 8172), (8178, 8180), (8182, 8188), (8305, 8305),
     (8319, 8319), (8336, 8348), (8450, 8450), (8455, 8455), (8458, 8467), (8469, 8469)]"

definition cased_table_01 :: "(nat \<times> nat) list" where
  "cased_table_01 =
    [(8473, 8477), (8484, 8484), (8486, 8486), (8488, 8488), (8490, 8493), (8495, 8500),
     (8505, 8505), (8508, 8511), (8517, 8521), (8526, 8526), (8544, 8575), (8579, 8580),
     (9398, 9449), (11264, 11492), (11499, 11502), (11506, 11507), (11520, 11557), (11559, 11559),
     (11565, 11565)]"

definition cased_table_02 :: "(nat \<times> nat) list" where
  "cased_table_02 =
    [(42560, 42605), (42624, 42653), (42786, 42887), (42891, 42894), (42896, 42954),
     (42960, 42961), (42963, 42963), (42965, 42969), (42997, 42998), (43000, 43002),
     (43824, 43866), (43868, 43880), (43888, 43967)]"

definition cased_table_03 :: "(nat \<times> nat) list" where
  "cased_table_03 =
    [(64256, 64262), (64275, 64279), (65313, 65338), (65345, 65370), (66560, 66639),
     (66736, 66771), (66776, 66811), (66928, 66938), (66940, 66954), (66956, 66962),
     (66964, 66965), (66967, 66977), (66979, 66993), (66995, 67001), (67003, 67004),
     (67456, 67456), (67459, 67461), (67463, 67504), (67506, 67514), (68736, 68786),
     (68800, 68850), (71840, 71903)]"

definition cased_table_04 :: "(nat \<times> nat) list" where
  "cased_table_04 =
    [(93760, 93823)]"

definition cased_table_05 :: "(nat \<times> nat) list" where
  "cased_table_05 =
    [(119808, 119892), (119894, 119964), (119966, 119967), (119970, 119970), (119973, 119974),
     (119977, 119980), (119982, 119993), (119995, 119995), (119997, 120003), (120005, 120069),
     (120071, 120074), (120077, 120084), (120086, 120092), (120094, 120121), (120123, 120126),
     (120128, 120132), (120134, 120134), (120138, 120144), (120146, 120485), (120488, 120512),
     (120514, 120538), (120540, 120570), (120572, 120596), (120598, 120628), (120630, 120654),
     (120656, 120686), (120688, 120712), (120714, 120744), (120746, 120770), (120772, 120779),
     (122624, 122633), (122635, 122654), (125184, 125251), (127280, 127305), (127312, 127337),
     (127344, 127369)]"

definition cased :: "nat \<Rightarrow> bool" where
  "cased c =
     (if c < 65 then False
      else if c \<le> 8469 then in_ranges cased_table_00 c
      else if c \<le> 11565 then in_ranges cased_table_01 c
      else if c < 42560 then False
      else if c \<le> 43967 then in_ranges cased_table_02 c
      else if c < 64256 then False
      else if c \<le> 71903 then in_ranges cased_table_03 c
      else if c < 93760 then False
      else if c \<le> 93823 then in_ranges cased_table_04 c
      else if c < 119808 then False
      else if c \<le> 127369 then in_ranges cased_table_05 c
      else False)"

text \<open>The characters with the property \<open>Case_Ignorable\<close>.\<close>

definition case_ignorable_table_00 :: "(nat \<times> nat) list" where
  "case_ignorable_table_00 =
    [(39, 39), (46, 46), (58, 58), (94, 94), (96, 96), (168, 168), (173, 173), (175, 175),
     (180, 180), (183, 184), (688, 879), (884, 885), (890, 890), (900, 901), (903, 903),
     (1155, 1161), (1369, 1369), (1375, 1375), (1425, 1469), (1471, 1471), (1473, 1474),
     (1476, 1477), (1479, 1479), (1524, 1524), (1536, 1541), (1552, 1562), (1564, 1564),
     (1600, 1600), (1611, 1631), (1648, 1648), (1750, 1757), (1759, 1768), (1770, 1773),
     (1807, 1807), (1809, 1809), (1840, 1866), (1958, 1968), (2027, 2037), (2042, 2042),
     (2045, 2045), (2070, 2093), (2137, 2139), (2184, 2184), (2192, 2193), (2200, 2207),
     (2249, 2306), (2362, 2362), (2364, 2364), (2369, 2376), (2381, 2381), (2385, 2391),
     (2402, 2403), (2417, 2417), (2433, 2433), (2492, 2492), (2497, 2500), (2509, 2509),
     (2530, 2531), (2558, 2558), (2561, 2562), (2620, 2620), (2625, 2626), (2631, 2632),
     (2635, 2637)]"

definition case_ignorable_table_01 :: "(nat \<times> nat) list" where
  "case_ignorable_table_01 =
    [(2641, 2641), (2672, 2673), (2677, 2677), (2689, 2690), (2748, 2748), (2753, 2757),
     (2759, 2760), (2765, 2765), (2786, 2787), (2810, 2815), (2817, 2817), (2876, 2876),
     (2879, 2879), (2881, 2884), (2893, 2893), (2901, 2902), (2914, 2915), (2946, 2946),
     (3008, 3008), (3021, 3021), (3072, 3072), (3076, 3076), (3132, 3132), (3134, 3136),
     (3142, 3144), (3146, 3149), (3157, 3158), (3170, 3171), (3201, 3201), (3260, 3260),
     (3263, 3263), (3270, 3270), (3276, 3277), (3298, 3299), (3328, 3329), (3387, 3388),
     (3393, 3396), (3405, 3405), (3426, 3427), (3457, 3457), (3530, 3530), (3538, 3540),
     (3542, 3542), (3633, 3633), (3636, 3642), (3654, 3662), (3761, 3761), (3764, 3772),
     (3782, 3782), (3784, 3789), (3864, 3865), (3893, 3893), (3895, 3895), (3897, 3897),
     (3953, 3966), (3968, 3972), (3974, 3975), (3981, 3991), (3993, 4028), (4038, 4038),
     (4141, 4144), (4146, 4151), (4153, 4154), (4157, 4158)]"

definition case_ignorable_table_02 :: "(nat \<times> nat) list" where
  "case_ignorable_table_02 =
    [(4184, 4185), (4190, 4192), (4209, 4212), (4226, 4226), (4229, 4230), (4237, 4237),
     (4253, 4253), (4348, 4348), (4957, 4959), (5906, 5908), (5938, 5939), (5970, 5971),
     (6002, 6003), (6068, 6069), (6071, 6077), (6086, 6086), (6089, 6099), (6103, 6103),
     (6109, 6109), (6155, 6159), (6211, 6211), (6277, 6278), (6313, 6313), (6432, 6434),
     (6439, 6440), (6450, 6450), (6457, 6459), (6679, 6680), (6683, 6683), (6742, 6742),
     (6744, 6750), (6752, 6752), (6754, 6754), (6757, 6764), (6771, 6780), (6783, 6783),
     (6823, 6823), (6832, 6862), (6912, 6915), (6964, 6964), (6966, 6970), (6972, 6972),
     (6978, 6978), (7019, 7027), (7040, 7041), (7074, 7077), (7080, 7081), (7083, 7085),
     (7142, 7142), (7144, 7145), (7149, 7149), (7151, 7153), (7212, 7219), (7222, 7223),
     (7288, 7293), (7376, 7378), (7380, 7392), (7394, 7400), (7405, 7405), (7412, 7412),
     (7416, 7417), (7468, 7530), (7544, 7544), (7579, 7679)]"

definition case_ignorable_table_03 :: "(nat \<times> nat) list" where
  "case_ignorable_table_03 =
    [(8125, 8125), (8127, 8129), (8141, 8143), (8157, 8159), (8173, 8175), (8189, 8190),
     (8203, 8207), (8216, 8217), (8228, 8228), (8231, 8231), (8234, 8238), (8288, 8292),
     (8294, 8303), (8305, 8305), (8319, 8319), (8336, 8348), (8400, 8432), (11388, 11389),
     (11503, 11505), (11631, 11631), (11647, 11647), (11744, 11775), (11823, 11823),
     (12293, 12293), (12330, 12333), (12337, 12341), (12347, 12347), (12441, 12446),
     (12540, 12542)]"

definition case_ignorable_table_04 :: "(nat \<times> nat) list" where
  "case_ignorable_table_04 =
    [(40981, 40981), (42232, 42237), (42508, 42508), (42607, 42610), (42612, 42621),
     (42623, 42623), (42652, 42655), (42736, 42737), (42752, 42785), (42864, 42864),
     (42888, 42890), (42994, 42996), (43000, 43001), (43010, 43010), (43014, 43014),
     (43019, 43019), (43045, 43046), (43052, 43052), (43204, 43205), (43232, 43249),
     (43263, 43263), (43302, 43309), (43335, 43345), (43392, 43394), (43443, 43443),
     (43446, 43449), (43452, 43453), (43471, 43471), (43493, 43494), (43561, 43566),
     (43569, 43570), (43573, 43574), (43587, 43587), (43596, 43596), (43632, 43632),
     (43644, 43644), (43696, 43696), (43698, 43700), (43703, 43704), (43710, 43711),
     (43713, 43713), (43741, 43741), (43756, 43757), (43763, 43764), (43766, 43766),
     (43867, 43871), (43881, 43883), (44005, 44005), (44008, 44008), (44013, 44013)]"

definition case_ignorable_table_05 :: "(nat \<times> nat) list" where
  "case_ignorable_table_05 =
    [(64286, 64286), (64434, 64450), (65024, 65039), (65043, 65043), (65056, 65071),
     (65106, 65106), (65109, 65109), (65279, 65279), (65287, 65287), (65294, 65294),
     (65306, 65306), (65342, 65342), (65344, 65344), (65392, 65392), (65438, 65439),
     (65507, 65507), (65529, 65531), (66045, 66045), (66272, 66272), (66422, 66426),
     (67456, 67461), (67463, 67504), (67506, 67514), (68097, 68099), (68101, 68102),
     (68108, 68111), (68152, 68154), (68159, 68159), (68325, 68326), (68900, 68903),
     (69291, 69292), (69446, 69456), (69506, 69509), (69633, 69633), (69688, 69702),
     (69744, 69744), (69747, 69748), (69759, 69761), (69811, 69814), (69817, 69818),
     (69821, 69821), (69826, 69826), (69837, 69837), (69888, 69890), (69927, 69931),
     (69933, 69940), (70003, 70003), (70016, 70017), (70070, 70078), (70089, 70092),
     (70095, 70095), (70191, 70193), (70196, 70196), (70198, 70199), (70206, 70206),
     (70367, 70367), (70371, 70378), (70400, 70401), (70459, 70460), (70464, 70464),
     (70502, 70508), (70512, 70516), (70712, 70719), (70722, 70724)]"

definition case_ignorable_table_06 :: "(nat \<times> nat) list" where
  "case_ignorable_table_06 =
    [(70726, 70726), (70750, 70750), (70835, 70840), (70842, 70842), (70847, 70848),
     (70850, 70851), (71090, 71093), (71100, 71101), (71103, 71104), (71132, 71133),
     (71219, 71226), (71229, 71229), (71231, 71232), (71339, 71339), (71341, 71341),
     (71344, 71349), (71351, 71351), (71453, 71455), (71458, 71461), (71463, 71467),
     (71727, 71735), (71737, 71738), (71995, 71996), (71998, 71998), (72003, 72003),
     (72148, 72151), (72154, 72155), (72160, 72160), (72193, 72202), (72243, 72248),
     (72251, 72254), (72263, 72263), (72273, 72278), (72281, 72283), (72330, 72342),
     (72344, 72345), (72752, 72758), (72760, 72765), (72767, 72767), (72850, 72871),
     (72874, 72880), (72882, 72883), (72885, 72886), (73009, 73014), (73018, 73018),
     (73020, 73021), (73023, 73029), (73031, 73031), (73104, 73105), (73109, 73109),
     (73111, 73111), (73459, 73460)]"

definition case_ignorable_table_07 :: "(nat \<times> nat) list" where
  "case_ignorable_table_07 =
    [(78896, 78904)]"

definition case_ignorable_table_08 :: "(nat \<times> nat) list" where
  "case_ignorable_table_08 =
    [(92912, 92916), (92976, 92982), (92992, 92995), (94031, 94031), (94095, 94111),
     (94176, 94177), (94179, 94180)]"

definition case_ignorable_table_09 :: "(nat \<times> nat) list" where
  "case_ignorable_table_09 =
    [(110576, 110579), (110581, 110587), (110589, 110590), (113821, 113822), (113824, 113827)]"

definition case_ignorable_table_10 :: "(nat \<times> nat) list" where
  "case_ignorable_table_10 =
    [(118528, 118573), (118576, 118598), (119143, 119145), (119155, 119170), (119173, 119179),
     (119210, 119213), (119362, 119364), (121344, 121398), (121403, 121452), (121461, 121461),
     (121476, 121476), (121499, 121503), (121505, 121519), (122880, 122886), (122888, 122904),
     (122907, 122913), (122915, 122916), (122918, 122922), (123184, 123197), (123566, 123566),
     (123628, 123631), (125136, 125142), (125252, 125259), (127995, 127999)]"

definition case_ignorable_table_11 :: "(nat \<times> nat) list" where
  "case_ignorable_table_11 =
    [(917505, 917505), (917536, 917631), (917760, 917999)]"

definition case_ignorable :: "nat \<Rightarrow> bool" where
  "case_ignorable c =
     (if c < 39 then False
      else if c \<le> 2637 then in_ranges case_ignorable_table_00 c
      else if c \<le> 4158 then in_ranges case_ignorable_table_01 c
      else if c < 4184 then False
      else if c \<le> 7679 then in_ranges case_ignorable_table_02 c
      else if c < 8125 then False
      else if c \<le> 12542 then in_ranges case_ignorable_table_03 c
      else if c < 40981 then False
      else if c \<le> 44013 then in_ranges case_ignorable_table_04 c
      else if c < 64286 then False
      else if c \<le> 70724 then in_ranges case_ignorable_table_05 c
      else if c \<le> 73460 then in_ranges case_ignorable_table_06 c
      else if c < 78896 then False
      else if c \<le> 78904 then in_ranges case_ignorable_table_07 c
      else if c < 92912 then False
      else if c \<le> 94180 then in_ranges case_ignorable_table_08 c
      else if c < 110576 then False
      else if c \<le> 113827 then in_ranges case_ignorable_table_09 c
      else if c < 118528 then False
      else if c \<le> 127999 then in_ranges case_ignorable_table_10 c
      else if c < 917505 then False
      else if c \<le> 917999 then in_ranges case_ignorable_table_11 c
      else False)"

subsection \<open>Normalization form D\<close>

text \<open>
  The canonical ordering of the normalization form: a character of nonzero class moves
  behind the following characters of nonzero, strictly smaller class, so each run of
  marks is sorted by class and marks of equal class keep their order.
\<close>

fun place :: "nat \<Rightarrow> nat list \<Rightarrow> nat list" where
  "place c [] = [c]"
| "place c (d # ds) = (if 0 < ccc d \<and> ccc d < ccc c then d # place c ds else c # d # ds)"

definition canonical_order :: "nat list \<Rightarrow> nat list" where
  "canonical_order x = foldr place x []"

definition nfd :: "jsstring \<Rightarrow> jsstring" where
  "nfd s = utf16 (canonical_order (concat (map decomposition (code_points s))))"

subsection \<open>The steps of \<open>norm\<close>\<close>

text \<open>The replacement of \<open>/[\u0300-\u036f]/g\<close> by the empty string removes these code units.\<close>

definition combining_mark :: "nat \<Rightarrow> bool" where
  "combining_mark c = (768 \<le> c \<and> c \<le> 879)"

definition strip_marks :: "jsstring \<Rightarrow> jsstring" where
  "strip_marks s = filter (\<lambda>c. \<not> combining_mark c) s"

text \<open>
  \<open>toLowerCase\<close> replaces each code point by its lowercase mapping. The mapping of
  U+03A3 (capital sigma) depends on the context: it is U+03C2 (final sigma) when a cased
  letter precedes it and none follows it, case-ignorable characters skipped on both sides,
  and U+03C3 otherwise. \<open>before\<close> holds the preceding code points, the nearest first.
\<close>

definition final_sigma :: "nat list \<Rightarrow> nat list \<Rightarrow> bool" where
  "final_sigma before after =
     (let b = dropWhile case_ignorable before; a = dropWhile case_ignorable after
      in (b \<noteq> [] \<and> cased (hd b)) \<and> \<not> (a \<noteq> [] \<and> cased (hd a)))"

fun lower_points :: "nat list \<Rightarrow> nat list \<Rightarrow> nat list" where
  "lower_points before [] = []"
| "lower_points before (c # after) =
     (if c = 931 then [if final_sigma before after then 962 else 963] else lowercase c)
     @ lower_points (c # before) after"

definition toLowerCase :: "jsstring \<Rightarrow> jsstring" where
  "toLowerCase s = utf16 (lower_points [] (code_points s))"

text \<open>\<open>trim\<close> removes the white space and line terminators at both ends.\<close>

definition trim :: "jsstring \<Rightarrow> jsstring" where
  "trim s = rev (dropWhile is_space (rev (dropWhile is_space s)))"

definition norm_js :: "jsstring \<Rightarrow> jsstring" where
  "norm_js s = trim (toLowerCase (strip_marks (nfd s)))"

text \<open>The four steps on the code points of a string.\<close>

definition norm_points :: "nat list \<Rightarrow> nat list" where
  "norm_points x =
     trim (lower_points [] (filter (\<lambda>c. \<not> combining_mark c)
       (canonical_order (concat (map decomposition x)))))"

text \<open>A sequence in canonical order: no mark directly follows a mark of greater class.\<close>

fun ordered :: "nat list \<Rightarrow> bool" where
  "ordered [] = True"
| "ordered [c] = True"
| "ordered (c # d # ds) = (\<not> (0 < ccc d \<and> ccc d < ccc c) \<and> ordered (d # ds))"

text \<open>
  The properties of the tables that the normalizer relies on, for one entry of a table.
  A canonical decomposition is full: its code points have no decomposition of their own;
  they are scalar values, and none is U+034F. The lowercase mapping of a code point
  without decomposition consists of starters that have no decomposition, are outside the
  range of the stripped marks and are lowercase already, and the code point is a starter.
\<close>

definition decomposed :: "nat list \<Rightarrow> bool" where
  "decomposed ds = list_all (\<lambda>d. decomposition d = [d] \<and> scalar d \<and> d \<noteq> 847) ds"

definition lowered :: "nat list \<Rightarrow> bool" where
  "lowered v =
     (v \<noteq> [] \<and> list_all (\<lambda>e. decomposition e = [e] \<and> \<not> combining_mark e \<and> lowercase e = [e]
        \<and> e \<noteq> 931 \<and> ccc e = 0 \<and> scalar e) v)"

fun decomposition_entry :: "nat \<times> nat list \<Rightarrow> bool" where
  "decomposition_entry (k, ds) = decomposed ds"

fun lowercase_entry :: "nat \<times> nat list \<Rightarrow> bool" where
  "lowercase_entry (k, v) = (list_all scalar v \<and> (decomposition k = [k] \<longrightarrow> ccc k = 0 \<and> lowered v))"

section \<open>Numbers\<close>

text \<open>
  A JavaScript number is an IEEE 754 binary64 value. The lengths, positions and counts of
  this program are integers below \<open>2^53\<close> and are kept as \<open>nat\<close> or \<open>int\<close>; the scores
  are fractions, and every arithmetic operation on them rounds its exact result to the
  nearest value with a 53-bit significand, ties to even. The model keeps a finite number
  as the rational it denotes. The exponent range is not limited: for strings shorter than
  \<open>2^53\<close> every nonzero value computed here has a magnitude between \<open>2^-105\<close> and \<open>2^53\<close>,
  where binary64 neither overflows nor loses precision to subnormals.
\<close>

definition round_half_even :: "rat \<Rightarrow> int" where
  "round_half_even x =
     (let f = \<lfloor>x\<rfloor>; d = x - of_int f in
      if d < 1 / 2 then f else if 1 / 2 < d then f + 1 else if even f then f else f + 1)"

text \<open>The exponent \<open>e\<close> with \<open>2^e \<le> x < 2^(e+1)\<close>, for a positive \<open>x\<close>.\<close>

definition binade :: "rat \<Rightarrow> int" where
  "binade x =
     (let (p, q) = quotient_of x; k = bitlen p - bitlen q in
      if 2 powi k \<le> x then k else k - 1)"

definition fl :: "rat \<Rightarrow> rat" where
  "fl x =
     (if x = 0 then 0
      else (let u = 2 powi (binade \<bar>x\<bar> - 52) in of_int (round_half_even (x / u)) * u))"

definition js_add :: "rat \<Rightarrow> rat \<Rightarrow> rat" where
  "js_add x y = fl (x + y)"

definition js_sub :: "rat \<Rightarrow> rat \<Rightarrow> rat" where
  "js_sub x y = fl (x - y)"

definition js_div :: "rat \<Rightarrow> rat \<Rightarrow> rat" where
  "js_div x y = fl (x / y)"

text \<open>The value of the variable \<open>score\<close>: a finite number or \<open>Infinity\<close>.\<close>

datatype jsnumber = Num (num: rat) | Infinity

section \<open>Arrays\<close>

text \<open>
  \<open>xs.sort(cmp)\<close>. ECMAScript requires the sort to be stable and, for a comparator that
  is a consistent ordering, to leave \<open>cmp a b \<le> 0\<close> for every \<open>a\<close> placed before \<open>b\<close>;
  the algorithm is left to the engine. There is one such arrangement, and insertion of
  each element before the first one that is not smaller computes it.
\<close>

fun sort_insert :: "('a \<Rightarrow> 'a \<Rightarrow> rat) \<Rightarrow> 'a \<Rightarrow> 'a list \<Rightarrow> 'a list" where
  "sort_insert cmp x [] = [x]"
| "sort_insert cmp x (y # ys) =
     (if 0 < cmp x y then y # sort_insert cmp x ys else x # y # ys)"

fun js_sort :: "('a \<Rightarrow> 'a \<Rightarrow> rat) \<Rightarrow> 'a list \<Rightarrow> 'a list" where
  "js_sort cmp [] = []"
| "js_sort cmp (x # xs) = sort_insert cmp x (js_sort cmp xs)"

section \<open>Application state\<close>

text \<open>
  An entry of \<open>state.words\<close>: the fields of \<open>words.json\<close> and the search text that
  \<open>loadWords\<close> adds. Only \<open>type\<close> and \<open>_search\<close> are read by the functions below; the
  language fields are the extension part of the record.
\<close>

record word =
  wtype :: jsstring
  search :: jsstring

text \<open>
  \<open>state.fuse\<close> is an instance of the external Fuse.js library, or null. Its code is
  not part of the repository: it is a parameter, kept as the function from a query to the
  list of entry indices that \<open>searchIndices\<close> reads off its hits.
\<close>

record app_state =
  words :: "word list"
  deck :: "nat list"
  currentIndex :: nat
  seen :: "nat set"
  filter_type :: jsstring
  searchQuery :: jsstring
  fuse :: "(jsstring \<Rightarrow> nat list) option"

section \<open>Bounded Levenshtein distance\<close>

text \<open>
  The loop over \<open>j\<close> that fills one row \<open>cur\<close> from the row \<open>prev\<close> above it;
  \<open>b ! (j - 1)\<close> is \<open>b.charCodeAt(j - 1)\<close>. All values are small non-negative
  integers, which binary64 holds exactly.
\<close>

function lev_inner ::
  "nat \<Rightarrow> jsstring \<Rightarrow> nat \<Rightarrow> nat list \<Rightarrow> nat list \<Rightarrow> nat \<Rightarrow> nat \<Rightarrow> nat list \<times> nat" where
  "lev_inner ai b bl prev cur rowMin j =
     (if j \<le> bl then
        (let cost = (if ai = b ! (j - 1) then 0 else 1);
             val = min (min (prev ! j + 1) (cur ! (j - 1) + 1)) (prev ! (j - 1) + cost)
         in lev_inner ai b bl prev (cur[j := val]) (if val < rowMin then val else rowMin) (j + 1))
      else (cur, rowMin))"
  by pat_completeness auto
termination
  by (relation "measure (\<lambda>(ai, b, bl, prev, cur, rowMin, j). Suc bl - j)") auto

text \<open>
  The loop over \<open>i\<close>. After a row, every slot of \<open>prev\<close> is overwritten with the slot
  of \<open>cur\<close>, so the next iteration starts with both arrays holding that row.
\<close>

function lev_outer ::
  "jsstring \<Rightarrow> jsstring \<Rightarrow> nat \<Rightarrow> nat \<Rightarrow> nat \<Rightarrow> nat list \<Rightarrow> nat list \<Rightarrow> nat \<Rightarrow> nat" where
  "lev_outer a b mx al bl prev cur i =
     (if i \<le> al then
        (let cur0 = cur[0 := i];
             ai = a ! (i - 1);
             (cur', rowMin) = lev_inner ai b bl prev cur0 (cur0 ! 0) 1
         in if rowMin > mx then mx + 1
            else lev_outer a b mx al bl cur' cur' (i + 1))
      else (if prev ! bl \<le> mx then prev ! bl else mx + 1))"
  by pat_completeness auto
termination
  by (relation "measure (\<lambda>(a, b, mx, al, bl, prev, cur, i). Suc al - i)") auto

text \<open>
  \<open>new Array(bl + 1)\<close> has \<open>bl + 1\<close> empty slots. \<open>prev\<close> is filled with \<open>0..bl\<close> before
  the loop; the slots of \<open>cur\<close> start as 0 here, and each is written before it is read
  (\<open>lev_outer_correct\<close> below holds for every initial \<open>cur\<close>).
\<close>

definition levenshteinBounded :: "jsstring \<Rightarrow> jsstring \<Rightarrow> nat \<Rightarrow> nat" where
  "levenshteinBounded a b mx =
     (let al = length a; bl = length b in
      if abs_diff al bl > mx then mx + 1
      else if al = 0 then (if bl \<le> mx then bl else mx + 1)
      else if bl = 0 then (if al \<le> mx then al else mx + 1)
      else lev_outer a b mx al bl [0 ..< bl + 1] (replicate (bl + 1) 0) 1)"

section \<open>Token distance\<close>

function btd_loop :: "jsstring \<Rightarrow> jsstring list \<Rightarrow> nat \<Rightarrow> nat \<Rightarrow> nat \<Rightarrow> nat" where
  "btd_loop q tokens limit best k =
     (if k < limit then
        (let t = tokens ! k in
         if abs_diff (length t) (length q) > 2 then btd_loop q tokens limit best (k + 1)
         else (let d = levenshteinBounded q t 2;
                   best' = (if d < best then d else best)
               in if best' = 0 then 0 else btd_loop q tokens limit best' (k + 1)))
      else best)"
  by pat_completeness auto
termination
  by (relation "measure (\<lambda>(q, tokens, limit, best, k). limit - k)") auto

definition hay_tokens :: "jsstring \<Rightarrow> jsstring list" where
  "hay_tokens hay = filter (\<lambda>t. length t \<ge> 3) (js_split non_alnum hay)"

definition bestTokenDistance :: "jsstring \<Rightarrow> jsstring \<Rightarrow> nat" where
  "bestTokenDistance q hay =
     (let tokens = hay_tokens hay;
          limit = min (length tokens) 80
      in btd_loop q tokens limit 99 0)"

text \<open>
  The tokens that \<open>bestTokenDistance\<close> compares with \<open>q\<close>: those among the first 80
  that the length test does not skip.
\<close>

definition examined_tokens :: "jsstring \<Rightarrow> jsstring \<Rightarrow> jsstring list" where
  "examined_tokens q hay =
     filter (\<lambda>t. abs_diff (length t) (length q) \<le> 2) (take 80 (hay_tokens hay))"

section \<open>Offline search\<close>

text \<open>\<open>for (const t of qTokens) if (t.length >= 3 && hay.includes(t)) hits++\<close>\<close>

fun count_hits :: "jsstring list \<Rightarrow> jsstring \<Rightarrow> nat \<Rightarrow> nat" where
  "count_hits [] hay hits = hits"
| "count_hits (t # ts) hay hits =
     count_hits ts hay (if length t \<ge> 3 \<and> js_includes hay t then hits + 1 else hits)"

text \<open>The score that one iteration of the loop of \<open>offlineSearch\<close> gives a non-empty \<open>hay\<close>.\<close>

definition entry_score :: "jsstring \<Rightarrow> jsstring list \<Rightarrow> jsstring \<Rightarrow> jsnumber" where
  "entry_score q qTokens hay =
     (let pos = indexOf hay q in
      if pos \<noteq> - 1 then Num (js_add 0 (js_div (of_int pos) 10000))
      else (let hits = count_hits qTokens hay 0 in
            if hits > 0 then Num (js_sub 1 (js_div (of_nat hits) (of_nat (max 1 (length qTokens)))))
            else (let best = bestTokenDistance q hay in
                  if best \<le> 2 then Num (js_add 2 (js_div (of_nat best) 10)) else Infinity)))"

record result =
  res_i :: nat
  res_score :: rat

function search_loop ::
  "jsstring \<Rightarrow> jsstring list \<Rightarrow> word list \<Rightarrow> result list \<Rightarrow> nat \<Rightarrow> result list" where
  "search_loop q qTokens ws results i =
     (if i < length ws then
        (let hay = search (ws ! i) in
         if hay = [] then search_loop q qTokens ws results (i + 1)
         else (let score = entry_score q qTokens hay in
               search_loop q qTokens ws
                 (if score \<noteq> Infinity then results @ [\<lparr>res_i = i, res_score = num score\<rparr>]
                  else results)
                 (i + 1)))
      else results)"
  by pat_completeness auto
termination
  by (relation "measure (\<lambda>(q, qTokens, ws, results, i). length ws - i)") auto

definition query_tokens :: "jsstring \<Rightarrow> jsstring list" where
  "query_tokens q = filter (\<lambda>t. t \<noteq> []) (js_split is_space q)"

definition offlineSearch :: "app_state \<Rightarrow> jsstring \<Rightarrow> nat list" where
  "offlineSearch st q =
     (let qTokens = query_tokens q;
          results = search_loop q qTokens (words st) [] 0
      in map res_i (js_sort (\<lambda>a b. js_sub (res_score a) (res_score b)) results))"

text \<open>
  The value of \<open>score\<close> at the end of iteration \<open>i\<close> of the loop: \<open>Infinity\<close> when
  the entry is skipped or no tier matches, and the entry is not pushed.
\<close>

definition score_at :: "word list \<Rightarrow> jsstring \<Rightarrow> nat \<Rightarrow> jsnumber" where
  "score_at ws q i =
     (let hay = search (ws ! i) in
      if hay = [] then Infinity else entry_score q (query_tokens q) hay)"


text \<open>
  \<open>searchIndices\<close>. With a primary matcher, \<open>src/app.js\<close> maps each of its hits to
  \<open>refIndex\<close>; the later version of the file takes \<open>item.__i\<close> where \<open>refIndex\<close> is
  not an integer and drops what is left that is not one. Either list is what \<open>fuse\<close>
  yields here. \<open>state.words.map((_, i) => i)\<close> is the list of the positions.
\<close>

definition searchIndices :: "app_state \<Rightarrow> jsstring \<Rightarrow> nat list" where
  "searchIndices st queryNorm =
     (if length queryNorm < 3 then map fst (enumerate 0 (words st))
      else (case fuse st of
              Some search_fuse \<Rightarrow> search_fuse queryNorm
            | None \<Rightarrow> offlineSearch st queryNorm))"

section \<open>Edit distance\<close>

text \<open>
  One edit inserts, deletes or substitutes one character, anywhere in the string; each
  costs 1. The Levenshtein distance of \<open>a\<close> and \<open>b\<close> is the least number of edits that
  turn \<open>a\<close> into \<open>b\<close>.
\<close>

inductive edit1 :: "'a list \<Rightarrow> 'a list \<Rightarrow> bool" where
  insertion: "edit1 (u @ v) (u @ c # v)"
| deletion: "edit1 (u @ c # v) (u @ v)"
| substitution: "edit1 (u @ c # v) (u @ d # v)"

inductive edits :: "nat \<Rightarrow> 'a list \<Rightarrow> 'a list \<Rightarrow> bool" where
  edits_refl: "edits 0 a a"
| edits_step: "edits n a b \<Longrightarrow> edit1 b c \<Longrightarrow> edits (Suc n) a c"

text \<open>The same distance by recursion on the two strings (\<open>edit_distance_least\<close> below).\<close>

fun edit_distance :: "'a list \<Rightarrow> 'a list \<Rightarrow> nat" where
  "edit_distance [] ys = length ys"
| "edit_distance xs [] = length xs"
| "edit_distance (x # xs) (y # ys) =
     min (min (edit_distance xs (y # ys) + 1) (edit_distance (x # xs) ys + 1))
         (edit_distance xs ys + (if x = y then 0 else 1))"

text \<open>
  The distance between the first \<open>i\<close> characters of \<open>a\<close> and the first \<open>j\<close> of \<open>b\<close>:
  the entry in row \<open>i\<close>, column \<open>j\<close> of the matrix that \<open>levenshteinBounded\<close> fills.
\<close>

definition prefix_distance :: "'a list \<Rightarrow> 'a list \<Rightarrow> nat \<Rightarrow> nat \<Rightarrow> nat" where
  "prefix_distance a b i j = edit_distance (take i a) (take j b)"

text \<open>ASCII text as a string of code units, for writing examples.\<close>

definition ascii :: "string \<Rightarrow> jsstring" where
  "ascii s = map of_char s"

text \<open>The comparator \<open>(a, b) => a.score - b.score\<close> of \<open>offlineSearch\<close>.\<close>

definition score_cmp :: "result \<Rightarrow> result \<Rightarrow> rat" where
  "score_cmp a b = js_sub (res_score a) (res_score b)"

text \<open>The order of the result: by score, and by index among equal scores.\<close>

definition before :: "result \<Rightarrow> result \<Rightarrow> bool" where
  "before a b = (res_score a < res_score b \<or> (res_score a = res_score b \<and> res_i a < res_i b))"

text \<open>The object \<open>{ i, score }\<close> pushed for entry \<open>i\<close>, and the entries that are pushed.\<close>

definition pushed :: "word list \<Rightarrow> jsstring \<Rightarrow> nat \<Rightarrow> result" where
  "pushed ws q i = \<lparr>res_i = i, res_score = num (score_at ws q i)\<rparr>"

definition matched :: "word list \<Rightarrow> jsstring \<Rightarrow> nat list" where
  "matched ws q = filter (\<lambda>k. score_at ws q k \<noteq> Infinity) [0 ..< length ws]"

text \<open>A corpus given by its search texts, for examples.\<close>

definition entry :: "string \<Rightarrow> word" where
  "entry s = \<lparr>wtype = ascii ''noun'', search = ascii s\<rparr>"

definition corpus :: "string list \<Rightarrow> app_state" where
  "corpus ss =
     \<lparr>words = map entry ss, deck = [], currentIndex = 0, seen = {},
      filter_type = ascii ''all'', searchQuery = [], fuse = None\<rparr>"

text \<open>A text of \<open>n\<close> tokens \<open>aaa\<close>, for examples with many tokens.\<close>

definition many_tokens :: "nat \<Rightarrow> jsstring" where
  "many_tokens n = concat (replicate n (ascii ''aaa ''))"

declare lev_inner.simps [simp del] lev_outer.simps [simp del] btd_loop.simps [simp del]
  search_loop.simps [simp del] js_split.simps [simp del]

section \<open>The recursion computes the least number of edits\<close>

lemma edit_distance_Nil2 [simp]: "edit_distance xs [] = length xs"
  by (cases xs) simp_all

lemma edit1_Cons: "edit1 a b \<Longrightarrow> edit1 (x # a) (x # b)"
proof (induction rule: edit1.induct)
  case (insertion u v c)
  show ?case using edit1.insertion [of "x # u" v c] by simp
next
  case (deletion u c v)
  show ?case using edit1.deletion [of "x # u" c v] by simp
next
  case (substitution u c v d)
  show ?case using edit1.substitution [of "x # u" c v d] by simp
qed

lemma edit1_rev: "edit1 a b \<Longrightarrow> edit1 (rev a) (rev b)"
proof (induction rule: edit1.induct)
  case (insertion u v c)
  show ?case using edit1.insertion [of "rev v" "rev u" c] by simp
next
  case (deletion u c v)
  show ?case using edit1.deletion [of "rev v" c "rev u"] by simp
next
  case (substitution u c v d)
  show ?case using edit1.substitution [of "rev v" c "rev u" d] by simp
qed

lemma edits_Cons: "edits n a b \<Longrightarrow> edits n (x # a) (x # b)"
  by (induction rule: edits.induct) (auto intro: edits.intros edit1_Cons)

lemma edits_rev: "edits n a b \<Longrightarrow> edits n (rev a) (rev b)"
  by (induction rule: edits.induct) (auto intro: edits.intros edit1_rev)

lemma edits_trans: "edits m b c \<Longrightarrow> edits n a b \<Longrightarrow> edits (n + m) a c"
  by (induction rule: edits.induct) (auto intro: edits.intros)

lemma edits_first: "edit1 a b \<Longrightarrow> edits n b c \<Longrightarrow> edits (Suc n) a c"
  using edits_trans [of n b c "Suc 0" a] edits_step [OF edits_refl, of a b] by simp

lemma edits_insert_all: "edits (length ys) [] ys"
proof (induction ys rule: rev_induct)
  case Nil
  show ?case by (simp add: edits_refl)
next
  case (snoc y ys)
  have "edit1 (ys @ []) (ys @ y # [])" by (rule edit1.insertion)
  with snoc show ?case by (auto intro: edits_step)
qed

lemma edits_delete_all: "edits (length xs) xs []"
proof (induction xs)
  case Nil
  show ?case by (simp add: edits_refl)
next
  case (Cons x xs)
  have "edit1 ([] @ x # xs) ([] @ xs)" by (rule edit1.deletion)
  then have "edit1 (x # xs) xs" by simp
  from edits_first [OF this Cons] show ?case by simp
qed

lemma edits_edit_distance: "edits (edit_distance a b) a b"
proof (induction a b rule: edit_distance.induct)
  case (1 ys)
  show ?case using edits_insert_all [of ys] by simp
next
  case (2 v va)
  show ?case using edits_delete_all [of "v # va"] by simp
next
  case (3 x xs y ys)
  let ?d1 = "edit_distance xs (y # ys) + 1"
  let ?d2 = "edit_distance (x # xs) ys + 1"
  let ?d3 = "edit_distance xs ys + (if x = y then 0 else 1)"
  have e1: "edits ?d1 (x # xs) (y # ys)"
  proof -
    have "edit1 ([] @ x # xs) ([] @ xs)" by (rule edit1.deletion)
    then have "edit1 (x # xs) xs" by simp
    from edits_first [OF this "3.IH"(1)] show ?thesis by simp
  qed
  have e2: "edits ?d2 (x # xs) (y # ys)"
  proof -
    have "edit1 ([] @ x # xs) ([] @ y # x # xs)" by (rule edit1.insertion)
    then have "edit1 (x # xs) (y # x # xs)" by simp
    from edits_first [OF this edits_Cons [OF "3.IH"(2)]] show ?thesis by simp
  qed
  have e3: "edits ?d3 (x # xs) (y # ys)"
  proof (cases "x = y")
    case True
    then show ?thesis using edits_Cons [OF "3.IH"(3), of x] by simp
  next
    case False
    have "edit1 ([] @ x # xs) ([] @ y # xs)" by (rule edit1.substitution)
    then have "edit1 (x # xs) (y # xs)" by simp
    from edits_first [OF this edits_Cons [OF "3.IH"(3)]] False show ?thesis by simp
  qed
  have "edit_distance (x # xs) (y # ys) = ?d1 \<or> edit_distance (x # xs) (y # ys) = ?d2
      \<or> edit_distance (x # xs) (y # ys) = ?d3"
    by (simp add: min_def)
  with e1 e2 e3 show ?case by metis
qed


lemma edit_distance_sym: "edit_distance a b = edit_distance b a"
  by (induction a b rule: edit_distance.induct) (auto simp: min_def)

lemma edit_distance_Cons2_le: "edit_distance a (c # v) \<le> edit_distance a v + 1"
  by (cases a) simp_all

lemma edit_distance_Cons1_le: "edit_distance (c # a) v \<le> edit_distance a v + 1"
  by (cases v) simp_all

lemma edit_distance_drop2_le: "edit_distance a v \<le> edit_distance a (c # v) + 1"
proof (induction a)
  case Nil
  show ?case by simp
next
  case (Cons x xs)
  have "edit_distance (x # xs) v \<le> edit_distance xs v + 1"
    by (rule edit_distance_Cons1_le)
  with Cons show ?case by (auto simp: min_def)
qed

lemma edit_distance_subst2_le: "edit_distance a (c # v) \<le> edit_distance a (d # v) + 1"
proof (induction a)
  case Nil
  show ?case by simp
next
  case (Cons x xs)
  then show ?case by (auto simp: min_def)
qed

lemma edit_distance_Cons_close:
  assumes "\<And>a. edit_distance a C \<le> edit_distance a B + 1"
  shows "edit_distance a (y # C) \<le> edit_distance a (y # B) + 1"
proof (induction a)
  case Nil
  show ?case using assms [of "[]"] by simp
next
  case (Cons x xs)
  show ?case using Cons assms [of xs] assms [of "x # xs"] by (auto simp: min_def)
qed

lemma edit_distance_app_close:
  assumes "\<And>a. edit_distance a C \<le> edit_distance a B + 1"
  shows "edit_distance a (u @ C) \<le> edit_distance a (u @ B) + 1"
proof (induction u arbitrary: a)
  case Nil
  show ?case using assms by simp
next
  case (Cons y u)
  show ?case using edit_distance_Cons_close [of "u @ C" "u @ B" a y] Cons by simp
qed

lemma edit1_edit_distance_le: "edit1 b c \<Longrightarrow> edit_distance a c \<le> edit_distance a b + 1"
proof (induction rule: edit1.induct)
  case (insertion u v c)
  show ?case by (rule edit_distance_app_close) (rule edit_distance_Cons2_le)
next
  case (deletion u c v)
  show ?case by (rule edit_distance_app_close) (rule edit_distance_drop2_le)
next
  case (substitution u c v d)
  show ?case by (rule edit_distance_app_close) (rule edit_distance_subst2_le)
qed

lemma edit_distance_same [simp]: "edit_distance a a = 0"
  by (induction a) simp_all

lemma edits_edit_distance_le: "edits n a b \<Longrightarrow> edit_distance a b \<le> n"
proof (induction rule: edits.induct)
  case (edits_refl a)
  show ?case by simp
next
  case (edits_step n a b c)
  from edit1_edit_distance_le [OF edits_step.hyps(2), of a] edits_step.IH
  show ?case by simp
qed

lemma edit_distance_least: "edit_distance a b = (LEAST n. edits n a b)"
  by (rule Least_equality [symmetric]) (auto intro: edits_edit_distance edits_edit_distance_le)

lemma edit_distance_rev: "edit_distance (rev a) (rev b) = edit_distance a b"
proof (rule antisym)
  show "edit_distance (rev a) (rev b) \<le> edit_distance a b"
    by (rule edits_edit_distance_le [OF edits_rev [OF edits_edit_distance]])
  have "edit_distance (rev (rev a)) (rev (rev b)) \<le> edit_distance (rev a) (rev b)"
    by (rule edits_edit_distance_le [OF edits_rev [OF edits_edit_distance]])
  then show "edit_distance a b \<le> edit_distance (rev a) (rev b)" by simp
qed

lemma edit_distance_snoc:
  "edit_distance (xs @ [x]) (ys @ [y]) =
     min (min (edit_distance xs (ys @ [y]) + 1) (edit_distance (xs @ [x]) ys + 1))
         (edit_distance xs ys + (if x = y then 0 else 1))"
proof -
  have "edit_distance (xs @ [x]) (ys @ [y]) = edit_distance (x # rev xs) (y # rev ys)"
    using edit_distance_rev [of "xs @ [x]" "ys @ [y]"] by simp
  moreover have "edit_distance (rev xs) (y # rev ys) = edit_distance xs (ys @ [y])"
    using edit_distance_rev [of xs "ys @ [y]"] by simp
  moreover have "edit_distance (x # rev xs) (rev ys) = edit_distance (xs @ [x]) ys"
    using edit_distance_rev [of "xs @ [x]" ys] by simp
  ultimately show ?thesis by (simp add: edit_distance_rev)
qed

lemma edit_distance_length_diff:
  "length a - length b \<le> edit_distance a b \<and> length b - length a \<le> edit_distance a b"
  by (induction a b rule: edit_distance.induct) (auto simp: min_def)

section \<open>The matrix of \<open>levenshteinBounded\<close>\<close>

lemma prefix_distance_0: "j \<le> length b \<Longrightarrow> prefix_distance a b 0 j = j"
  by (simp add: prefix_distance_def)

lemma prefix_distance_col0: "i \<le> length a \<Longrightarrow> prefix_distance a b i 0 = i"
  by (simp add: prefix_distance_def)

lemma prefix_distance_Suc:
  assumes "i < length a" "j < length b"
  shows "prefix_distance a b (Suc i) (Suc j) =
           min (min (prefix_distance a b i (Suc j) + 1) (prefix_distance a b (Suc i) j + 1))
               (prefix_distance a b i j + (if a ! i = b ! j then 0 else 1))"
  using assms edit_distance_snoc [of "take i a" "a ! i" "take j b" "b ! j"]
  by (simp add: prefix_distance_def take_Suc_conv_app_nth)

lemma prefix_distance_full: "prefix_distance a b (length a) (length b) = edit_distance a b"
  by (simp add: prefix_distance_def)

lemma min3_cases:
  "min (min a b) (c::nat) = a \<or> min (min a b) c = b \<or> min (min a b) c = c"
  by (auto simp: min_def)

lemma prefix_row_bound:
  "\<exists>k \<le> length b. edit_distance xs (take k b) \<le> edit_distance (xs @ ys) b"
proof (induction ys arbitrary: b rule: rev_induct)
  case Nil
  show ?case by (rule exI [of _ "length b"]) simp
next
  case (snoc y ys)
  show ?case
  proof (induction b rule: rev_induct)
    case Nil
    show ?case by simp
  next
    case (snoc c bs)
    let ?d1 = "edit_distance (xs @ ys) (bs @ [c]) + 1"
    let ?d2 = "edit_distance ((xs @ ys) @ [y]) bs + 1"
    let ?d3 = "edit_distance (xs @ ys) bs + (if y = c then 0 else 1)"
    have eq: "edit_distance (xs @ ys @ [y]) (bs @ [c]) = min (min ?d1 ?d2) ?d3"
      using edit_distance_snoc [of "xs @ ys" y bs c] by simp
    from snoc.prems snoc.IH obtain k2 where k2: "k2 \<le> length bs"
      "edit_distance xs (take k2 bs) \<le> edit_distance (xs @ ys @ [y]) bs"
      by auto
    from \<open>\<And>b. \<exists>k\<le>length b. edit_distance xs (take k b) \<le> edit_distance (xs @ ys) b\<close>
    obtain k1 where k1: "k1 \<le> length (bs @ [c])"
      "edit_distance xs (take k1 (bs @ [c])) \<le> edit_distance (xs @ ys) (bs @ [c])"
      by blast
    from \<open>\<And>b. \<exists>k\<le>length b. edit_distance xs (take k b) \<le> edit_distance (xs @ ys) b\<close>
    obtain k3 where k3: "k3 \<le> length bs"
      "edit_distance xs (take k3 bs) \<le> edit_distance (xs @ ys) bs"
      by blast
    consider "edit_distance (xs @ ys @ [y]) (bs @ [c]) = ?d1"
      | "edit_distance (xs @ ys @ [y]) (bs @ [c]) = ?d2"
      | "edit_distance (xs @ ys @ [y]) (bs @ [c]) = ?d3"
      using eq min3_cases [of ?d1 ?d2 ?d3] by metis
    then show ?case
    proof cases
      case 1
      with k1 show ?thesis by (intro exI [of _ k1]) simp
    next
      case 2
      with k2 show ?thesis by (intro exI [of _ k2]) simp
    next
      case 3
      with k3 show ?thesis by (intro exI [of _ k3]) simp
    qed
  qed
qed

lemma row_min_le:
  assumes "i \<le> length a"
  shows "Min (prefix_distance a b i ` {0..length b}) \<le> edit_distance a b"
proof -
  from prefix_row_bound [of b "take i a" "drop i a"]
  obtain k where k: "k \<le> length b" "prefix_distance a b i k \<le> edit_distance a b"
    by (auto simp: prefix_distance_def)
  have "Min (prefix_distance a b i ` {0..length b}) \<le> prefix_distance a b i k"
    using k(1) by (intro Min_le) auto
  with k(2) show ?thesis by simp
qed


lemma lev_inner_correct:
  assumes "length prev = Suc (length b)" "0 < i" "i \<le> length a"
    and "\<forall>k \<le> length b. prev ! k = prefix_distance a b (i - 1) k"
  shows "length cur = Suc (length b) \<Longrightarrow> 0 < j \<Longrightarrow> j \<le> Suc (length b) \<Longrightarrow>
         \<forall>k < j. cur ! k = prefix_distance a b i k \<Longrightarrow>
         lev_inner (a ! (i - 1)) b (length b) prev cur rowMin j =
           (map (prefix_distance a b i) [0 ..< Suc (length b)], Min (insert rowMin (prefix_distance a b i ` {j .. length b})))"
proof (induction "Suc (length b) - j" arbitrary: j cur rowMin)
  case 0
  then have j: "j = Suc (length b)" by simp
  have "cur = map (prefix_distance a b i) [0 ..< Suc (length b)]"
  proof (rule nth_equalityI)
    show "length cur = length (map (prefix_distance a b i) [0 ..< Suc (length b)])"
      using "0.prems"(1) by simp
  next
    fix k assume "k < length cur"
    then have k: "k < Suc (length b)" using "0.prems"(1) by simp
    then have "cur ! k = prefix_distance a b i k" using "0.prems"(4) j by simp
    moreover have "map (prefix_distance a b i) [0 ..< Suc (length b)] ! k = prefix_distance a b i k"
      using k nth_map_upt [of k "Suc (length b)" 0 "prefix_distance a b i"] by simp
    ultimately show "cur ! k = map (prefix_distance a b i) [0 ..< Suc (length b)] ! k" by simp
  qed
  moreover have "lev_inner (a ! (i - 1)) b (length b) prev cur rowMin j = (cur, rowMin)"
    using j by (subst lev_inner.simps) simp
  moreover have "prefix_distance a b i ` {j .. length b} = {}" using j by simp
  ultimately show ?case by simp
next
  case (Suc n)
  then have jle: "j \<le> length b" by simp
  obtain i' where i': "i = Suc i'" using assms(2) by (cases i) auto
  obtain j' where j': "j = Suc j'" using Suc.prems(2) by (cases j) auto
  define val where "val = min (min (prev ! j + 1) (cur ! (j - 1) + 1))
      (prev ! (j - 1) + (if a ! (i - 1) = b ! (j - 1) then 0 else 1))"
  have p1: "prev ! j = prefix_distance a b i' (Suc j')" using assms(4) jle i' j' by simp
  have p2: "prev ! (j - 1) = prefix_distance a b i' j'" using assms(4) jle i' j' by simp
  have c1: "cur ! (j - 1) = prefix_distance a b (Suc i') j'" using Suc.prems(4) i' j' by simp
  have val: "val = prefix_distance a b i j"
    unfolding val_def p1 p2 c1 using prefix_distance_Suc [of i' a j' b] assms(3) jle i' j' by simp
  let ?cur = "cur[j := val]"
  have len: "length ?cur = Suc (length b)" using Suc.prems(1) by simp
  have inv: "\<forall>k < j + 1. ?cur ! k = prefix_distance a b i k"
  proof (intro allI impI)
    fix k assume "k < j + 1"
    then show "?cur ! k = prefix_distance a b i k"
      using Suc.prems(1,4) jle val by (cases "k = j") auto
  qed
  have n: "n = Suc (length b) - (j + 1)" using Suc.hyps(2) by simp
  have set_eq: "{j .. length b} = insert j {j + 1 .. length b}" using jle by auto
  have "lev_inner (a ! (i - 1)) b (length b) prev cur rowMin j =
        lev_inner (a ! (i - 1)) b (length b) prev ?cur (if val < rowMin then val else rowMin) (j + 1)"
    using jle by (subst lev_inner.simps) (simp add: Let_def val_def)
  also have "\<dots> = (map (prefix_distance a b i) [0 ..< Suc (length b)],
      Min (insert (if val < rowMin then val else rowMin) (prefix_distance a b i ` {j + 1 .. length b})))"
    using Suc.hyps(1) [OF n len _ _ inv] jle by simp
  also have "Min (insert (if val < rowMin then val else rowMin) (prefix_distance a b i ` {j + 1 .. length b}))
      = Min (insert rowMin (prefix_distance a b i ` {j .. length b}))"
  proof (cases "prefix_distance a b i ` {j + 1 .. length b} = {}")
    case True
    then show ?thesis unfolding set_eq val by (simp add: min_def)
  next
    case False
    then show ?thesis unfolding set_eq val
      by (simp add: min_def) (auto simp: min_def)
  qed
  finally show ?case .
qed

lemma lev_outer_correct:
  "length prev = Suc (length b) \<Longrightarrow> length cur = Suc (length b) \<Longrightarrow> 0 < i \<Longrightarrow>
   i \<le> Suc (length a) \<Longrightarrow> \<forall>k \<le> length b. prev ! k = prefix_distance a b (i - 1) k \<Longrightarrow>
   lev_outer a b mx (length a) (length b) prev cur i = min (edit_distance a b) (mx + 1)"
proof (induction "Suc (length a) - i" arbitrary: i prev cur)
  case 0
  then have i: "i = Suc (length a)" by simp
  have "prev ! length b = edit_distance a b"
    using "0.prems"(5) i prefix_distance_full [of a b] by simp
  moreover have "lev_outer a b mx (length a) (length b) prev cur i =
      (if prev ! length b \<le> mx then prev ! length b else mx + 1)"
    using i by (subst lev_outer.simps) simp
  ultimately show ?case by (simp add: min_def)
next
  case (Suc n)
  then have ile: "i \<le> length a" by simp
  let ?cur0 = "cur[0 := i]"
  define row where "row = map (prefix_distance a b i) [0 ..< Suc (length b)]"
  define rm where "rm = Min (prefix_distance a b i ` {0 .. length b})"
  have len0: "length ?cur0 = Suc (length b)" using Suc.prems(2) by simp
  have c0: "?cur0 ! 0 = i" using Suc.prems(2) by simp
  have inv0: "\<forall>k < 1. ?cur0 ! k = prefix_distance a b i k" using c0 ile by (simp add: prefix_distance_col0)
  have "{0 .. length b} = insert 0 {1 .. length b}" by auto
  then have rm: "Min (insert i (prefix_distance a b i ` {1 .. length b})) = rm"
    using ile by (simp add: prefix_distance_col0 rm_def)
  have inner: "lev_inner (a ! (i - 1)) b (length b) prev ?cur0 (?cur0 ! 0) 1 = (row, rm)"
    using lev_inner_correct [OF Suc.prems(1) Suc.prems(3) ile Suc.prems(5) len0, of 1 "?cur0 ! 0"]
      inv0 c0 rm by (simp add: row_def)
  have unfold: "lev_outer a b mx (length a) (length b) prev cur i =
      (if rm > mx then mx + 1 else lev_outer a b mx (length a) (length b) row row (i + 1))"
    using ile inner by (subst lev_outer.simps) (simp add: Let_def)
  show ?case
  proof (cases "rm > mx")
    case True
    from row_min_le [OF ile, of b] True have "mx < edit_distance a b"
      unfolding rm_def by (rule less_le_trans [rotated])
    then have "min (edit_distance a b) (mx + 1) = mx + 1" by simp
    with unfold True show ?thesis by simp
  next
    case False
    have n: "n = Suc (length a) - (i + 1)" using Suc.hyps(2) by simp
    have rowk: "\<forall>k \<le> length b. row ! k = prefix_distance a b (i + 1 - 1) k"
    proof (intro allI impI)
      fix k assume "k \<le> length b"
      then show "row ! k = prefix_distance a b (i + 1 - 1) k"
        unfolding row_def using nth_map_upt [of k "Suc (length b)" 0 "prefix_distance a b i"] by simp
    qed
    have lenr: "length row = Suc (length b)" by (simp add: row_def)
    have "lev_outer a b mx (length a) (length b) row row (i + 1) = min (edit_distance a b) (mx + 1)"
      using Suc.hyps(1) [OF n lenr lenr _ _ rowk] ile by simp
    with unfold False show ?thesis by simp
  qed
qed

lemma levenshteinBounded_eq:
  "levenshteinBounded a b mx = min (edit_distance a b) (mx + 1)"
proof -
  have diff: "abs_diff (length a) (length b) \<le> edit_distance a b"
    using edit_distance_length_diff [of a b] by (simp add: abs_diff_def)
  show ?thesis
  proof (cases "abs_diff (length a) (length b) > mx")
    case True
    with diff show ?thesis by (simp add: levenshteinBounded_def)
  next
    case False
    note nd = this
    show ?thesis
    proof (cases "a = [] \<or> b = []")
      case True
      with nd show ?thesis
        by (auto simp: levenshteinBounded_def abs_diff_def Let_def min_def)
    next
      case False
      have "\<forall>k \<le> length b. [0 ..< length b + 1] ! k = prefix_distance a b (1 - 1) k"
      proof (intro allI impI)
        fix k assume "k \<le> length b"
        then show "[0 ..< length b + 1] ! k = prefix_distance a b (1 - 1) k"
          using nth_upt [of 0 k "length b + 1"] by (simp add: prefix_distance_0)
      qed
      then have "lev_outer a b mx (length a) (length b) [0 ..< length b + 1]
          (replicate (length b + 1) 0) 1 = min (edit_distance a b) (mx + 1)"
        by (intro lev_outer_correct) simp_all
      with nd False show ?thesis by (simp add: levenshteinBounded_def)
    qed
  qed
qed

text \<open>
  Claim C1. For all strings \<open>a\<close>, \<open>b\<close> and every bound \<open>mx\<close>, \<open>levenshteinBounded a b mx\<close>
  is the smaller of the Levenshtein distance of \<open>a\<close> and \<open>b\<close> and \<open>mx + 1\<close>: neither the
  length-difference shortcut nor the abort on the row minimum changes the value.
\<close>

theorem levenshteinBounded_correct:
  "levenshteinBounded a b mx = min (edit_distance a b) (mx + 1)"
  by (rule levenshteinBounded_eq)

theorem levenshteinBounded_correct_witness:
  "edit_distance (ascii ''flaw'') (ascii ''lawn'') = 2
   \<and> levenshteinBounded (ascii ''flaw'') (ascii ''lawn'') 2 = 2
   \<and> levenshteinBounded (ascii ''flaw'') (ascii ''lawn'') 1 = 2
   \<and> levenshteinBounded (ascii ''flaw'') (ascii ''lawn'') 0 = 1"
proof -
  have d: "edit_distance (ascii ''flaw'') (ascii ''lawn'') = 2"
    by (simp add: ascii_def)
  show ?thesis
    using levenshteinBounded_correct [of "ascii ''flaw''" "ascii ''lawn''"] d by simp
qed

section \<open>Token distance\<close>

lemma fold_min_zero: "fold min xs (0::nat) = 0"
  by (induction xs) simp_all

lemma btd_loop_fold:
  "limit \<le> length tokens \<Longrightarrow> k \<le> limit \<Longrightarrow>
   btd_loop q tokens limit best k =
     fold min (map (\<lambda>t. levenshteinBounded q t 2)
       (filter (\<lambda>t. abs_diff (length t) (length q) \<le> 2) (drop k (take limit tokens)))) best"
proof (induction "limit - k" arbitrary: k best)
  case 0
  then have "k = limit" by simp
  then show ?case using "0.prems" by (subst btd_loop.simps) simp
next
  case (Suc n)
  then have klt: "k < limit" by simp
  have n: "n = limit - (k + 1)" using Suc.hyps(2) by simp
  have kle: "k + 1 \<le> limit" using klt by simp
  have "k < length (take limit tokens)" using klt Suc.prems(1) by simp
  then have dr: "drop k (take limit tokens) = (tokens ! k) # drop (k + 1) (take limit tokens)"
    using Cons_nth_drop_Suc [of k "take limit tokens"] klt by simp
  note IH = Suc.hyps(1) [OF n Suc.prems(1) kle]
  show ?case
  proof (cases "abs_diff (length (tokens ! k)) (length q) > 2")
    case True
    then have "btd_loop q tokens limit best k = btd_loop q tokens limit best (k + 1)"
      using klt by (subst btd_loop.simps) (simp add: Let_def)
    then show ?thesis using True IH [of best] dr by simp
  next
    case False
    define d where "d = levenshteinBounded q (tokens ! k) 2"
    have best': "(if d < best then d else best) = min d best" by (simp add: min_def)
    have unfold: "btd_loop q tokens limit best k =
        (if min d best = 0 then 0 else btd_loop q tokens limit (min d best) (k + 1))"
      using klt False best' by (subst btd_loop.simps) (simp add: Let_def d_def)
    show ?thesis
    proof (cases "min d best = 0")
      case True
      then show ?thesis using unfold False dr d_def by (simp add: fold_min_zero)
    next
      case False
      then show ?thesis using unfold \<open>\<not> 2 < abs_diff (length (tokens ! k)) (length q)\<close>
          dr d_def IH [of "min d best"] by (simp add: fold_min_zero)
    qed
  qed
qed

lemma bestTokenDistance_fold:
  "bestTokenDistance q hay =
     fold min (map (\<lambda>t. levenshteinBounded q t 2) (examined_tokens q hay)) 99"
proof -
  have "take (min (length (hay_tokens hay)) 80) (hay_tokens hay) = take 80 (hay_tokens hay)"
    by (simp add: min_def)
  then show ?thesis
    using btd_loop_fold [of "min (length (hay_tokens hay)) 80" "hay_tokens hay" 0 q 99]
    by (simp add: bestTokenDistance_def examined_tokens_def Let_def)
qed

lemma fold_min_Min: "fold min xs (b::nat) = Min (insert b (set xs))"
proof (induction xs arbitrary: b)
  case Nil
  show ?case by simp
next
  case (Cons x xs)
  have "insert (min x b) (set xs) \<noteq> {}" by simp
  have "Min (insert (min x b) (set xs)) = Min (insert b (insert x (set xs)))"
    by (cases "set xs = {}") (simp_all add: min.commute min.left_commute)
  with Cons show ?case by simp
qed

lemma Min_insert_above:
  assumes "finite S" "S \<noteq> {}" "Min S \<le> (b::nat)"
  shows "Min (insert b S) = Min S"
proof -
  have "Min (insert b S) = min b (Min S)" using assms(1,2) by (rule Min_insert)
  then show ?thesis using assms(3) by (simp only: min_absorb2)
qed

lemma levenshteinBounded_le: "levenshteinBounded a b mx \<le> mx + 1"
  by (simp add: levenshteinBounded_eq)

lemma ascii_aaa: "ascii ''aaa '' = [97, 97, 97, 32]" "ascii ''aaa'' = [97, 97, 97]"
  by (simp_all add: ascii_def)

lemma js_split_aaa:
  assumes "w \<noteq> []" "\<not> non_alnum (hd w)"
  shows "js_split non_alnum (ascii ''aaa '' @ w) = ascii ''aaa'' # js_split non_alnum w"
proof -
  obtain c cs where w: "w = c # cs" using assms(1) by (cases w) auto
  then have c: "\<not> non_alnum c" using assms(2) by simp
  have a: "\<not> non_alnum 97" "non_alnum 32" by (simp_all add: non_alnum_def)
  show ?thesis
    unfolding ascii_aaa w
    by (subst js_split.simps) (simp add: a c Let_def)
qed

lemma hay_tokens_many:
  assumes "w \<noteq> []" "\<not> non_alnum (hd w)"
  shows "hay_tokens (many_tokens n @ w) = replicate n (ascii ''aaa'') @ hay_tokens w"
proof (induction n)
  case 0
  show ?case by (simp add: many_tokens_def)
next
  case (Suc n)
  have hd: "many_tokens n @ w \<noteq> [] \<and> \<not> non_alnum (hd (many_tokens n @ w))"
    using assms by (cases n) (simp_all add: many_tokens_def ascii_aaa non_alnum_def)
  have "many_tokens (Suc n) @ w = ascii ''aaa '' @ (many_tokens n @ w)"
    by (simp add: many_tokens_def)
  then have "js_split non_alnum (many_tokens (Suc n) @ w) =
      ascii ''aaa'' # js_split non_alnum (many_tokens n @ w)"
    using js_split_aaa hd by simp
  then show ?case using Suc by (simp add: hay_tokens_def ascii_aaa)
qed

text \<open>
  Claim C3, as amended. \<open>bestTokenDistance q hay\<close> is the least bounded distance (bound 2)
  between \<open>q\<close> and the tokens it compares: those of the first 80 tokens of \<open>hay\<close> whose
  length is within 2 of the length of \<open>q\<close>. It is 99 when there is no such token. When
  there are such tokens and none is within distance 2, it is 3, the bound plus one, and
  not 99.
\<close>

theorem bestTokenDistance_min:
  "bestTokenDistance q hay =
     (if examined_tokens q hay = [] then 99
      else Min (set (map (\<lambda>t. levenshteinBounded q t 2) (examined_tokens q hay))))
   \<and> ((\<forall>t \<in> set (examined_tokens q hay). 2 < levenshteinBounded q t 2) \<longrightarrow>
        bestTokenDistance q hay = (if examined_tokens q hay = [] then 99 else 3))"
proof -
  define ds where "ds = map (\<lambda>t. levenshteinBounded q t 2) (examined_tokens q hay)"
  have fold: "bestTokenDistance q hay = Min (insert 99 (set ds))"
    by (simp only: bestTokenDistance_fold fold_min_Min ds_def)
  have le3: "d \<le> 3" if "d \<in> set ds" for d
    using that levenshteinBounded_le [of q _ 2] by (auto simp: ds_def)
  have empty: "ds = [] \<longleftrightarrow> examined_tokens q hay = []" by (simp add: ds_def)
  have eq: "bestTokenDistance q hay = (if examined_tokens q hay = [] then 99 else Min (set ds))"
  proof (cases "ds = []")
    case True
    then show ?thesis using fold empty by simp
  next
    case False
    then have ne: "set ds \<noteq> {}" by simp
    then obtain d where d: "d \<in> set ds" by (meson ex_in_conv)
    have "Min (set ds) \<le> d" using d by (intro Min_le) auto
    moreover have "d \<le> 3" using le3 d by blast
    ultimately have "Min (set ds) \<le> 99" by simp
    then have "Min (insert 99 (set ds)) = Min (set ds)"
      using ne by (intro Min_insert_above) auto
    then show ?thesis using False fold empty by simp
  qed
  have "bestTokenDistance q hay = (if examined_tokens q hay = [] then 99 else 3)"
    if all: "\<forall>t \<in> set (examined_tokens q hay). 2 < levenshteinBounded q t 2"
  proof (cases "ds = []")
    case True
    then show ?thesis using eq empty by simp
  next
    case False
    then have ne: "set ds \<noteq> {}" by simp
    have all3: "d = 3" if "d \<in> set ds" for d
    proof -
      from that obtain t where "t \<in> set (examined_tokens q hay)" "d = levenshteinBounded q t 2"
        by (auto simp: ds_def)
      with all le3 [OF that] show ?thesis by fastforce
    qed
    obtain d0 where d0: "d0 \<in> set ds" using ne by (meson ex_in_conv)
    have "set ds = {3}"
    proof (intro equalityI subsetI)
      fix d assume "d \<in> set ds"
      then show "d \<in> {3}" using all3 by simp
    next
      fix d :: nat assume "d \<in> {3}"
      then have "d = d0" using all3 [OF d0] by simp
      then show "d \<in> set ds" using d0 by simp
    qed
    then show ?thesis using eq False empty by simp
  qed
  with eq show ?thesis by (simp only: ds_def) blast
qed

theorem bestTokenDistance_min_witness:
  "examined_tokens (ascii ''abc'') (ascii ''xyz'') = [ascii ''xyz'']
   \<and> 2 < levenshteinBounded (ascii ''abc'') (ascii ''xyz'') 2
   \<and> bestTokenDistance (ascii ''abc'') (ascii ''xyz'') = 3"
proof -
  have ex: "examined_tokens (ascii ''abc'') (ascii ''xyz'') = [ascii ''xyz'']"
    by code_simp
  have d: "levenshteinBounded (ascii ''abc'') (ascii ''xyz'') 2 = 3"
    by code_simp
  show ?thesis
    using bestTokenDistance_min [of "ascii ''abc''" "ascii ''xyz''"] by (simp add: ex d)
qed

text \<open>
  Claim C3 as stated fails: for the query \<open>abc\<close> and the text \<open>xyz\<close> the one token is
  compared, it is not within distance 2, and the result is not the sentinel 99.
\<close>

theorem bestTokenDistance_not_99:
  "examined_tokens (ascii ''abc'') (ascii ''xyz'') = [ascii ''xyz'']
   \<and> \<not> levenshteinBounded (ascii ''abc'') (ascii ''xyz'') 2 \<le> 2
   \<and> bestTokenDistance (ascii ''abc'') (ascii ''xyz'') \<noteq> 99"
  by code_simp

text \<open>
  Claim C7. \<open>bestTokenDistance q hay\<close> depends on \<open>hay\<close> only through the first 80 of its
  tokens of length at least 3, in order of appearance: two texts with the same first 80
  tokens give the same result, whatever follows.
\<close>

theorem bestTokenDistance_first_80:
  assumes "take 80 (hay_tokens hay) = take 80 (hay_tokens hay')"
  shows "bestTokenDistance q hay = bestTokenDistance q hay'"
  using assms by (simp add: bestTokenDistance_fold examined_tokens_def)




theorem bestTokenDistance_first_80_witness:
  "take 80 (hay_tokens (many_tokens 80 @ ascii ''zebras'')) =
     take 80 (hay_tokens (many_tokens 80 @ ascii ''giraffe''))
   \<and> hay_tokens (many_tokens 80 @ ascii ''zebras'') ! 80 = ascii ''zebras''
   \<and> bestTokenDistance (ascii ''zebras'') (many_tokens 80 @ ascii ''zebras'') = 99
   \<and> bestTokenDistance (ascii ''zebras'') (many_tokens 80 @ ascii ''zebras'')
     = bestTokenDistance (ascii ''zebras'') (many_tokens 80 @ ascii ''giraffe'')"
proof -
  have z: "hay_tokens (ascii ''zebras'') = [ascii ''zebras'']"
    by code_simp
  have g: "hay_tokens (ascii ''giraffe'') = [ascii ''giraffe'']"
    by code_simp
  have t1: "hay_tokens (many_tokens 80 @ ascii ''zebras'') = replicate 80 (ascii ''aaa'') @ [ascii ''zebras'']"
    using hay_tokens_many [of "ascii ''zebras''" 80] z by (simp add: ascii_def non_alnum_def)
  have t2: "hay_tokens (many_tokens 80 @ ascii ''giraffe'') = replicate 80 (ascii ''aaa'') @ [ascii ''giraffe'']"
    using hay_tokens_many [of "ascii ''giraffe''" 80] g by (simp add: ascii_def non_alnum_def)
  have h: "take 80 (hay_tokens (many_tokens 80 @ ascii ''zebras'')) =
      take 80 (hay_tokens (many_tokens 80 @ ascii ''giraffe''))"
    by (simp add: t1 t2)
  have n: "hay_tokens (many_tokens 80 @ ascii ''zebras'') ! 80 = ascii ''zebras''"
    by (simp add: t1 nth_append)
  have ex: "examined_tokens (ascii ''zebras'') (many_tokens 80 @ ascii ''zebras'') = []"
    unfolding examined_tokens_def t1 by (simp add: abs_diff_def ascii_def)
  have v: "bestTokenDistance (ascii ''zebras'') (many_tokens 80 @ ascii ''zebras'') = 99"
    by (simp add: bestTokenDistance_fold ex)
  from bestTokenDistance_first_80 [OF h] h n v show ?thesis by blast
qed

section \<open>Rounding\<close>

lemma round_half_even_of_int: "round_half_even (of_int n) = n"
  by (simp add: round_half_even_def)

lemma round_half_even_cases:
  "round_half_even x = \<lfloor>x\<rfloor> \<or> round_half_even x = \<lfloor>x\<rfloor> + 1"
  by (simp add: round_half_even_def Let_def)

lemma round_half_even_mono:
  assumes "x \<le> y"
  shows "round_half_even x \<le> round_half_even y"
proof (cases "\<lfloor>x\<rfloor> = \<lfloor>y\<rfloor>")
  case True
  have "x - of_int \<lfloor>x\<rfloor> \<le> y - of_int \<lfloor>y\<rfloor>" using assms True by simp
  then show ?thesis using True by (auto simp: round_half_even_def Let_def)
next
  case False
  have "\<lfloor>x\<rfloor> \<le> \<lfloor>y\<rfloor>" using assms by (rule floor_mono)
  with False have "\<lfloor>x\<rfloor> + 1 \<le> \<lfloor>y\<rfloor>" by simp
  moreover have "round_half_even x \<le> \<lfloor>x\<rfloor> + 1"
    using round_half_even_cases [of x] by auto
  moreover have "\<lfloor>y\<rfloor> \<le> round_half_even y"
    using round_half_even_cases [of y] by auto
  ultimately show ?thesis by linarith
qed

lemma binade_bounds:
  assumes "0 < x"
  shows "2 powi binade x \<le> x \<and> x < 2 powi (binade x + 1)"
proof -
  obtain p q where pq: "quotient_of x = (p, q)" by (cases "quotient_of x")
  have q: "0 < q" using quotient_of_denom_pos [OF pq] .
  have x: "x = of_int p / of_int q" using quotient_of_div [OF pq] .
  have p: "0 < p" using assms q x by (simp add: zero_less_divide_iff)
  define k where "k = bitlen p - bitlen q"
  have bp: "2 ^ nat (bitlen p - 1) \<le> p" "p < 2 ^ nat (bitlen p)"
    using bitlen_bounds [OF p] by auto
  have bq: "2 ^ nat (bitlen q - 1) \<le> q" "q < 2 ^ nat (bitlen q)"
    using bitlen_bounds [OF q] by auto
  have lp: "0 < bitlen p" using bp(2) p by (cases "0 < bitlen p") auto
  have lq: "0 < bitlen q" using bq(2) q by (cases "0 < bitlen q") auto
  have P1: "(2::rat) powi (bitlen p - 1) \<le> of_int p"
  proof -
    have "(of_int (2 ^ nat (bitlen p - 1)) :: rat) \<le> of_int p"
      using bp(1) by (simp only: of_int_le_iff)
    then show ?thesis using lp by (simp add: power_int_def)
  qed
  have P2: "of_int p < (2::rat) powi bitlen p"
  proof -
    have "(of_int p :: rat) < of_int (2 ^ nat (bitlen p))"
      using bp(2) by (simp only: of_int_less_iff)
    then show ?thesis using lp by (simp add: power_int_def)
  qed
  have Q1: "(2::rat) powi (bitlen q - 1) \<le> of_int q"
  proof -
    have "(of_int (2 ^ nat (bitlen q - 1)) :: rat) \<le> of_int q"
      using bq(1) by (simp only: of_int_le_iff)
    then show ?thesis using lq by (simp add: power_int_def)
  qed
  have Q2: "of_int q < (2::rat) powi bitlen q"
  proof -
    have "(of_int q :: rat) < of_int (2 ^ nat (bitlen q))"
      using bq(2) by (simp only: of_int_less_iff)
    then show ?thesis using lq by (simp add: power_int_def)
  qed
  have qpos: "(0::rat) < of_int q" using q by simp
  have lower: "2 powi (k - 1) \<le> x"
  proof -
    have "(2::rat) powi (k - 1) * of_int q \<le> 2 powi (k - 1) * 2 powi bitlen q"
      using Q2 by (intro mult_left_mono) auto
    also have "\<dots> = 2 powi (bitlen p - 1)"
      by (simp add: k_def flip: power_int_add)
    also have "\<dots> \<le> of_int p" by (rule P1)
    finally show ?thesis using qpos by (simp add: x pos_le_divide_eq)
  qed
  have upper: "x < 2 powi (k + 1)"
  proof -
    have "(of_int p :: rat) < 2 powi bitlen p" by (rule P2)
    also have "\<dots> = 2 powi (k + 1) * 2 powi (bitlen q - 1)"
      by (simp add: k_def flip: power_int_add)
    also have "\<dots> \<le> 2 powi (k + 1) * of_int q"
      using Q1 by (intro mult_left_mono) auto
    finally show ?thesis using qpos by (simp add: x pos_divide_less_eq)
  qed
  have b: "binade x = (if 2 powi k \<le> x then k else k - 1)"
    by (simp add: binade_def pq k_def)
  show ?thesis
  proof (cases "2 powi k \<le> x")
    case True
    with upper b show ?thesis by simp
  next
    case False
    with lower b show ?thesis by simp
  qed
qed



lemma ulp_mult: "(2::rat) ^ 52 * 2 powi (e - 52) = 2 powi e"
proof -
  have "(2::rat) powi 52 * 2 powi (e - 52) = 2 powi (52 + (e - 52))"
    by (rule power_int_add [symmetric]) simp
  then show ?thesis by simp
qed

lemma ulp_mult2: "(2::rat) ^ 53 * 2 powi (e - 52) = 2 powi (e + 1)"
proof -
  have "(2::rat) powi 53 * 2 powi (e - 52) = 2 powi (53 + (e - 52))"
    by (rule power_int_add [symmetric]) simp
  then show ?thesis by (simp add: add.commute)
qed

lemma fl_pos_eq:
  "0 < x \<Longrightarrow> fl x = of_int (round_half_even (x / 2 powi (binade x - 52))) * 2 powi (binade x - 52)"
  by (simp add: fl_def Let_def)

lemma significand_bounds:
  assumes "0 < x"
  shows "2 ^ 52 \<le> x / 2 powi (binade x - 52) \<and> x / 2 powi (binade x - 52) < 2 ^ 53"
proof -
  have u: "(0::rat) < 2 powi (binade x - 52)" by simp
  have "2 ^ 52 * 2 powi (binade x - 52) \<le> x"
    using binade_bounds [OF assms] by (simp only: ulp_mult)
  moreover have "x < 2 ^ 53 * 2 powi (binade x - 52)"
    using binade_bounds [OF assms] by (simp only: ulp_mult2)
  ultimately show ?thesis using u by (simp add: pos_le_divide_eq pos_divide_less_eq)
qed

lemma fl_pos_bounds:
  assumes "0 < x"
  shows "2 powi binade x \<le> fl x \<and> fl x \<le> 2 powi (binade x + 1)"
proof -
  let ?u = "(2::rat) powi (binade x - 52)"
  have u: "0 < ?u" by simp
  have "round_half_even (of_int (2 ^ 52)) \<le> round_half_even (x / ?u)"
    using significand_bounds [OF assms] by (intro round_half_even_mono) simp
  then have "(2::int) ^ 52 \<le> round_half_even (x / ?u)"
    by (simp only: round_half_even_of_int)
  then have "(of_int (2 ^ 52) :: rat) \<le> of_int (round_half_even (x / ?u))"
    by (simp only: of_int_le_iff)
  then have "2 ^ 52 * ?u \<le> of_int (round_half_even (x / ?u)) * ?u"
    using u by (intro mult_right_mono) auto
  then have lower: "2 powi binade x \<le> fl x"
    by (simp only: ulp_mult fl_pos_eq [OF assms])
  have "round_half_even (x / ?u) \<le> round_half_even (of_int (2 ^ 53))"
    using significand_bounds [OF assms] by (intro round_half_even_mono) simp
  then have "round_half_even (x / ?u) \<le> (2::int) ^ 53"
    by (simp only: round_half_even_of_int)
  then have "(of_int (round_half_even (x / ?u)) :: rat) \<le> of_int (2 ^ 53)"
    by (simp only: of_int_le_iff)
  then have "of_int (round_half_even (x / ?u)) * ?u \<le> 2 ^ 53 * ?u"
    using u by (intro mult_right_mono) auto
  then have upper: "fl x \<le> 2 powi (binade x + 1)"
    by (simp only: ulp_mult2 fl_pos_eq [OF assms])
  from lower upper show ?thesis ..
qed

lemma fl_pos: "0 < x \<Longrightarrow> 0 < fl x"
proof -
  assume x: "0 < x"
  have "(0::rat) < 2 powi binade x" by simp
  also have "\<dots> \<le> fl x" using fl_pos_bounds [OF x] by simp
  finally show ?thesis .
qed

lemma round_half_even_minus: "round_half_even (- x) = - round_half_even x"
proof (cases "x \<in> \<int>")
  case True
  then obtain n where "x = of_int n" by (auto elim: Ints_cases)
  then show ?thesis using round_half_even_of_int [of "- n"] round_half_even_of_int [of n] by simp
next
  case False
  then have ne: "of_int \<lfloor>x\<rfloor> \<noteq> x" "x \<noteq> of_int \<lfloor>x\<rfloor>"
    by (metis Ints_of_int)+
  then have fl: "\<lfloor>- x\<rfloor> = - \<lfloor>x\<rfloor> - 1"
    by (simp add: floor_minus ceiling_altdef)
  from ne have d: "0 < x - of_int \<lfloor>x\<rfloor>" "x - of_int \<lfloor>x\<rfloor> < 1"
    using of_int_floor_le [of x] floor_correct [of x] by linarith+
  show ?thesis using d by (auto simp: round_half_even_def Let_def fl)
qed

lemma fl_minus: "fl (- x) = - fl x"
  by (simp add: fl_def Let_def round_half_even_minus)

lemma fl_0 [simp]: "fl 0 = 0"
  by (simp add: fl_def)

lemma fl_sign: "(0 < fl x) = (0 < x)"
proof (cases "0 < x")
  case True
  then show ?thesis using fl_pos by simp
next
  case False
  show ?thesis
  proof (cases "x = 0")
    case True
    then show ?thesis by simp
  next
    case False
    with \<open>\<not> 0 < x\<close> have "0 < - x" by simp
    from fl_pos [OF this] have "fl x < 0" by (simp add: fl_minus)
    with \<open>\<not> 0 < x\<close> show ?thesis by simp
  qed
qed



lemma binade_unique:
  assumes "2 powi e \<le> x" "x < 2 powi (e + 1)"
  shows "binade x = e"
proof -
  have x: "0 < x"
  proof -
    have "(0::rat) < 2 powi e" by simp
    with assms(1) show ?thesis by linarith
  qed
  note b = binade_bounds [OF x]
  have "\<not> binade x < e"
  proof
    assume "binade x < e"
    then have "binade x + 1 \<le> e" by simp
    then have "(2::rat) powi (binade x + 1) \<le> 2 powi e"
      by (intro power_int_increasing) auto
    with b assms(1) show False by linarith
  qed
  moreover have "\<not> e < binade x"
  proof
    assume "e < binade x"
    then have "e + 1 \<le> binade x" by simp
    then have "(2::rat) powi (e + 1) \<le> 2 powi binade x"
      by (intro power_int_increasing) auto
    with b assms(2) show False by linarith
  qed
  ultimately show ?thesis by simp
qed

lemma fl_representable:
  assumes "2 ^ 52 \<le> m" "m < 2 ^ 53"
  shows "fl (of_int m * 2 powi (e - 52)) = of_int m * 2 powi (e - 52)"
proof -
  let ?u = "(2::rat) powi (e - 52)"
  let ?x = "of_int m * ?u"
  have u: "0 < ?u" by simp
  have "(of_int (2 ^ 52) :: rat) \<le> of_int m" using assms(1) by (simp only: of_int_le_iff)
  then have "2 ^ 52 * ?u \<le> ?x" using u by (intro mult_right_mono) auto
  then have lo: "2 powi e \<le> ?x" by (simp only: ulp_mult)
  have "(of_int m :: rat) < of_int (2 ^ 53)" using assms(2) by (simp only: of_int_less_iff)
  then have "?x < 2 ^ 53 * ?u" using u by (intro mult_strict_right_mono) auto
  then have hi: "?x < 2 powi (e + 1)" by (simp only: ulp_mult2)
  have b: "binade ?x = e" using lo hi by (rule binade_unique)
  have x: "0 < ?x"
  proof -
    have "(0::rat) < 2 powi e" by simp
    with lo show ?thesis by linarith
  qed
  have "?x / ?u = of_int m" by simp
  then show ?thesis
    unfolding fl_pos_eq [OF x] b by (simp only: round_half_even_of_int)
qed

lemma fl_1 [simp]: "fl 1 = 1"
  using fl_representable [of "2 ^ 52" 0] by simp

lemma fl_2 [simp]: "fl 2 = 2"
  using fl_representable [of "2 ^ 52" 1] by simp

lemma fl_half [simp]: "fl (1 / 2) = 1 / 2"
  using fl_representable [of "2 ^ 52" "- 1"] by simp




section \<open>Offline search\<close>

subsection \<open>Strings\<close>

lemma indexOf_ge: "- 1 \<le> indexOf hay q"
  by (induction hay) (simp_all add: Let_def)

lemma indexOf_sublist: "(indexOf hay q = - 1) = (\<not> sublist q hay)"
proof (induction hay)
  case Nil
  show ?case by simp
next
  case (Cons c cs)
  have "indexOf cs q + 1 \<noteq> - 1" using indexOf_ge [of cs q] by simp
  then show ?case using Cons by (simp add: Let_def sublist_Cons_right)
qed

lemma count_hits_eq:
  "count_hits ts hay hits =
     hits + length (filter (\<lambda>t. length t \<ge> 3 \<and> js_includes hay t) ts)"
  by (induction ts arbitrary: hits) simp_all

subsection \<open>Sorting\<close>

lemma score_cmp_pos: "(0 < score_cmp a b) = (res_score b < res_score a)"
  by (simp add: score_cmp_def js_sub_def fl_sign)

lemma set_sort_insert: "set (sort_insert cmp x ys) = insert x (set ys)"
  by (induction ys) auto

lemma set_js_sort: "set (js_sort cmp xs) = set xs"
  by (induction xs) (simp_all add: set_sort_insert)

lemma length_sort_insert: "length (sort_insert cmp x ys) = Suc (length ys)"
  by (induction ys) auto

lemma length_js_sort: "length (js_sort cmp xs) = length xs"
  by (induction xs) (simp_all add: length_sort_insert)

lemma distinct_sort_insert:
  "distinct (map f (sort_insert cmp x ys)) = distinct (map f (x # ys))"
  by (induction ys) (auto simp: set_sort_insert)

lemma distinct_js_sort: "distinct (map f (js_sort cmp xs)) = distinct (map f xs)"
  by (induction xs) (simp_all add: distinct_sort_insert set_js_sort)

lemma sorted_sort_insert:
  assumes "sorted_wrt before ys" "\<forall>y \<in> set ys. res_i x < res_i y"
  shows "sorted_wrt before (sort_insert score_cmp x ys)"
  using assms
proof (induction ys)
  case Nil
  show ?case by simp
next
  case (Cons y ys)
  show ?case
  proof (cases "0 < score_cmp x y")
    case True
    then have yx: "before y x" by (simp add: score_cmp_pos before_def)
    have "sorted_wrt before (sort_insert score_cmp x ys)"
      using Cons by simp
    moreover have "\<forall>z \<in> set (sort_insert score_cmp x ys). before y z"
      using yx Cons.prems(1) by (simp add: set_sort_insert)
    ultimately show ?thesis using True by simp
  next
    case False
    then have le: "res_score x \<le> res_score y" by (simp add: score_cmp_pos)
    have xy: "before x y" using le Cons.prems(2) by (auto simp: before_def)
    have "before x z" if "z \<in> set ys" for z
    proof -
      have "before y z" using that Cons.prems(1) by simp
      then have "res_score y \<le> res_score z" by (auto simp: before_def)
      with le have "res_score x \<le> res_score z" by simp
      moreover have "res_i x < res_i z" using that Cons.prems(2) by simp
      ultimately show ?thesis by (auto simp: before_def)
    qed
    with xy Cons.prems(1) False show ?thesis by simp
  qed
qed

lemma sorted_js_sort:
  "sorted_wrt (\<lambda>a b. res_i a < res_i b) xs \<Longrightarrow> sorted_wrt before (js_sort score_cmp xs)"
proof (induction xs)
  case Nil
  show ?case by simp
next
  case (Cons x xs)
  then show ?case by (auto intro!: sorted_sort_insert simp: set_js_sort)
qed

subsection \<open>The loop of offlineSearch\<close>

lemma search_loop_eq:
  "i \<le> length ws \<Longrightarrow>
   search_loop q (query_tokens q) ws results i =
     results @ map (pushed ws q) (filter (\<lambda>k. score_at ws q k \<noteq> Infinity) [i ..< length ws])"
proof (induction "length ws - i" arbitrary: i results)
  case 0
  then show ?case by (subst search_loop.simps) simp
next
  case (Suc n)
  then have ilt: "i < length ws" by simp
  have n: "n = length ws - (i + 1)" using Suc.hyps(2) by simp
  have up: "[i ..< length ws] = i # [i + 1 ..< length ws]"
    using ilt by (simp add: upt_conv_Cons)
  note IH = Suc.hyps(1) [OF n]
  show ?case
  proof (cases "search (ws ! i) = []")
    case True
    then have "search_loop q (query_tokens q) ws results i =
        search_loop q (query_tokens q) ws results (i + 1)"
      using ilt by (subst search_loop.simps) simp
    moreover have "score_at ws q i = Infinity" using True by (simp add: score_at_def)
    ultimately show ?thesis using IH [of results] ilt up by simp
  next
    case False
    have sc: "score_at ws q i = entry_score q (query_tokens q) (search (ws ! i))"
      using False by (simp add: score_at_def)
    have "search_loop q (query_tokens q) ws results i =
        search_loop q (query_tokens q) ws
          (if score_at ws q i \<noteq> Infinity then results @ [pushed ws q i] else results) (i + 1)"
      using ilt False by (subst search_loop.simps) (simp add: Let_def sc pushed_def)
    then show ?thesis
      using IH [of "if score_at ws q i \<noteq> Infinity then results @ [pushed ws q i] else results"]
        ilt up by simp
  qed
qed

lemma offlineSearch_eq:
  "offlineSearch st q =
     map res_i (js_sort score_cmp (map (pushed (words st) q) (matched (words st) q)))"
proof -
  have "(\<lambda>a b. js_sub (res_score a) (res_score b)) = score_cmp"
    by (intro ext) (simp add: score_cmp_def)
  then show ?thesis
    using search_loop_eq [of 0 "words st" q "[]"]
    by (simp add: offlineSearch_def matched_def Let_def)
qed

lemma set_offlineSearch: "set (offlineSearch st q) = set (matched (words st) q)"
proof -
  have "res_i \<circ> pushed (words st) q = id" by (intro ext) (simp add: pushed_def)
  then show ?thesis
    by (simp add: offlineSearch_eq set_js_sort image_image pushed_def)
qed

lemma distinct_offlineSearch: "distinct (offlineSearch st q)"
proof -
  have "map res_i (map (pushed (words st) q) (matched (words st) q)) = matched (words st) q"
    by (simp add: pushed_def comp_def)
  moreover have "distinct (matched (words st) q)" by (simp add: matched_def)
  ultimately show ?thesis by (simp add: offlineSearch_eq distinct_js_sort)
qed




lemma fold_min_above:
  "\<forall>d \<in> set ds. (2::nat) < d \<Longrightarrow> 2 < b \<Longrightarrow> 2 < fold min ds b"
  by (induction ds arbitrary: b) simp_all

lemma score_at_Infinity:
  assumes "\<not> sublist q (search (ws ! i))"
    and "\<forall>t \<in> set (query_tokens q). 3 \<le> length t \<longrightarrow> \<not> sublist t (search (ws ! i))"
    and "\<forall>t \<in> set (examined_tokens q (search (ws ! i))). 2 < edit_distance q t"
  shows "score_at ws q i = Infinity"
proof -
  let ?hay = "search (ws ! i)"
  have pos: "indexOf ?hay q = - 1" using assms(1) by (simp add: indexOf_sublist)
  have "filter (\<lambda>t. length t \<ge> 3 \<and> js_includes ?hay t) (query_tokens q) = []"
    using assms(2) by (auto simp: filter_empty_conv js_includes_def indexOf_sublist)
  then have hits: "count_hits (query_tokens q) ?hay 0 = 0" by (simp add: count_hits_eq)
  have "\<forall>d \<in> set (map (\<lambda>t. levenshteinBounded q t 2) (examined_tokens q ?hay)). 2 < d"
    using assms(3) by (auto simp: levenshteinBounded_eq)
  then have "2 < bestTokenDistance q ?hay"
    unfolding bestTokenDistance_fold by (rule fold_min_above) simp
  then have best: "\<not> bestTokenDistance q ?hay \<le> 2" by simp
  show ?thesis by (simp add: score_at_def entry_score_def Let_def pos hits best)
qed



lemma score_at_cong:
  assumes "map search ws = map search ws'" "k < length ws"
  shows "score_at ws q k = score_at ws' q k"
proof -
  have "length ws' = length ws" using assms(1) by (metis length_map)
  then have "search (ws ! k) = search (ws' ! k)"
    using assms nth_map [of k ws search] nth_map [of k ws' search] by simp
  then show ?thesis by (simp add: score_at_def)
qed










lemma words_corpus: "words (corpus ss) = map entry ss"
  by (simp add: corpus_def)

lemma search_entry: "search (entry s) = ascii s"
  by (simp add: entry_def)





lemmas eval_defs = score_at_def search_entry entry_score_def query_tokens_def js_split.simps
  is_space_def Let_def ascii_def js_includes_def js_sub_def js_div_def js_add_def

section \<open>The claims on the search\<close>




text \<open>
  Claim C4. The result of \<open>offlineSearch\<close> is in ascending order of score, and entries of
  equal score are in the order of the corpus: each index comes before every later one
  either by a smaller score, or by an equal score and a smaller index.
\<close>

theorem sorted_offlineSearch:
  "sorted_wrt
     (\<lambda>i j. num (score_at (words st) q i) < num (score_at (words st) q j)
        \<or> (num (score_at (words st) q i) = num (score_at (words st) q j) \<and> i < j))
     (offlineSearch st q)
   \<and> Infinity \<notin> set (map (score_at (words st) q) (offlineSearch st q))"
proof -
  let ?ws = "words st"
  let ?rs = "map (pushed ?ws q) (matched ?ws q)"
  have inc: "sorted_wrt (\<lambda>a b. res_i a < res_i b) ?rs"
  proof -
    have "sorted_wrt (<) (matched ?ws q)"
      unfolding matched_def by (rule sorted_wrt_filter) simp
    then show ?thesis by (simp add: sorted_wrt_map pushed_def)
  qed
  have srt: "sorted_wrt before (js_sort score_cmp ?rs)"
    using inc by (rule sorted_js_sort)
  have mem: "x = pushed ?ws q (res_i x)" if "x \<in> set (js_sort score_cmp ?rs)" for x
    using that by (auto simp: set_js_sort pushed_def)
  have "sorted_wrt
      (\<lambda>a b. num (score_at ?ws q (res_i a)) < num (score_at ?ws q (res_i b))
         \<or> (num (score_at ?ws q (res_i a)) = num (score_at ?ws q (res_i b)) \<and> res_i a < res_i b))
      (js_sort score_cmp ?rs)"
  proof (rule sorted_wrt_mono_rel [OF _ srt])
    fix a b assume a: "a \<in> set (js_sort score_cmp ?rs)" and b: "b \<in> set (js_sort score_cmp ?rs)"
      and ab: "before a b"
    have "res_score a = num (score_at ?ws q (res_i a))"
      using mem [OF a] by (metis pushed_def result.select_convs(2))
    moreover have "res_score b = num (score_at ?ws q (res_i b))"
      using mem [OF b] by (metis pushed_def result.select_convs(2))
    ultimately show "num (score_at ?ws q (res_i a)) < num (score_at ?ws q (res_i b))
         \<or> (num (score_at ?ws q (res_i a)) = num (score_at ?ws q (res_i b)) \<and> res_i a < res_i b)"
      using ab by (simp add: before_def)
  qed
  then have srt': "sorted_wrt
     (\<lambda>i j. num (score_at ?ws q i) < num (score_at ?ws q j)
        \<or> (num (score_at ?ws q i) = num (score_at ?ws q j) \<and> i < j))
     (offlineSearch st q)"
    by (simp add: offlineSearch_eq sorted_wrt_map)
  have "Infinity \<notin> set (map (score_at ?ws q) (offlineSearch st q))"
    by (auto simp: set_offlineSearch matched_def)
  with srt' show ?thesis by (rule conjI)
qed

theorem sorted_offlineSearch_witness:
  "offlineSearch (corpus [''red car'', ''apple red wine'', ''zzz'', ''apple red'']) (ascii ''apple red'')
     = [1, 3, 0]
   \<and> sorted_wrt
     (\<lambda>i j. num (score_at (map entry [''red car'', ''apple red wine'', ''zzz'', ''apple red''])
                   (ascii ''apple red'') i)
            < num (score_at (map entry [''red car'', ''apple red wine'', ''zzz'', ''apple red''])
                   (ascii ''apple red'') j)
        \<or> (num (score_at (map entry [''red car'', ''apple red wine'', ''zzz'', ''apple red''])
                   (ascii ''apple red'') i)
            = num (score_at (map entry [''red car'', ''apple red wine'', ''zzz'', ''apple red''])
                   (ascii ''apple red'') j) \<and> i < j))
     (offlineSearch (corpus [''red car'', ''apple red wine'', ''zzz'', ''apple red''])
        (ascii ''apple red''))"
proof -
  define ws where "ws = map entry [''red car'', ''apple red wine'', ''zzz'', ''apple red'']"
  define q where "q = ascii ''apple red''"
  have b: "bestTokenDistance (ascii ''apple red'') (ascii ''zzz'') = 99"
    by code_simp
  have s0: "score_at ws q 0 = Num (1 / 2)"
    unfolding ws_def q_def by (simp add: eval_defs)
  have s1: "score_at ws q (Suc 0) = Num 0"
    unfolding ws_def q_def by (simp add: eval_defs)
  have s2: "score_at ws q 2 = Infinity"
    unfolding ws_def q_def using b by (simp add: eval_defs)
  have s3: "score_at ws q 3 = Num 0"
    unfolding ws_def q_def by (simp add: eval_defs)
  have up: "[0 ..< length ws] = [0, Suc 0, 2, 3]"
    unfolding ws_def by (simp add: upt_conv_Cons)
  have m: "matched ws q = [0, Suc 0, 3]"
    unfolding matched_def up by (simp add: s0 s1 s2 s3)
  have "offlineSearch (corpus [''red car'', ''apple red wine'', ''zzz'', ''apple red'']) (ascii ''apple red'')
      = map res_i (js_sort score_cmp (map (pushed ws q) (matched ws q)))"
    unfolding offlineSearch_eq words_corpus ws_def q_def by (rule refl)
  also have "\<dots> = [1, 3, 0]"
    unfolding m by (simp add: pushed_def s0 s1 s3 score_cmp_pos)
  finally have v: "offlineSearch (corpus [''red car'', ''apple red wine'', ''zzz'', ''apple red''])
      (ascii ''apple red'') = [1, 3, 0]" .
  from sorted_offlineSearch [of "corpus [''red car'', ''apple red wine'', ''zzz'', ''apple red'']"
      "ascii ''apple red''", THEN conjunct1]
  have "sorted_wrt
     (\<lambda>i j. num (score_at (map entry [''red car'', ''apple red wine'', ''zzz'', ''apple red''])
                   (ascii ''apple red'') i)
            < num (score_at (map entry [''red car'', ''apple red wine'', ''zzz'', ''apple red''])
                   (ascii ''apple red'') j)
        \<or> (num (score_at (map entry [''red car'', ''apple red wine'', ''zzz'', ''apple red''])
                   (ascii ''apple red'') i)
            = num (score_at (map entry [''red car'', ''apple red wine'', ''zzz'', ''apple red''])
                   (ascii ''apple red'') j) \<and> i < j))
     (offlineSearch (corpus [''red car'', ''apple red wine'', ''zzz'', ''apple red''])
        (ascii ''apple red''))"
    by (simp only: words_corpus)
  with v show ?thesis by (rule conjI)
qed

text \<open>
  Claim C5. For a query of fewer than 3 characters \<open>searchIndices\<close> returns all indices
  \<open>0..n-1\<close> of the corpus in order, whatever the primary matcher and the offline search
  would return.
\<close>

theorem searchIndices_short_query:
  "length queryNorm < 3 \<Longrightarrow> searchIndices st queryNorm = [0 ..< length (words st)]"
  by (simp add: searchIndices_def)

theorem searchIndices_short_query_witness:
  "length (ascii ''ab'') < 3
   \<and> searchIndices ((corpus [''apple'', ''banana'', ''cherry''])\<lparr>fuse := Some (\<lambda>q. [2])\<rparr>) (ascii ''ab'')
     = [0, 1, 2]"
proof -
  have l: "length (ascii ''ab'') < 3" by (simp add: ascii_def)
  have "[0 ..< length (words ((corpus [''apple'', ''banana'', ''cherry''])\<lparr>fuse := Some (\<lambda>q. [2])\<rparr>))]
      = [0, 1, 2]"
    by (simp add: words_corpus upt_conv_Cons)
  with searchIndices_short_query [OF l] l show ?thesis by simp
qed

text \<open>
  Claim C6. An entry whose search text does not contain the query, contains none of the
  query's whitespace-separated tokens of length at least 3, and has no compared token
  within edit distance 2 of the query, is absent from the result of \<open>offlineSearch\<close>.
\<close>

theorem offlineSearch_excludes:
  assumes "i < length (words st)"
    and "\<not> sublist q (search (words st ! i))"
    and "\<forall>t \<in> set (query_tokens q). 3 \<le> length t \<longrightarrow> \<not> sublist t (search (words st ! i))"
    and "\<forall>t \<in> set (examined_tokens q (search (words st ! i))). 2 < edit_distance q t"
  shows "i \<notin> set (offlineSearch st q)"
  using score_at_Infinity [OF assms(2,3,4)] by (simp add: set_offlineSearch matched_def)

theorem offlineSearch_excludes_witness:
  "0 < length (words (corpus [''apple'', ''banana'']))
   \<and> search (words (corpus [''apple'', ''banana'']) ! 0) = ascii ''apple''
   \<and> \<not> sublist (ascii ''zzzzz'') (ascii ''apple'')
   \<and> query_tokens (ascii ''zzzzz'') = [ascii ''zzzzz'']
   \<and> examined_tokens (ascii ''zzzzz'') (ascii ''apple'') = [ascii ''apple'']
   \<and> 2 < edit_distance (ascii ''zzzzz'') (ascii ''apple'')
   \<and> 0 \<notin> set (offlineSearch (corpus [''apple'', ''banana'']) (ascii ''zzzzz''))"
proof -
  let ?st = "corpus [''apple'', ''banana'']"
  have l: "0 < length (words ?st)" by (simp add: words_corpus)
  have h: "search (words ?st ! 0) = ascii ''apple''" by (simp add: words_corpus search_entry)
  have i: "indexOf (ascii ''apple'') (ascii ''zzzzz'') = - 1" by (simp add: ascii_def)
  have s: "\<not> sublist (ascii ''zzzzz'') (ascii ''apple'')" using i unfolding indexOf_sublist .
  have t: "query_tokens (ascii ''zzzzz'') = [ascii ''zzzzz'']"
    by (simp add: query_tokens_def js_split.simps is_space_def Let_def ascii_def)
  have e: "examined_tokens (ascii ''zzzzz'') (ascii ''apple'') = [ascii ''apple'']"
    by code_simp
  have d: "2 < edit_distance (ascii ''zzzzz'') (ascii ''apple'')"
    by (simp add: ascii_def)
  have "0 \<notin> set (offlineSearch ?st (ascii ''zzzzz''))"
    by (rule offlineSearch_excludes [OF l]) (simp_all only: h t e, use s d in simp_all)
  with l h s t e d show ?thesis by blast
qed

text \<open>
  Claim C9. \<open>offlineSearch\<close> is a function of the query and of the search texts of the
  corpus alone: two states whose entries have the same search texts, in the same order,
  give the same result, whatever their other fields hold. It returns a value and no state.
\<close>

theorem offlineSearch_reads_search_texts:
  assumes "map search (words st) = map search (words st')"
  shows "offlineSearch st q = offlineSearch st' q"
proof -
  have len: "length (words st') = length (words st)" using assms by (metis length_map)
  have m: "matched (words st) q = matched (words st') q"
    unfolding matched_def len
    by (rule filter_cong) (auto simp: score_at_cong [OF assms])
  have p: "map (pushed (words st) q) (matched (words st) q) =
      map (pushed (words st') q) (matched (words st) q)"
    by (rule map_cong) (auto simp: pushed_def matched_def score_at_cong [OF assms])
  have "offlineSearch st q =
      map res_i (js_sort score_cmp (map (pushed (words st) q) (matched (words st) q)))"
    by (rule offlineSearch_eq)
  also have "\<dots> = map res_i (js_sort score_cmp (map (pushed (words st') q) (matched (words st) q)))"
    by (simp only: p)
  also have "\<dots> = map res_i (js_sort score_cmp (map (pushed (words st') q) (matched (words st') q)))"
    by (simp only: m)
  also have "\<dots> = offlineSearch st' q"
    by (rule offlineSearch_eq [symmetric])
  finally show ?thesis .
qed

theorem offlineSearch_reads_search_texts_witness:
  "map search (words (corpus [''apple'', ''banana'']))
     = map search (words ((corpus [''apple'', ''banana''])
         \<lparr>words := map (\<lambda>w. w\<lparr>wtype := ascii ''adj''\<rparr>) (words (corpus [''apple'', ''banana''])),
          deck := [1, 0], currentIndex := 1, fuse := Some (\<lambda>q. [1])\<rparr>))
   \<and> words (corpus [''apple'', ''banana''])
     \<noteq> words ((corpus [''apple'', ''banana''])
         \<lparr>words := map (\<lambda>w. w\<lparr>wtype := ascii ''adj''\<rparr>) (words (corpus [''apple'', ''banana''])),
          deck := [1, 0], currentIndex := 1, fuse := Some (\<lambda>q. [1])\<rparr>)
   \<and> offlineSearch (corpus [''apple'', ''banana'']) (ascii ''apple'')
     = offlineSearch ((corpus [''apple'', ''banana''])
         \<lparr>words := map (\<lambda>w. w\<lparr>wtype := ascii ''adj''\<rparr>) (words (corpus [''apple'', ''banana''])),
          deck := [1, 0], currentIndex := 1, fuse := Some (\<lambda>q. [1])\<rparr>) (ascii ''apple'')"
proof -
  let ?st = "corpus [''apple'', ''banana'']"
  let ?st' = "?st\<lparr>words := map (\<lambda>w. w\<lparr>wtype := ascii ''adj''\<rparr>) (words ?st),
      deck := [1, 0], currentIndex := 1, fuse := Some (\<lambda>q. [1])\<rparr>"
  have h: "map search (words ?st) = map search (words ?st')"
    by (simp add: words_corpus entry_def)
  have n: "words ?st \<noteq> words ?st'"
    by (simp add: words_corpus entry_def ascii_def)
  from offlineSearch_reads_search_texts [OF h] h n show ?thesis by blast
qed

text \<open>
  Claim C10. The indices returned by \<open>offlineSearch\<close> are pairwise distinct and each is
  an index of the corpus, so there are at most as many as entries.
\<close>

theorem offlineSearch_indices:
  "distinct (offlineSearch st q)
   \<and> set (offlineSearch st q) \<subseteq> {0 ..< length (words st)}
   \<and> length (offlineSearch st q) \<le> length (words st)"
proof -
  have "set (offlineSearch st q) \<subseteq> {0 ..< length (words st)}"
    by (auto simp: set_offlineSearch matched_def)
  moreover have "length (offlineSearch st q) \<le> length (words st)"
    using length_filter_le [of "\<lambda>k. score_at (words st) q k \<noteq> Infinity" "[0 ..< length (words st)]"]
    by (simp add: offlineSearch_eq length_js_sort matched_def)
  ultimately show ?thesis using distinct_offlineSearch by blast
qed

theorem offlineSearch_indices_witness:
  "distinct (offlineSearch (corpus [''red car'', ''apple red wine'', ''zzz'', ''apple red'']) (ascii ''apple red''))
   \<and> set (offlineSearch (corpus [''red car'', ''apple red wine'', ''zzz'', ''apple red'']) (ascii ''apple red''))
       \<subseteq> {0 ..< 4}
   \<and> length (offlineSearch (corpus [''red car'', ''apple red wine'', ''zzz'', ''apple red'']) (ascii ''apple red''))
       \<le> 4"
proof -
  have len: "length (words (corpus [''red car'', ''apple red wine'', ''zzz'', ''apple red''])) = 4"
    by (simp add: words_corpus)
  show ?thesis
    using offlineSearch_indices [of "corpus [''red car'', ''apple red wine'', ''zzz'', ''apple red'']"
        "ascii ''apple red''"]
    unfolding len .
qed

section \<open>The normalizer\<close>

subsection \<open>Looking up the tables\<close>

text \<open>A lookup is evaluated without rewriting the table.\<close>

lemma mapped_cong: "c = d \<Longrightarrow> mapped t c = mapped t d"
  by simp

lemma class_in_cong: "c = d \<Longrightarrow> class_in t c = class_in t d"
  by simp

lemma in_ranges_cong: "c = d \<Longrightarrow> in_ranges t c = in_ranges t d"
  by simp

lemma mapped_unfold: "t = x \<Longrightarrow> mapped t c = mapped x c"
  by simp

lemma class_in_unfold: "t = x \<Longrightarrow> class_in t c = class_in x c"
  by simp

lemma in_ranges_unfold: "t = x \<Longrightarrow> in_ranges t c = in_ranges x c"
  by simp

lemma mapped_entry: "list_all Q t \<Longrightarrow> mapped t c = [c] \<or> Q (c, mapped t c)"
  by (induction t) auto

lemma list_all_member: "list_all P xs \<Longrightarrow> x \<in> set xs \<Longrightarrow> P x"
  by (simp add: list_all_iff)

lemma upt_member: "m \<le> c \<Longrightarrow> c < n \<Longrightarrow> c \<in> set [m..<n]"
  by simp

lemma branch: "(b \<Longrightarrow> R x) \<Longrightarrow> (\<not> b \<Longrightarrow> R y) \<Longrightarrow> R (if b then x else y)"
  by simp

lemmas decomposition_parts =
  decomposition_table_00_def [THEN mapped_unfold]
  decomposition_table_01_def [THEN mapped_unfold]
  decomposition_table_02_def [THEN mapped_unfold]
  decomposition_table_03_def [THEN mapped_unfold]
  decomposition_table_04_def [THEN mapped_unfold]
  decomposition_table_05_def [THEN mapped_unfold]
  decomposition_table_06_def [THEN mapped_unfold]
  decomposition_table_07_def [THEN mapped_unfold]
  decomposition_table_08_def [THEN mapped_unfold]
  decomposition_table_09_def [THEN mapped_unfold]
  decomposition_table_10_def [THEN mapped_unfold]
  decomposition_table_11_def [THEN mapped_unfold]
  decomposition_table_12_def [THEN mapped_unfold]
  decomposition_table_13_def [THEN mapped_unfold]
  decomposition_table_14_def [THEN mapped_unfold]
  decomposition_table_15_def [THEN mapped_unfold]
  decomposition_table_16_def [THEN mapped_unfold]
  decomposition_table_17_def [THEN mapped_unfold]
  decomposition_table_18_def [THEN mapped_unfold]
  decomposition_table_19_def [THEN mapped_unfold]
  decomposition_table_20_def [THEN mapped_unfold]
  decomposition_table_21_def [THEN mapped_unfold]
  decomposition_table_22_def [THEN mapped_unfold]
  decomposition_table_23_def [THEN mapped_unfold]
  decomposition_table_24_def [THEN mapped_unfold]
  decomposition_table_25_def [THEN mapped_unfold]
  decomposition_table_26_def [THEN mapped_unfold]
  decomposition_table_27_def [THEN mapped_unfold]
  decomposition_table_28_def [THEN mapped_unfold]
  decomposition_table_29_def [THEN mapped_unfold]
  decomposition_table_30_def [THEN mapped_unfold]
  decomposition_table_31_def [THEN mapped_unfold]
  decomposition_table_32_def [THEN mapped_unfold]
  decomposition_table_33_def [THEN mapped_unfold]
  decomposition_table_34_def [THEN mapped_unfold]
  decomposition_table_35_def [THEN mapped_unfold]
  decomposition_table_36_def [THEN mapped_unfold]
  decomposition_table_37_def [THEN mapped_unfold]
  decomposition_table_38_def [THEN mapped_unfold]
  decomposition_table_39_def [THEN mapped_unfold]
  decomposition_table_40_def [THEN mapped_unfold]
  decomposition_table_41_def [THEN mapped_unfold]
  decomposition_table_42_def [THEN mapped_unfold]
  decomposition_table_43_def [THEN mapped_unfold]
  decomposition_table_44_def [THEN mapped_unfold]
  decomposition_table_45_def [THEN mapped_unfold]

lemmas lowercase_parts =
  lowercase_table_00_def [THEN mapped_unfold] lowercase_table_01_def [THEN mapped_unfold]
  lowercase_table_02_def [THEN mapped_unfold] lowercase_table_03_def [THEN mapped_unfold]
  lowercase_table_04_def [THEN mapped_unfold] lowercase_table_05_def [THEN mapped_unfold]
  lowercase_table_06_def [THEN mapped_unfold] lowercase_table_07_def [THEN mapped_unfold]
  lowercase_table_08_def [THEN mapped_unfold] lowercase_table_09_def [THEN mapped_unfold]
  lowercase_table_10_def [THEN mapped_unfold] lowercase_table_11_def [THEN mapped_unfold]
  lowercase_table_12_def [THEN mapped_unfold] lowercase_table_13_def [THEN mapped_unfold]
  lowercase_table_14_def [THEN mapped_unfold] lowercase_table_15_def [THEN mapped_unfold]
  lowercase_table_16_def [THEN mapped_unfold] lowercase_table_17_def [THEN mapped_unfold]
  lowercase_table_18_def [THEN mapped_unfold] lowercase_table_19_def [THEN mapped_unfold]
  lowercase_table_20_def [THEN mapped_unfold] lowercase_table_21_def [THEN mapped_unfold]
  lowercase_table_22_def [THEN mapped_unfold] lowercase_table_23_def [THEN mapped_unfold]
  lowercase_table_24_def [THEN mapped_unfold] lowercase_table_25_def [THEN mapped_unfold]
  lowercase_table_26_def [THEN mapped_unfold] lowercase_table_27_def [THEN mapped_unfold]
  lowercase_table_28_def [THEN mapped_unfold] lowercase_table_29_def [THEN mapped_unfold]
  lowercase_table_30_def [THEN mapped_unfold] lowercase_table_31_def [THEN mapped_unfold]

lemmas class_parts =
  class_table_00_def [THEN class_in_unfold] class_table_01_def [THEN class_in_unfold]
  class_table_02_def [THEN class_in_unfold] class_table_03_def [THEN class_in_unfold]
  class_table_04_def [THEN class_in_unfold] class_table_05_def [THEN class_in_unfold]
  class_table_06_def [THEN class_in_unfold] class_table_07_def [THEN class_in_unfold]
  class_table_08_def [THEN class_in_unfold] class_table_09_def [THEN class_in_unfold]
  class_table_10_def [THEN class_in_unfold]

lemmas cased_parts =
  cased_table_00_def [THEN in_ranges_unfold] cased_table_01_def [THEN in_ranges_unfold]
  cased_table_02_def [THEN in_ranges_unfold] cased_table_03_def [THEN in_ranges_unfold]
  cased_table_04_def [THEN in_ranges_unfold] cased_table_05_def [THEN in_ranges_unfold]

lemmas case_ignorable_parts =
  case_ignorable_table_00_def [THEN in_ranges_unfold]
  case_ignorable_table_01_def [THEN in_ranges_unfold]
  case_ignorable_table_02_def [THEN in_ranges_unfold]
  case_ignorable_table_03_def [THEN in_ranges_unfold]
  case_ignorable_table_04_def [THEN in_ranges_unfold]
  case_ignorable_table_05_def [THEN in_ranges_unfold]
  case_ignorable_table_06_def [THEN in_ranges_unfold]
  case_ignorable_table_07_def [THEN in_ranges_unfold]
  case_ignorable_table_08_def [THEN in_ranges_unfold]
  case_ignorable_table_09_def [THEN in_ranges_unfold]
  case_ignorable_table_10_def [THEN in_ranges_unfold]
  case_ignorable_table_11_def [THEN in_ranges_unfold]

lemmas table_eval =
  decomposition_def lowercase_def ccc_def cased_def case_ignorable_def
  decomposition_parts lowercase_parts class_parts cased_parts case_ignorable_parts
  mapped.simps class_in.simps in_ranges.simps decomposed_def lowered_def
  decomposition_entry.simps lowercase_entry.simps scalar_def combining_mark_def
  list.pred_inject list.inject list.distinct rel_simps simp_thms if_True if_False

subsection \<open>The entries of the tables\<close>

lemma decomposition_table_00_checked: "list_all decomposition_entry decomposition_table_00"
  unfolding decomposition_table_00_def by (simp only: table_eval cong: mapped_cong class_in_cong in_ranges_cong if_weak_cong)

lemma decomposition_table_01_checked: "list_all decomposition_entry decomposition_table_01"
  unfolding decomposition_table_01_def by (simp only: table_eval cong: mapped_cong class_in_cong in_ranges_cong if_weak_cong)

lemma decomposition_table_02_checked: "list_all decomposition_entry decomposition_table_02"
  unfolding decomposition_table_02_def by (simp only: table_eval cong: mapped_cong class_in_cong in_ranges_cong if_weak_cong)

lemma decomposition_table_03_checked: "list_all decomposition_entry decomposition_table_03"
  unfolding decomposition_table_03_def by (simp only: table_eval cong: mapped_cong class_in_cong in_ranges_cong if_weak_cong)

lemma decomposition_table_04_checked: "list_all decomposition_entry decomposition_table_04"
  unfolding decomposition_table_04_def by (simp only: table_eval cong: mapped_cong class_in_cong in_ranges_cong if_weak_cong)

lemma decomposition_table_05_checked: "list_all decomposition_entry decomposition_table_05"
  unfolding decomposition_table_05_def by (simp only: table_eval cong: mapped_cong class_in_cong in_ranges_cong if_weak_cong)

lemma decomposition_table_06_checked: "list_all decomposition_entry decomposition_table_06"
  unfolding decomposition_table_06_def by (simp only: table_eval cong: mapped_cong class_in_cong in_ranges_cong if_weak_cong)

lemma decomposition_table_07_checked: "list_all decomposition_entry decomposition_table_07"
  unfolding decomposition_table_07_def by (simp only: table_eval cong: mapped_cong class_in_cong in_ranges_cong if_weak_cong)

lemma decomposition_table_08_checked: "list_all decomposition_entry decomposition_table_08"
  unfolding decomposition_table_08_def by (simp only: table_eval cong: mapped_cong class_in_cong in_ranges_cong if_weak_cong)

lemma decomposition_table_09_checked: "list_all decomposition_entry decomposition_table_09"
  unfolding decomposition_table_09_def by (simp only: table_eval cong: mapped_cong class_in_cong in_ranges_cong if_weak_cong)

lemma decomposition_table_10_checked: "list_all decomposition_entry decomposition_table_10"
  unfolding decomposition_table_10_def by (simp only: table_eval cong: mapped_cong class_in_cong in_ranges_cong if_weak_cong)

lemma decomposition_table_11_checked: "list_all decomposition_entry decomposition_table_11"
  unfolding decomposition_table_11_def by (simp only: table_eval cong: mapped_cong class_in_cong in_ranges_cong if_weak_cong)

lemma decomposition_table_12_checked: "list_all decomposition_entry decomposition_table_12"
  unfolding decomposition_table_12_def by (simp only: table_eval cong: mapped_cong class_in_cong in_ranges_cong if_weak_cong)

lemma decomposition_table_13_checked: "list_all decomposition_entry decomposition_table_13"
  unfolding decomposition_table_13_def by (simp only: table_eval cong: mapped_cong class_in_cong in_ranges_cong if_weak_cong)

lemma decomposition_table_14_checked: "list_all decomposition_entry decomposition_table_14"
  unfolding decomposition_table_14_def by (simp only: table_eval cong: mapped_cong class_in_cong in_ranges_cong if_weak_cong)

lemma decomposition_table_15_checked: "list_all decomposition_entry decomposition_table_15"
  unfolding decomposition_table_15_def by (simp only: table_eval cong: mapped_cong class_in_cong in_ranges_cong if_weak_cong)

lemma decomposition_table_16_checked: "list_all decomposition_entry decomposition_table_16"
  unfolding decomposition_table_16_def by (simp only: table_eval cong: mapped_cong class_in_cong in_ranges_cong if_weak_cong)

lemma decomposition_table_17_checked: "list_all decomposition_entry decomposition_table_17"
  unfolding decomposition_table_17_def by (simp only: table_eval cong: mapped_cong class_in_cong in_ranges_cong if_weak_cong)

lemma decomposition_table_18_checked: "list_all decomposition_entry decomposition_table_18"
  unfolding decomposition_table_18_def by (simp only: table_eval cong: mapped_cong class_in_cong in_ranges_cong if_weak_cong)

lemma decomposition_table_19_checked: "list_all decomposition_entry decomposition_table_19"
  unfolding decomposition_table_19_def by (simp only: table_eval cong: mapped_cong class_in_cong in_ranges_cong if_weak_cong)

lemma decomposition_table_20_checked: "list_all decomposition_entry decomposition_table_20"
  unfolding decomposition_table_20_def by (simp only: table_eval cong: mapped_cong class_in_cong in_ranges_cong if_weak_cong)

lemma decomposition_table_21_checked: "list_all decomposition_entry decomposition_table_21"
  unfolding decomposition_table_21_def by (simp only: table_eval cong: mapped_cong class_in_cong in_ranges_cong if_weak_cong)

lemma decomposition_table_22_checked: "list_all decomposition_entry decomposition_table_22"
  unfolding decomposition_table_22_def by (simp only: table_eval cong: mapped_cong class_in_cong in_ranges_cong if_weak_cong)

lemma decomposition_table_23_checked: "list_all decomposition_entry decomposition_table_23"
  unfolding decomposition_table_23_def by (simp only: table_eval cong: mapped_cong class_in_cong in_ranges_cong if_weak_cong)

lemma decomposition_table_24_checked: "list_all decomposition_entry decomposition_table_24"
  unfolding decomposition_table_24_def by (simp only: table_eval cong: mapped_cong class_in_cong in_ranges_cong if_weak_cong)

lemma decomposition_table_25_checked: "list_all decomposition_entry decomposition_table_25"
  unfolding decomposition_table_25_def by (simp only: table_eval cong: mapped_cong class_in_cong in_ranges_cong if_weak_cong)

lemma decomposition_table_26_checked: "list_all decomposition_entry decomposition_table_26"
  unfolding decomposition_table_26_def by (simp only: table_eval cong: mapped_cong class_in_cong in_ranges_cong if_weak_cong)

lemma decomposition_table_27_checked: "list_all decomposition_entry decomposition_table_27"
  unfolding decomposition_table_27_def by (simp only: table_eval cong: mapped_cong class_in_cong in_ranges_cong if_weak_cong)

lemma decomposition_table_28_checked: "list_all decomposition_entry decomposition_table_28"
  unfolding decomposition_table_28_def by (simp only: table_eval cong: mapped_cong class_in_cong in_ranges_cong if_weak_cong)

lemma decomposition_table_29_checked: "list_all decomposition_entry decomposition_table_29"
  unfolding decomposition_table_29_def by (simp only: table_eval cong: mapped_cong class_in_cong in_ranges_cong if_weak_cong)

lemma decomposition_table_30_checked: "list_all decomposition_entry decomposition_table_30"
  unfolding decomposition_table_30_def by (simp only: table_eval cong: mapped_cong class_in_cong in_ranges_cong if_weak_cong)

lemma decomposition_table_31_checked: "list_all decomposition_entry decomposition_table_31"
  unfolding decomposition_table_31_def by (simp only: table_eval cong: mapped_cong class_in_cong in_ranges_cong if_weak_cong)

lemma decomposition_table_32_checked: "list_all decomposition_entry decomposition_table_32"
  unfolding decomposition_table_32_def by (simp only: table_eval cong: mapped_cong class_in_cong in_ranges_cong if_weak_cong)

lemma decomposition_table_33_checked: "list_all decomposition_entry decomposition_table_33"
  unfolding decomposition_table_33_def by (simp only: table_eval cong: mapped_cong class_in_cong in_ranges_cong if_weak_cong)

lemma decomposition_table_34_checked: "list_all decomposition_entry decomposition_table_34"
  unfolding decomposition_table_34_def by (simp only: table_eval cong: mapped_cong class_in_cong in_ranges_cong if_weak_cong)

lemma decomposition_table_35_checked: "list_all decomposition_entry decomposition_table_35"
  unfolding decomposition_table_35_def by (simp only: table_eval cong: mapped_cong class_in_cong in_ranges_cong if_weak_cong)

lemma decomposition_table_36_checked: "list_all decomposition_entry decomposition_table_36"
  unfolding decomposition_table_36_def by (simp only: table_eval cong: mapped_cong class_in_cong in_ranges_cong if_weak_cong)

lemma decomposition_table_37_checked: "list_all decomposition_entry decomposition_table_37"
  unfolding decomposition_table_37_def by (simp only: table_eval cong: mapped_cong class_in_cong in_ranges_cong if_weak_cong)

lemma decomposition_table_38_checked: "list_all decomposition_entry decomposition_table_38"
  unfolding decomposition_table_38_def by (simp only: table_eval cong: mapped_cong class_in_cong in_ranges_cong if_weak_cong)

lemma decomposition_table_39_checked: "list_all decomposition_entry decomposition_table_39"
  unfolding decomposition_table_39_def by (simp only: table_eval cong: mapped_cong class_in_cong in_ranges_cong if_weak_cong)

lemma decomposition_table_40_checked: "list_all decomposition_entry decomposition_table_40"
  unfolding decomposition_table_40_def by (simp only: table_eval cong: mapped_cong class_in_cong in_ranges_cong if_weak_cong)

lemma decomposition_table_41_checked: "list_all decomposition_entry decomposition_table_41"
  unfolding decomposition_table_41_def by (simp only: table_eval cong: mapped_cong class_in_cong in_ranges_cong if_weak_cong)

lemma decomposition_table_42_checked: "list_all decomposition_entry decomposition_table_42"
  unfolding decomposition_table_42_def by (simp only: table_eval cong: mapped_cong class_in_cong in_ranges_cong if_weak_cong)

lemma decomposition_table_43_checked: "list_all decomposition_entry decomposition_table_43"
  unfolding decomposition_table_43_def by (simp only: table_eval cong: mapped_cong class_in_cong in_ranges_cong if_weak_cong)

lemma decomposition_table_44_checked: "list_all decomposition_entry decomposition_table_44"
  unfolding decomposition_table_44_def by (simp only: table_eval cong: mapped_cong class_in_cong in_ranges_cong if_weak_cong)

lemma decomposition_table_45_checked: "list_all decomposition_entry decomposition_table_45"
  unfolding decomposition_table_45_def by (simp only: table_eval cong: mapped_cong class_in_cong in_ranges_cong if_weak_cong)

lemma lowercase_table_00_checked: "list_all lowercase_entry lowercase_table_00"
  unfolding lowercase_table_00_def by (simp only: table_eval cong: mapped_cong class_in_cong in_ranges_cong if_weak_cong)

lemma lowercase_table_01_checked: "list_all lowercase_entry lowercase_table_01"
  unfolding lowercase_table_01_def by (simp only: table_eval cong: mapped_cong class_in_cong in_ranges_cong if_weak_cong)

lemma lowercase_table_02_checked: "list_all lowercase_entry lowercase_table_02"
  unfolding lowercase_table_02_def by (simp only: table_eval cong: mapped_cong class_in_cong in_ranges_cong if_weak_cong)

lemma lowercase_table_03_checked: "list_all lowercase_entry lowercase_table_03"
  unfolding lowercase_table_03_def by (simp only: table_eval cong: mapped_cong class_in_cong in_ranges_cong if_weak_cong)

lemma lowercase_table_04_checked: "list_all lowercase_entry lowercase_table_04"
  unfolding lowercase_table_04_def by (simp only: table_eval cong: mapped_cong class_in_cong in_ranges_cong if_weak_cong)

lemma lowercase_table_05_checked: "list_all lowercase_entry lowercase_table_05"
  unfolding lowercase_table_05_def by (simp only: table_eval cong: mapped_cong class_in_cong in_ranges_cong if_weak_cong)

lemma lowercase_table_06_checked: "list_all lowercase_entry lowercase_table_06"
  unfolding lowercase_table_06_def by (simp only: table_eval cong: mapped_cong class_in_cong in_ranges_cong if_weak_cong)

lemma lowercase_table_07_checked: "list_all lowercase_entry lowercase_table_07"
  unfolding lowercase_table_07_def by (simp only: table_eval cong: mapped_cong class_in_cong in_ranges_cong if_weak_cong)

lemma lowercase_table_08_checked: "list_all lowercase_entry lowercase_table_08"
  unfolding lowercase_table_08_def by (simp only: table_eval cong: mapped_cong class_in_cong in_ranges_cong if_weak_cong)

lemma lowercase_table_09_checked: "list_all lowercase_entry lowercase_table_09"
  unfolding lowercase_table_09_def by (simp only: table_eval cong: mapped_cong class_in_cong in_ranges_cong if_weak_cong)

lemma lowercase_table_10_checked: "list_all lowercase_entry lowercase_table_10"
  unfolding lowercase_table_10_def by (simp only: table_eval cong: mapped_cong class_in_cong in_ranges_cong if_weak_cong)

lemma lowercase_table_11_checked: "list_all lowercase_entry lowercase_table_11"
  unfolding lowercase_table_11_def by (simp only: table_eval cong: mapped_cong class_in_cong in_ranges_cong if_weak_cong)

lemma lowercase_table_12_checked: "list_all lowercase_entry lowercase_table_12"
  unfolding lowercase_table_12_def by (simp only: table_eval cong: mapped_cong class_in_cong in_ranges_cong if_weak_cong)

lemma lowercase_table_13_checked: "list_all lowercase_entry lowercase_table_13"
  unfolding lowercase_table_13_def by (simp only: table_eval cong: mapped_cong class_in_cong in_ranges_cong if_weak_cong)

lemma lowercase_table_14_checked: "list_all lowercase_entry lowercase_table_14"
  unfolding lowercase_table_14_def by (simp only: table_eval cong: mapped_cong class_in_cong in_ranges_cong if_weak_cong)

lemma lowercase_table_15_checked: "list_all lowercase_entry lowercase_table_15"
  unfolding lowercase_table_15_def by (simp only: table_eval cong: mapped_cong class_in_cong in_ranges_cong if_weak_cong)

lemma lowercase_table_16_checked: "list_all lowercase_entry lowercase_table_16"
  unfolding lowercase_table_16_def by (simp only: table_eval cong: mapped_cong class_in_cong in_ranges_cong if_weak_cong)

lemma lowercase_table_17_checked: "list_all lowercase_entry lowercase_table_17"
  unfolding lowercase_table_17_def by (simp only: table_eval cong: mapped_cong class_in_cong in_ranges_cong if_weak_cong)

lemma lowercase_table_18_checked: "list_all lowercase_entry lowercase_table_18"
  unfolding lowercase_table_18_def by (simp only: table_eval cong: mapped_cong class_in_cong in_ranges_cong if_weak_cong)

lemma lowercase_table_19_checked: "list_all lowercase_entry lowercase_table_19"
  unfolding lowercase_table_19_def by (simp only: table_eval cong: mapped_cong class_in_cong in_ranges_cong if_weak_cong)

lemma lowercase_table_20_checked: "list_all lowercase_entry lowercase_table_20"
  unfolding lowercase_table_20_def by (simp only: table_eval cong: mapped_cong class_in_cong in_ranges_cong if_weak_cong)

lemma lowercase_table_21_checked: "list_all lowercase_entry lowercase_table_21"
  unfolding lowercase_table_21_def by (simp only: table_eval cong: mapped_cong class_in_cong in_ranges_cong if_weak_cong)

lemma lowercase_table_22_checked: "list_all lowercase_entry lowercase_table_22"
  unfolding lowercase_table_22_def by (simp only: table_eval cong: mapped_cong class_in_cong in_ranges_cong if_weak_cong)

lemma lowercase_table_23_checked: "list_all lowercase_entry lowercase_table_23"
  unfolding lowercase_table_23_def by (simp only: table_eval cong: mapped_cong class_in_cong in_ranges_cong if_weak_cong)

lemma lowercase_table_24_checked: "list_all lowercase_entry lowercase_table_24"
  unfolding lowercase_table_24_def by (simp only: table_eval cong: mapped_cong class_in_cong in_ranges_cong if_weak_cong)

lemma lowercase_table_25_checked: "list_all lowercase_entry lowercase_table_25"
  unfolding lowercase_table_25_def by (simp only: table_eval cong: mapped_cong class_in_cong in_ranges_cong if_weak_cong)

lemma lowercase_table_26_checked: "list_all lowercase_entry lowercase_table_26"
  unfolding lowercase_table_26_def by (simp only: table_eval cong: mapped_cong class_in_cong in_ranges_cong if_weak_cong)

lemma lowercase_table_27_checked: "list_all lowercase_entry lowercase_table_27"
  unfolding lowercase_table_27_def by (simp only: table_eval cong: mapped_cong class_in_cong in_ranges_cong if_weak_cong)

lemma lowercase_table_28_checked: "list_all lowercase_entry lowercase_table_28"
  unfolding lowercase_table_28_def by (simp only: table_eval cong: mapped_cong class_in_cong in_ranges_cong if_weak_cong)

lemma lowercase_table_29_checked: "list_all lowercase_entry lowercase_table_29"
  unfolding lowercase_table_29_def by (simp only: table_eval cong: mapped_cong class_in_cong in_ranges_cong if_weak_cong)

lemma lowercase_table_30_checked: "list_all lowercase_entry lowercase_table_30"
  unfolding lowercase_table_30_def by (simp only: table_eval cong: mapped_cong class_in_cong in_ranges_cong if_weak_cong)

lemma lowercase_table_31_checked: "list_all lowercase_entry lowercase_table_31"
  unfolding lowercase_table_31_def by (simp only: table_eval cong: mapped_cong class_in_cong in_ranges_cong if_weak_cong)

lemmas decomposition_checked =
  mapped_entry [OF decomposition_table_00_checked]
  mapped_entry [OF decomposition_table_01_checked]
  mapped_entry [OF decomposition_table_02_checked]
  mapped_entry [OF decomposition_table_03_checked]
  mapped_entry [OF decomposition_table_04_checked]
  mapped_entry [OF decomposition_table_05_checked]
  mapped_entry [OF decomposition_table_06_checked]
  mapped_entry [OF decomposition_table_07_checked]
  mapped_entry [OF decomposition_table_08_checked]
  mapped_entry [OF decomposition_table_09_checked]
  mapped_entry [OF decomposition_table_10_checked]
  mapped_entry [OF decomposition_table_11_checked]
  mapped_entry [OF decomposition_table_12_checked]
  mapped_entry [OF decomposition_table_13_checked]
  mapped_entry [OF decomposition_table_14_checked]
  mapped_entry [OF decomposition_table_15_checked]
  mapped_entry [OF decomposition_table_16_checked]
  mapped_entry [OF decomposition_table_17_checked]
  mapped_entry [OF decomposition_table_18_checked]
  mapped_entry [OF decomposition_table_19_checked]
  mapped_entry [OF decomposition_table_20_checked]
  mapped_entry [OF decomposition_table_21_checked]
  mapped_entry [OF decomposition_table_22_checked]
  mapped_entry [OF decomposition_table_23_checked]
  mapped_entry [OF decomposition_table_24_checked]
  mapped_entry [OF decomposition_table_25_checked]
  mapped_entry [OF decomposition_table_26_checked]
  mapped_entry [OF decomposition_table_27_checked]
  mapped_entry [OF decomposition_table_28_checked]
  mapped_entry [OF decomposition_table_29_checked]
  mapped_entry [OF decomposition_table_30_checked]
  mapped_entry [OF decomposition_table_31_checked]
  mapped_entry [OF decomposition_table_32_checked]
  mapped_entry [OF decomposition_table_33_checked]
  mapped_entry [OF decomposition_table_34_checked]
  mapped_entry [OF decomposition_table_35_checked]
  mapped_entry [OF decomposition_table_36_checked]
  mapped_entry [OF decomposition_table_37_checked]
  mapped_entry [OF decomposition_table_38_checked]
  mapped_entry [OF decomposition_table_39_checked]
  mapped_entry [OF decomposition_table_40_checked]
  mapped_entry [OF decomposition_table_41_checked]
  mapped_entry [OF decomposition_table_42_checked]
  mapped_entry [OF decomposition_table_43_checked]
  mapped_entry [OF decomposition_table_44_checked]
  mapped_entry [OF decomposition_table_45_checked]

lemmas lowercase_checked =
  mapped_entry [OF lowercase_table_00_checked] mapped_entry [OF lowercase_table_01_checked]
  mapped_entry [OF lowercase_table_02_checked] mapped_entry [OF lowercase_table_03_checked]
  mapped_entry [OF lowercase_table_04_checked] mapped_entry [OF lowercase_table_05_checked]
  mapped_entry [OF lowercase_table_06_checked] mapped_entry [OF lowercase_table_07_checked]
  mapped_entry [OF lowercase_table_08_checked] mapped_entry [OF lowercase_table_09_checked]
  mapped_entry [OF lowercase_table_10_checked] mapped_entry [OF lowercase_table_11_checked]
  mapped_entry [OF lowercase_table_12_checked] mapped_entry [OF lowercase_table_13_checked]
  mapped_entry [OF lowercase_table_14_checked] mapped_entry [OF lowercase_table_15_checked]
  mapped_entry [OF lowercase_table_16_checked] mapped_entry [OF lowercase_table_17_checked]
  mapped_entry [OF lowercase_table_18_checked] mapped_entry [OF lowercase_table_19_checked]
  mapped_entry [OF lowercase_table_20_checked] mapped_entry [OF lowercase_table_21_checked]
  mapped_entry [OF lowercase_table_22_checked] mapped_entry [OF lowercase_table_23_checked]
  mapped_entry [OF lowercase_table_24_checked] mapped_entry [OF lowercase_table_25_checked]
  mapped_entry [OF lowercase_table_26_checked] mapped_entry [OF lowercase_table_27_checked]
  mapped_entry [OF lowercase_table_28_checked] mapped_entry [OF lowercase_table_29_checked]
  mapped_entry [OF lowercase_table_30_checked] mapped_entry [OF lowercase_table_31_checked]

subsection \<open>Properties of the tables\<close>

lemma hangul_decomposed:
  assumes "44032 \<le> c" "c \<le> 55203"
  shows "decomposed (hangul_decomposition c)"
proof -
  have jamo: "list_all (\<lambda>d. decomposition d = [d]) [4352..<4547]"
    by (simp only: upt_rec_numeral Suc_numeral arith_simps table_eval
        cong: mapped_cong class_in_cong in_ranges_cong if_weak_cong)
  have j: "decomposition d = [d] \<and> scalar d \<and> d \<noteq> 847" if "4352 \<le> d" "d < 4547" for d
  proof -
    from that have "d \<in> set [4352..<4547]" by (rule upt_member)
    with jamo have "decomposition d = [d]" by (rule list_all_member)
    with that show ?thesis by (simp add: scalar_def)
  qed
  define i where "i = c - 44032"
  have i: "i < 11172" using assms by (simp add: i_def)
  then have l: "i div 588 < 19" by simp
  have v: "(i mod 588) div 28 < 21" by simp
  have t: "i mod 28 < 28" by simp
  have "decomposed [4352 + i div 588, 4449 + (i mod 588) div 28]"
    unfolding decomposed_def using l v by (simp add: j)
  moreover have "decomposed [4352 + i div 588, 4449 + (i mod 588) div 28, 4519 + i mod 28]"
    if "i mod 28 \<noteq> 0"
    unfolding decomposed_def using l v t that by (simp add: j)
  ultimately show ?thesis
    by (simp add: hangul_decomposition_def Let_def i_def [symmetric])
qed

lemma decomposition_cases: "decomposition c = [c] \<or> decomposed (decomposition c)"
proof -
  define R where "R v = (v = [c] \<or> decomposition_entry (c, v))" for v
  have "R (decomposition c)"
    unfolding decomposition_def
    by (intro branch [where R = R]; unfold R_def;
        (rule decomposition_checked | simp add: hangul_decomposed))
  then show ?thesis by (simp add: R_def)
qed

lemma lowercase_cases: "lowercase c = [c] \<or> lowercase_entry (c, lowercase c)"
proof -
  define R where "R v = (v = [c] \<or> lowercase_entry (c, v))" for v
  have "R (lowercase c)"
    unfolding lowercase_def
    by (intro branch [where R = R]; unfold R_def; (rule lowercase_checked | simp))
  then show ?thesis by (simp add: R_def)
qed

lemma decomposition_full: "d \<in> set (decomposition c) \<Longrightarrow> decomposition d = [d]"
  using decomposition_cases [of c] by (auto simp: decomposed_def list_all_iff)

lemma decomposition_scalar: "scalar c \<Longrightarrow> d \<in> set (decomposition c) \<Longrightarrow> scalar d"
  using decomposition_cases [of c] by (auto simp: decomposed_def list_all_iff)

lemma decomposition_cgj: "c \<noteq> 847 \<Longrightarrow> d \<in> set (decomposition c) \<Longrightarrow> d \<noteq> 847"
  using decomposition_cases [of c] by (auto simp: decomposed_def list_all_iff)

lemma lowercase_scalar: "scalar c \<Longrightarrow> e \<in> set (lowercase c) \<Longrightarrow> scalar e"
  using lowercase_cases [of c] by (auto simp: list_all_iff)

lemma lowercase_lowered:
  "decomposition c = [c] \<Longrightarrow> lowercase c = [c] \<or> (ccc c = 0 \<and> lowered (lowercase c))"
  using lowercase_cases [of c] by auto

lemma mark_class:
  assumes "combining_mark c" "c \<noteq> 847"
  shows "0 < ccc c"
proof -
  have "list_all (\<lambda>c. c = 847 \<or> 0 < ccc c) [768..<880]"
    by (simp only: upt_rec_numeral Suc_numeral arith_simps table_eval
        cong: mapped_cong class_in_cong in_ranges_cong if_weak_cong)
  moreover have "c \<in> set [768..<880]"
    using assms(1) by (intro upt_member) (simp_all add: combining_mark_def)
  ultimately have "c = 847 \<or> 0 < ccc c" by (rule list_all_member)
  with assms(2) show ?thesis by simp
qed

lemma sigma_lowered: "ccc 931 = 0 \<and> lowered [962] \<and> lowered [963]"
  by (simp only: table_eval cong: mapped_cong class_in_cong in_ranges_cong if_weak_cong)

subsection \<open>Canonical ordering\<close>

lemma set_place: "set (place c xs) = insert c (set xs)"
  by (induction xs) auto

lemma set_canonical_order: "set (canonical_order s) = set s"
  by (induction s) (simp_all add: canonical_order_def set_place)

lemma ordered_Cons:
  "ordered (d # xs) = ((xs = [] \<or> \<not> (0 < ccc (hd xs) \<and> ccc (hd xs) < ccc d)) \<and> ordered xs)"
  by (cases xs) simp_all

lemma hd_place:
  "hd (place c xs) = (if xs \<noteq> [] \<and> 0 < ccc (hd xs) \<and> ccc (hd xs) < ccc c then hd xs else c)"
  by (cases xs) simp_all

lemma place_not_Nil: "place c xs \<noteq> []"
  by (cases xs) simp_all

lemma ordered_place: "ordered xs \<Longrightarrow> ordered (place c xs)"
proof (induction xs)
  case Nil
  show ?case by simp
next
  case (Cons d ds)
  from Cons.prems have ds: "ordered ds" by (simp add: ordered_Cons)
  show ?case
  proof (cases "0 < ccc d \<and> ccc d < ccc c")
    case True
    have "ordered (place c ds)" using Cons.IH ds by simp
    moreover have "\<not> (0 < ccc (hd (place c ds)) \<and> ccc (hd (place c ds)) < ccc d)"
      using True Cons.prems by (auto simp: hd_place ordered_Cons)
    ultimately have "ordered (d # place c ds)" by (simp add: ordered_Cons)
    with True show ?thesis by simp
  next
    case False
    then have "place c (d # ds) = c # d # ds" by auto
    moreover have "ordered (c # d # ds)" using False Cons.prems by auto
    ultimately show ?thesis by (simp only:)
  qed
qed

lemma ordered_canonical_order: "ordered (canonical_order s)"
  by (induction s) (simp_all add: canonical_order_def ordered_place)

lemma canonical_order_id: "ordered x \<Longrightarrow> canonical_order x = x"
proof (induction x)
  case Nil
  show ?case by (simp add: canonical_order_def)
next
  case (Cons c xs)
  then have xs: "canonical_order xs = xs" by (simp add: ordered_Cons)
  have "canonical_order (c # xs) = place c (canonical_order xs)"
    by (simp add: canonical_order_def)
  also have "\<dots> = place c xs" by (simp only: xs)
  also have "\<dots> = c # xs" using Cons.prems by (cases xs) auto
  finally show ?case .
qed

lemma ordered_skip:
  assumes "ordered (c # d # ds)" "0 < ccc d"
  shows "ordered (c # ds)"
proof (cases ds)
  case Nil
  then show ?thesis by simp
next
  case (Cons e es)
  from assms have cd: "ccc c \<le> ccc d" by simp
  from assms Cons have de: "\<not> (0 < ccc e \<and> ccc e < ccc d)" and o: "ordered (e # es)" by simp_all
  from cd de have "\<not> (0 < ccc e \<and> ccc e < ccc c)" by auto
  with o Cons show ?thesis by simp
qed

lemma ordered_filter_Cons:
  "ordered (c # xs) \<Longrightarrow> \<forall>r \<in> set xs. \<not> keep r \<longrightarrow> 0 < ccc r \<Longrightarrow>
   ordered (c # filter keep xs)"
proof (induction xs arbitrary: c)
  case Nil
  show ?case by simp
next
  case (Cons d ds)
  show ?case
  proof (cases "keep d")
    case True
    have "ordered (d # filter keep ds)"
      using Cons.IH [of d] Cons.prems by simp
    with True Cons.prems(1) show ?thesis by simp
  next
    case False
    then have "0 < ccc d" using Cons.prems(2) by simp
    from ordered_skip [OF Cons.prems(1) this] have "ordered (c # ds)" .
    from Cons.IH [OF this] Cons.prems(2) False show ?thesis by simp
  qed
qed

lemma ordered_filter:
  "ordered xs \<Longrightarrow> \<forall>r \<in> set xs. \<not> keep r \<longrightarrow> 0 < ccc r \<Longrightarrow> ordered (filter keep xs)"
proof (induction xs)
  case Nil
  show ?case by simp
next
  case (Cons c cs)
  show ?case
  proof (cases "keep c")
    case True
    with ordered_filter_Cons [of c cs keep] Cons.prems show ?thesis by simp
  next
    case False
    from Cons.prems(1) have "ordered cs" by (simp add: ordered_Cons)
    with Cons.IH Cons.prems(2) False show ?thesis by simp
  qed
qed

lemma ordered_append1: "ordered (xs @ ys) \<Longrightarrow> ordered xs"
proof (induction xs rule: ordered.induct)
  case 1
  show ?case by simp
next
  case (2 c)
  show ?case by simp
next
  case (3 c d ds)
  then show ?case by simp
qed

lemma ordered_dropWhile: "ordered xs \<Longrightarrow> ordered (dropWhile P xs)"
  by (induction xs) (auto simp: ordered_Cons)

lemma trim_prefix: "\<exists>zs. dropWhile is_space s = trim s @ zs"
proof -
  let ?r = "rev (dropWhile is_space s)"
  have "rev ?r = rev (dropWhile is_space ?r) @ rev (takeWhile is_space ?r)"
    by (metis rev_append takeWhile_dropWhile_id)
  then have "dropWhile is_space s = trim s @ rev (takeWhile is_space ?r)"
    by (simp only: trim_def rev_rev_ident)
  then show ?thesis ..
qed

lemma ordered_trim: "ordered xs \<Longrightarrow> ordered (trim xs)"
proof -
  assume "ordered xs"
  then have o: "ordered (dropWhile is_space xs)" by (rule ordered_dropWhile)
  from trim_prefix [of xs] obtain zs where "dropWhile is_space xs = trim xs @ zs" ..
  with o show ?thesis using ordered_append1 by metis
qed

lemma set_trim: "set (trim s) \<subseteq> set s"
proof -
  have "set (trim s) \<subseteq> set (dropWhile is_space s)"
    unfolding trim_def by (auto dest: set_dropWhileD)
  also have "\<dots> \<subseteq> set s" by (auto dest: set_dropWhileD)
  finally show ?thesis .
qed

lemma trim_fixed:
  assumes "s = [] \<or> (\<not> is_space (hd s) \<and> \<not> is_space (last s))"
  shows "trim s = s"
proof (cases "s = []")
  case True
  then show ?thesis by (simp add: trim_def)
next
  case False
  with assms have h: "\<not> is_space (hd s)" and l: "\<not> is_space (last s)" by simp_all
  have "dropWhile is_space s = s" using h False by (cases s) simp_all
  moreover have "dropWhile is_space (rev s) = rev s"
    using l False by (cases "rev s") (simp_all add: last_rev [symmetric] hd_rev)
  ultimately show ?thesis by (simp add: trim_def)
qed

lemma trim_trim: "trim (trim s) = trim s"
proof (rule trim_fixed, cases "trim s = []")
  case True
  then show "trim s = [] \<or> (\<not> is_space (hd (trim s)) \<and> \<not> is_space (last (trim s)))" by simp
next
  case False
  let ?d = "dropWhile is_space s"
  let ?r = "dropWhile is_space (rev ?d)"
  have t: "trim s = rev ?r" by (simp add: trim_def)
  from False t have r: "?r \<noteq> []" by simp
  then have "\<not> is_space (hd ?r)" by (rule hd_dropWhile)
  then have l: "\<not> is_space (last (trim s))" using t r by (simp add: last_rev)
  have d: "?d \<noteq> []"
  proof
    assume "?d = []"
    then have "?r = []" by (simp only: rev.simps dropWhile.simps)
    with r show False by simp
  qed
  then have hd: "\<not> is_space (hd ?d)" by (rule hd_dropWhile)
  from trim_prefix [of s] obtain zs where z: "?d = trim s @ zs" ..
  with False have "hd ?d = hd (trim s)" by simp
  with hd have "\<not> is_space (hd (trim s))" by simp
  with l show "trim s = [] \<or> (\<not> is_space (hd (trim s)) \<and> \<not> is_space (last (trim s)))" by simp
qed

subsection \<open>Code points and code units\<close>

lemma code_points_Cons: "\<not> high_surrogate a \<Longrightarrow> code_points (a # s) = a # code_points s"
  by (cases s) simp_all

lemma utf16_Nil: "utf16 [] = []"
  by (simp add: utf16_def)

lemma utf16_Cons: "utf16 (c # x) = utf16_point c @ utf16 x"
  by (simp add: utf16_def)

lemma utf16_append: "utf16 (x @ y) = utf16 x @ utf16 y"
  by (simp add: utf16_def)

lemma utf16_point_pair:
  assumes "scalar c" "\<not> c < 65536"
  shows "high_surrogate (55296 + (c - 65536) div 1024)"
    and "low_surrogate (56320 + (c - 65536) mod 1024)"
    and "65536 + (c - 65536) div 1024 * 1024 + (c - 65536) mod 1024 = c"
proof -
  define n where "n = c - 65536"
  have n: "n < 1024 * 1024" using assms by (simp add: scalar_def n_def)
  then have "n div 1024 < 1024" by (simp only: less_mult_imp_div_less)
  then show "high_surrogate (55296 + (c - 65536) div 1024)"
    by (simp add: high_surrogate_def n_def)
  have "n mod 1024 < 1024" by simp
  then show "low_surrogate (56320 + (c - 65536) mod 1024)"
    by (simp add: low_surrogate_def n_def)
  show "65536 + (c - 65536) div 1024 * 1024 + (c - 65536) mod 1024 = c"
    using assms(2) by simp
qed

lemma code_points_utf16_point:
  assumes "scalar c"
  shows "code_points (utf16_point c @ s) = c # code_points s"
proof (cases "c < 65536")
  case True
  with assms have "\<not> high_surrogate c" by (auto simp: scalar_def high_surrogate_def)
  with True show ?thesis by (simp add: utf16_point_def code_points_Cons)
next
  case False
  from utf16_point_pair [OF assms False] False show ?thesis
    by (simp add: utf16_point_def)
qed

lemma code_points_utf16: "list_all scalar x \<Longrightarrow> code_points (utf16 x) = x"
  by (induction x) (simp_all add: utf16_Nil utf16_Cons code_points_utf16_point)

lemma well_formed_utf16: "list_all scalar x \<Longrightarrow> well_formed (utf16 x)"
  by (simp add: well_formed_def code_points_utf16)

lemma code_points_member: "c \<in> set (code_points s) \<Longrightarrow> c < 65536 \<Longrightarrow> c \<in> set s"
  by (induction s rule: code_points.induct) (auto split: if_splits)

lemma strip_marks_utf16:
  "strip_marks (utf16 x) = utf16 (filter (\<lambda>c. \<not> combining_mark c) x)"
  by (induction x)
    (auto simp: strip_marks_def utf16_Nil utf16_Cons utf16_point_def combining_mark_def)

lemma utf16_point_space: "is_space c \<Longrightarrow> utf16_point c = [c]"
  by (auto simp: is_space_def utf16_point_def)

lemma utf16_point_no_space:
  assumes "scalar c" "\<not> is_space c"
  shows "utf16_point c \<noteq> [] \<and> \<not> is_space (hd (utf16_point c)) \<and> \<not> is_space (last (utf16_point c))"
proof (cases "c < 65536")
  case True
  with assms(2) show ?thesis by (simp add: utf16_point_def)
next
  case False
  from utf16_point_pair(1,2) [OF assms(1) False] False show ?thesis
    by (auto simp: utf16_point_def high_surrogate_def low_surrogate_def is_space_def)
qed

lemma dropWhile_utf16:
  "list_all scalar x \<Longrightarrow> dropWhile is_space (utf16 x) = utf16 (dropWhile is_space x)"
proof (induction x)
  case Nil
  show ?case by (simp add: utf16_def)
next
  case (Cons c x)
  show ?case
  proof (cases "is_space c")
    case True
    with Cons show ?thesis by (simp add: utf16_Cons utf16_point_space)
  next
    case False
    from Cons.prems have "scalar c" by simp
    from utf16_point_no_space [OF this False]
    have "dropWhile is_space (utf16_point c @ utf16 x) = utf16_point c @ utf16 x"
      by (cases "utf16_point c") simp_all
    with False show ?thesis by (simp add: utf16_Cons)
  qed
qed

lemma drop_tail_utf16:
  "list_all scalar x \<Longrightarrow>
   rev (dropWhile is_space (rev (utf16 x))) = utf16 (rev (dropWhile is_space (rev x)))"
proof (induction x rule: rev_induct)
  case Nil
  show ?case by (simp add: utf16_def)
next
  case (snoc c x)
  show ?case
  proof (cases "is_space c")
    case True
    with snoc show ?thesis by (simp add: utf16_append utf16_Cons utf16_point_space utf16_def)
  next
    case False
    from snoc.prems have "scalar c" by simp
    from utf16_point_no_space [OF this False]
    have "dropWhile is_space (rev (utf16_point c) @ rev (utf16 x))
        = rev (utf16_point c) @ rev (utf16 x)"
      by (cases "rev (utf16_point c)") (simp_all add: hd_rev)
    then have "rev (dropWhile is_space (rev (utf16 (x @ [c])))) = utf16 (x @ [c])"
      by (simp add: utf16_def)
    with False show ?thesis by simp
  qed
qed

lemma scalar_dropWhile: "list_all scalar x \<Longrightarrow> list_all scalar (dropWhile P x)"
  by (induction x) simp_all

lemma trim_utf16: "list_all scalar x \<Longrightarrow> trim (utf16 x) = utf16 (trim x)"
  by (simp add: trim_def dropWhile_utf16 drop_tail_utf16 scalar_dropWhile)

subsection \<open>Lowercasing\<close>

text \<open>
  The replacement of a code point without decomposition is the code point itself, which
  then is in lowercase, or a sequence of starters that are in lowercase.
\<close>

lemma lower_step:
  assumes "decomposition c = [c]"
    and r: "r = (if c = 931 then [if final_sigma b a then 962 else 963] else lowercase c)"
  shows "(r = [c] \<and> c \<noteq> 931 \<and> lowercase c = [c]) \<or> (ccc c = 0 \<and> lowered r)"
proof (cases "c = 931")
  case True
  with sigma_lowered show ?thesis by (simp add: r)
next
  case False
  with lowercase_lowered [OF assms(1)] show ?thesis by (auto simp: r)
qed

lemma lowered_starters: "lowered r \<Longrightarrow> r \<noteq> [] \<and> (\<forall>e \<in> set r. ccc e = 0)"
  by (simp add: lowered_def list_all_iff)

lemma lower_points_Cons:
  "lower_points b (c # a) =
     (if c = 931 then [if final_sigma b a then 962 else 963] else lowercase c)
     @ lower_points (c # b) a"
  by simp

lemma lower_points_fixed:
  "\<forall>c \<in> set x. c \<noteq> 931 \<and> lowercase c = [c] \<Longrightarrow> lower_points b x = x"
  by (induction x arbitrary: b) simp_all

lemma lower_points_members:
  assumes "\<forall>c \<in> set x. decomposition c = [c] \<and> \<not> combining_mark c \<and> scalar c"
    and "e \<in> set (lower_points b x)"
  shows "decomposition e = [e] \<and> \<not> combining_mark e \<and> lowercase e = [e] \<and> e \<noteq> 931 \<and> scalar e"
  using assms
proof (induction x arbitrary: b)
  case Nil
  then show ?case by simp
next
  case (Cons c a)
  define r where "r = (if c = 931 then [if final_sigma b a then 962 else 963] else lowercase c)"
  from Cons.prems(2) have "e \<in> set r \<or> e \<in> set (lower_points (c # b) a)"
    by (simp add: r_def)
  then show ?case
  proof
    assume e: "e \<in> set r"
    from Cons.prems(1) have c: "decomposition c = [c]" "\<not> combining_mark c" "scalar c"
      by simp_all
    have "(r = [c] \<and> c \<noteq> 931 \<and> lowercase c = [c]) \<or> (ccc c = 0 \<and> lowered r)"
      using c(1) r_def by (rule lower_step)
    then show ?thesis
    proof
      assume "r = [c] \<and> c \<noteq> 931 \<and> lowercase c = [c]"
      with e c show ?thesis by simp
    next
      assume "ccc c = 0 \<and> lowered r"
      with e show ?thesis by (simp add: lowered_def list_all_iff)
    qed
  next
    assume "e \<in> set (lower_points (c # b) a)"
    with Cons.IH [of "c # b"] Cons.prems(1) show ?thesis by simp
  qed
qed

lemma ordered_starters:
  "\<forall>e \<in> set r. ccc e = 0 \<Longrightarrow> ordered ys \<Longrightarrow> ordered (r @ ys)"
  by (induction r) (simp_all add: ordered_Cons)

lemma hd_lower_points:
  assumes "decomposition c = [c]"
  shows "lower_points b (c # a) \<noteq> []
       \<and> (hd (lower_points b (c # a)) = c \<or> ccc (hd (lower_points b (c # a))) = 0)"
proof -
  define r where "r = (if c = 931 then [if final_sigma b a then 962 else 963] else lowercase c)"
  have "(r = [c] \<and> c \<noteq> 931 \<and> lowercase c = [c]) \<or> (ccc c = 0 \<and> lowered r)"
    using assms r_def by (rule lower_step)
  then have "r \<noteq> [] \<and> (hd r = c \<or> ccc (hd r) = 0)"
    using lowered_starters [of r] by auto
  moreover have "lower_points b (c # a) = r @ lower_points (c # b) a"
    by (simp add: r_def)
  ultimately show ?thesis by simp
qed

lemma ordered_lower_points:
  "ordered x \<Longrightarrow> \<forall>c \<in> set x. decomposition c = [c] \<Longrightarrow> ordered (lower_points b x)"
proof (induction x arbitrary: b)
  case Nil
  show ?case by simp
next
  case (Cons c a)
  define r where "r = (if c = 931 then [if final_sigma b a then 962 else 963] else lowercase c)"
  define rest where "rest = lower_points (c # b) a"
  have split: "lower_points b (c # a) = r @ rest" by (simp add: r_def rest_def)
  from Cons.prems have c: "decomposition c = [c]" and a: "ordered a" by (simp_all add: ordered_Cons)
  have rest: "ordered rest" unfolding rest_def using Cons.IH [OF a] Cons.prems(2) by simp
  have "(r = [c] \<and> c \<noteq> 931 \<and> lowercase c = [c]) \<or> (ccc c = 0 \<and> lowered r)"
    using c r_def by (rule lower_step)
  then have "ordered (r @ rest)"
  proof
    assume r: "r = [c] \<and> c \<noteq> 931 \<and> lowercase c = [c]"
    have "rest = [] \<or> \<not> (0 < ccc (hd rest) \<and> ccc (hd rest) < ccc c)"
    proof (cases a)
      case Nil
      then show ?thesis by (simp add: rest_def)
    next
      case (Cons d ds)
      with Cons.prems(2) have "decomposition d = [d]" by simp
      from hd_lower_points [OF this, of "c # b" ds]
      have "hd rest = d \<or> ccc (hd rest) = 0" by (simp add: rest_def Cons)
      moreover have "\<not> (0 < ccc d \<and> ccc d < ccc c)" using Cons.prems(1) Cons by simp
      ultimately show ?thesis by auto
    qed
    with rest r show ?thesis by (simp add: ordered_Cons)
  next
    assume "ccc c = 0 \<and> lowered r"
    with lowered_starters [of r] rest show ?thesis by (simp add: ordered_starters)
  qed
  with split show ?case by simp
qed

subsection \<open>Idempotence\<close>

lemma concat_map_singletons: "\<forall>c \<in> set t. f c = [c] \<Longrightarrow> concat (map f t) = t"
  by (induction t) simp_all

text \<open>On a well-formed string the four steps work on the code points.\<close>

lemma norm_js_points:
  assumes "well_formed s"
  shows "norm_js s = utf16 (norm_points (code_points s))"
proof -
  define x1 where "x1 = canonical_order (concat (map decomposition (code_points s)))"
  define x2 where "x2 = filter (\<lambda>c. \<not> combining_mark c) x1"
  define x3 where "x3 = lower_points [] x2"
  have s: "\<forall>c \<in> set (code_points s). scalar c"
    using assms by (simp add: well_formed_def list_all_iff)
  have a1: "decomposition d = [d] \<and> scalar d" if "d \<in> set x1" for d
    using that s decomposition_scalar decomposition_full
    by (auto simp: x1_def set_canonical_order)
  then have a2: "\<forall>d \<in> set x2. decomposition d = [d] \<and> \<not> combining_mark d \<and> scalar d"
    by (simp add: x2_def)
  then have s2: "list_all scalar x2" by (simp add: list_all_iff)
  have s3: "list_all scalar x3"
    unfolding list_all_iff x3_def using lower_points_members [OF a2] by blast
  have "nfd s = utf16 x1" by (simp add: nfd_def x1_def)
  then have "strip_marks (nfd s) = utf16 x2" by (simp add: strip_marks_utf16 x2_def)
  then have "toLowerCase (strip_marks (nfd s)) = utf16 x3"
    by (simp add: toLowerCase_def code_points_utf16 [OF s2] x3_def)
  then have "norm_js s = utf16 (trim x3)" by (simp add: norm_js_def trim_utf16 [OF s3])
  then show ?thesis by (simp add: norm_points_def x1_def x2_def x3_def)
qed

text \<open>
  The normalized code points of a string without U+034F have no decomposition, are in
  canonical order, outside the stripped range and in lowercase, and no white space is
  left at the ends.
\<close>

lemma norm_points_normal:
  assumes "list_all scalar x" "847 \<notin> set x"
  defines "t \<equiv> norm_points x"
  shows "\<forall>e \<in> set t. decomposition e = [e] \<and> \<not> combining_mark e \<and> lowercase e = [e]
           \<and> e \<noteq> 931 \<and> scalar e"
    and "ordered t" and "trim t = t"
proof -
  define x0 where "x0 = concat (map decomposition x)"
  define x1 where "x1 = canonical_order x0"
  define x2 where "x2 = filter (\<lambda>c. \<not> combining_mark c) x1"
  define x3 where "x3 = lower_points [] x2"
  have t: "t = trim x3" by (simp add: t_def norm_points_def x0_def x1_def x2_def x3_def)
  have a0: "decomposition d = [d] \<and> scalar d \<and> d \<noteq> 847" if "d \<in> set x0" for d
  proof -
    from that obtain c where c: "c \<in> set x" "d \<in> set (decomposition c)"
      by (auto simp: x0_def)
    from c(1) assms(1,2) have "scalar c" "c \<noteq> 847" by (auto simp: list_all_iff)
    with c(2) show ?thesis
      using decomposition_full decomposition_scalar decomposition_cgj by blast
  qed
  have s1: "set x1 = set x0" by (simp add: x1_def set_canonical_order)
  have a2: "\<forall>d \<in> set x2. decomposition d = [d] \<and> \<not> combining_mark d \<and> scalar d"
    using a0 s1 by (simp add: x2_def)
  have a3: "decomposition e = [e] \<and> \<not> combining_mark e \<and> lowercase e = [e] \<and> e \<noteq> 931
      \<and> scalar e" if "e \<in> set x3" for e
    using lower_points_members [OF a2] that unfolding x3_def by blast
  show "\<forall>e \<in> set t. decomposition e = [e] \<and> \<not> combining_mark e \<and> lowercase e = [e]
      \<and> e \<noteq> 931 \<and> scalar e"
    using a3 set_trim [of x3] t by blast
  have o1: "ordered x1" by (simp add: x1_def ordered_canonical_order)
  have "\<forall>r \<in> set x1. \<not> \<not> combining_mark r \<longrightarrow> 0 < ccc r"
    using a0 s1 mark_class by auto
  with o1 have o2: "ordered x2" unfolding x2_def by (rule ordered_filter)
  have o3: "ordered x3" unfolding x3_def using o2 a2 by (simp add: ordered_lower_points)
  show "ordered t" unfolding t using o3 by (rule ordered_trim)
  show "trim t = t" unfolding t by (rule trim_trim)
qed

lemma norm_points_fixed:
  assumes "\<forall>e \<in> set t. decomposition e = [e] \<and> \<not> combining_mark e \<and> lowercase e = [e]
           \<and> e \<noteq> 931 \<and> scalar e"
    and "ordered t" and "trim t = t"
  shows "norm_points t = t"
proof -
  have "concat (map decomposition t) = t" using assms(1) by (simp add: concat_map_singletons)
  moreover have "canonical_order t = t" using assms(2) by (rule canonical_order_id)
  moreover have "filter (\<lambda>c. \<not> combining_mark c) t = t" using assms(1) by simp
  moreover have "lower_points [] t = t" using assms(1) by (simp add: lower_points_fixed)
  ultimately show ?thesis using assms(3) by (simp add: norm_points_def)
qed

text \<open>
  Claim C8, as amended. For a well-formed string without U+034F (combining grapheme
  joiner), normalizing the normalized string returns it unchanged.
\<close>

theorem norm_idempotent:
  assumes "well_formed s" "847 \<notin> set s"
  shows "norm_js (norm_js s) = norm_js s"
proof -
  define x where "x = code_points s"
  define t where "t = norm_points x"
  have x: "list_all scalar x" using assms(1) by (simp add: well_formed_def x_def)
  have "847 \<notin> set x" using assms(2) code_points_member [of 847 s] by (auto simp: x_def)
  from norm_points_normal [OF x this]
  have n: "\<forall>e \<in> set t. decomposition e = [e] \<and> \<not> combining_mark e \<and> lowercase e = [e]
      \<and> e \<noteq> 931 \<and> scalar e" "ordered t" "trim t = t"
    by (simp_all add: t_def)
  from n(1) have st: "list_all scalar t" by (simp add: list_all_iff)
  have 1: "norm_js s = utf16 t" using norm_js_points [OF assms(1)] by (simp add: t_def x_def)
  have "norm_js (utf16 t) = utf16 (norm_points (code_points (utf16 t)))"
    using well_formed_utf16 [OF st] by (rule norm_js_points)
  also have "\<dots> = utf16 (norm_points t)" by (simp only: code_points_utf16 [OF st])
  also have "\<dots> = utf16 t" by (simp only: norm_points_fixed [OF n])
  finally show ?thesis by (simp only: 1)
qed

lemmas norm_eval =
  norm_js_def nfd_def strip_marks_def toLowerCase_def trim_def canonical_order_def utf16_def
  utf16_point_def high_surrogate_def low_surrogate_def final_sigma_def hangul_decomposition_def
  is_space_def Let_def table_eval

theorem norm_idempotent_witness:
  "well_formed [32, 77, 97, 241, 97, 110, 97, 32]
   \<and> 847 \<notin> set [32, 77, 97, 241, 97, 110, 97, 32 :: nat]
   \<and> norm_js [32, 77, 97, 241, 97, 110, 97, 32] = [109, 97, 110, 97, 110, 97]
   \<and> norm_js [109, 97, 110, 97, 110, 97] = [109, 97, 110, 97, 110, 97]"
proof -
  have w: "well_formed [32, 77, 97, 241, 97, 110, 97, 32]"
    by (simp add: well_formed_def high_surrogate_def scalar_def)
  have c: "847 \<notin> set [32, 77, 97, 241, 97, 110, 97, 32 :: nat]" by simp
  have n: "norm_js [32, 77, 97, 241, 97, 110, 97, 32] = [109, 97, 110, 97, 110, 97]"
    by (simp add: norm_eval cong: mapped_cong class_in_cong in_ranges_cong)
  from norm_idempotent [OF w c] w c n show ?thesis by simp
qed

text \<open>
  Claim C8 as stated fails. U+034F lies in the stripped range U+0300 to U+036F but has
  combining class 0: in \<open>a U+1DC0 U+034F U+1DC2\<close> it keeps the mark of class 230 before
  the mark of class 220. Stripping it leaves the two adjacent and out of canonical order,
  and normalizing that result once more exchanges them.
\<close>

theorem norm_not_idempotent:
  "norm_js [97, 7616, 847, 7618] = [97, 7616, 7618]
   \<and> norm_js [97, 7616, 7618] = [97, 7618, 7616]"
  by (simp add: norm_eval cong: mapped_cong class_in_cong in_ranges_cong)

text \<open>
  The string has to be well formed. In \<open>D834 U+0301 DD5E\<close> the two surrogates are
  unpaired; stripping the mark between them leaves the pair that stands for U+1D15E, and
  normalizing that result once more decomposes it into U+1D157 and U+1D165.
\<close>

lemma norm_unpaired_surrogates:
  "norm_js [55348, 769, 56670] = [55348, 56670]
   \<and> norm_js [55348, 56670] = [55348, 56663, 55348, 56677]"
  by (simp add: norm_eval cong: mapped_cong class_in_cong in_ranges_cong)

text \<open>
  Some values of \<open>norm\<close>: of a word that begins with U+00C9 (E with acute), of a Greek
  word that ends in a capital sigma, of U+0130 (I with dot above) before \<open>s\<close>, of the
  Hangul syllable U+D55C and of the capital letter U+10400 of the Deseret alphabet.
\<close>

lemma norm_js_values:
  "norm_js [201, 99, 111, 108, 101] = [101, 99, 111, 108, 101]"
  "norm_js [927, 916, 927, 931] = [959, 948, 959, 962]"
  "norm_js [304, 115] = [105, 115]"
  "norm_js [54620] = [4370, 4449, 4523]"
  "norm_js [55297, 56320] = [55297, 56360]"
  by (simp_all add: norm_eval cong: mapped_cong class_in_cong in_ranges_cong)

end
